theory Spec2Isabelle
  imports Main "HOL-Library.Word"
begin

unbundle bit_operations_syntax

section \<open>SOFS13: data model\<close>

text \<open>
  A shallow embedding of the internal object layer of SOFS13 (sofs\_basicoper.c, the
  ifuncs of levels 1 to 4 and the formatter mkfs\_sofs13.c). All on-disk integers are
  fixed-width machine words, so \<open>+\<close>, \<open>-\<close> and \<open>*\<close> wrap as in C.
\<close>

type_synonym u8 = "8 word"
type_synonym u16 = "16 word"
type_synonym u32 = "32 word"

text \<open>
  The error codes the functions return (as negative integers in C). A function that
  returns an \<open>int\<close> status is modelled with a result in \<open>errno + 'a\<close>: \<open>Inl e\<close> is
  the return of \<open>-e\<close>, \<open>Inr x\<close> is the return of 0 with the new state and the values
  written through the output pointers. Two values are not C return values:
  \<open>UNDEFINED\<close> marks a run that leaves what C defines or what this model follows (the
  source goes on after a call whose failure it ignores and reads what that call has not
  written, indexes an array out of its bounds, or reads a cluster through a view of the
  union it was not written with); \<open>ENDLESS\<close> marks a loop that does not end.
\<close>

datatype errno =
    EINVAL | EACCES | EPERM | ENOSPC | ENOENT | ENOTDIR | EEXIST | EMLINK | EFBIG
  | ENAMETOOLONG | ENOTEMPTY | EIO | ELIBBAD
  | EIUININVAL | EFDININVAL | ELDCININVAL | EDCMINVAL | EDCARDYIL | EDCNOTIL
  | EDCNALINVAL | ESBDZINVAL | ESBFCCINVAL | EFCTINVAL | EDIRINVAL | EDEINVAL
  | UNDEFINED | ENDLESS

text \<open>An output parameter passed by address: either the null pointer or a location.\<close>

datatype pointer = NULL | Loc

text \<open>
  The compile-time constants. The headers that define them (sofs\_const.h, sofs\_inode.h,
  sofs\_datacluster.h, sofs\_direntry.h) are not part of the sources at hand, so every
  function takes them as a parameter \<open>K\<close>.
\<close>

record sofs_const =
  BLOCK_SIZE :: u32
  BLOCKS_PER_CLUSTER :: u32
  CLUSTER_SIZE :: u32
  BITS_PER_BLOCK :: u32
  IPB :: u32
  RPB :: u32
  RPC :: u32
  DPC :: u32
  BSLPC :: u32
  N_DIRECT :: u32
  MAX_NAME :: nat
  MAX_FILE_CLUSTERS :: u32
  MAX_FILE_SIZE :: u32
  NULL_INODE :: u32
  NULL_CLUSTER :: u32
  INODE_RD_USR :: u16
  INODE_WR_USR :: u16
  INODE_EX_USR :: u16
  INODE_RD_GRP :: u16
  INODE_WR_GRP :: u16
  INODE_EX_GRP :: u16
  INODE_RD_OTH :: u16
  INODE_WR_OTH :: u16
  INODE_EX_OTH :: u16
  INODE_DIR :: u16
  INODE_FILE :: u16
  INODE_SYMLINK :: u16
  INODE_TYPE_MASK :: u16
  INODE_FREE :: u16
  FREE_CLT :: u32
  ALLOC_CLT :: u32

definition sofs13 :: sofs_const where
  \<comment> \<open>Modelled from the spec: the headers with the constants are missing. The relations
      are those of section 3 of the specification (CLUSTER\_SIZE = BLOCK\_SIZE *
      BLOCKS\_PER\_CLUSTER, RPC = RPB * BLOCKS\_PER\_CLUSTER, BSLPC = CLUSTER\_SIZE,
      MAX\_FILE\_CLUSTERS = N\_DIRECT + RPC + RPC * RPC, MAX\_FILE\_SIZE =
      MAX\_FILE\_CLUSTERS * BSLPC, NULL\_INODE = NULL\_CLUSTER = 0xFFFFFFFF) at the sizes
      of a 512-byte block, a 64-byte inode and a 64-byte directory entry; the bit positions
      of the mode field are the ones the shifts in soAccessGranted and soReadInode test.\<close>
  "sofs13 = \<lparr>
     BLOCK_SIZE = 512, BLOCKS_PER_CLUSTER = 4, CLUSTER_SIZE = 2048, BITS_PER_BLOCK = 4096,
     IPB = 8, RPB = 128, RPC = 512, DPC = 32, BSLPC = 2048, N_DIRECT = 7, MAX_NAME = 59,
     MAX_FILE_CLUSTERS = 262663, MAX_FILE_SIZE = 537933824,
     NULL_INODE = 0xFFFFFFFF, NULL_CLUSTER = 0xFFFFFFFF,
     INODE_RD_USR = 0x100, INODE_WR_USR = 0x80, INODE_EX_USR = 0x40,
     INODE_RD_GRP = 0x20, INODE_WR_GRP = 0x10, INODE_EX_GRP = 0x8,
     INODE_RD_OTH = 0x4, INODE_WR_OTH = 0x2, INODE_EX_OTH = 0x1,
     INODE_DIR = 0x800, INODE_FILE = 0x400, INODE_SYMLINK = 0x200,
     INODE_TYPE_MASK = 0xE00, INODE_FREE = 0x1000,
     FREE_CLT = 0, ALLOC_CLT = 1 \<rparr>"

subsection \<open>The superblock, the inodes and the tables\<close>

record fCNode =
  cache_idx :: u32
  cache :: "u32 list"

text \<open>
  struct soSuperBlock (sofs\_superblock.h). The volume name is \<open>name\<close> in the source;
  the padding \<open>reserved\<close> is left out.
\<close>

record SOSuperBlock =
  magic :: u32
  version :: u32
  sb_name :: string
  ntotal :: u32
  mstat :: u32
  itable_start :: u32
  itable_size :: u32
  itotal :: u32
  ifree :: u32
  ihead :: u32
  itail :: u32
  ciutable_start :: u32
  ciutable_size :: u32
  dzone_retriev :: fCNode
  dzone_insert :: fCNode
  fctable_start :: u32
  fctable_size :: u32
  fctable_pos :: u32
  dzone_start :: u32
  dzone_total :: u32
  dzone_free :: u32

text \<open>
  SOInode. The unions \<open>vD1\<close> (atime or prev) and \<open>vD2\<close> (mtime or next) are one
  32-bit word each, read either way. \<open>group\<close> and \<open>size\<close> of the source are
  \<open>group'\<close> and \<open>size'\<close> here.
\<close>

record SOInode =
  mode :: u16
  refcount :: u16
  owner :: u32
  group' :: u32
  size' :: u32
  clucount :: u32
  vD1 :: u32
  vD2 :: u32
  d :: "u32 list"
  i1 :: u32
  i2 :: u32

text \<open>
  A directory entry, with the fields \<open>name\<close> and \<open>nInode\<close> of the source as
  \<open>de_name\<close> and \<open>de_nInode\<close>: the name is an array of \<open>MAX_NAME + 1\<close> characters,
  padded with null characters.
\<close>

record SODirEntry =
  de_name :: "char list"
  de_nInode :: u32

text \<open>
  SODataClust is a union: a cluster is a byte stream (\<open>data\<close>), an array of \<open>RPC\<close>
  references (\<open>ref\<close>) or an array of \<open>DPC\<close> directory entries (\<open>de\<close>). A cluster is
  kept in the view it was written with. It can be read through that view; a cluster of
  null bytes reads as null references and as entries with a null name and inode 0; any
  other reading depends on the layout of the union in memory and is not modelled.
\<close>

datatype SODataClust = DataC "u8 list" | RefC "u32 list" | DirC "SODirEntry list"

definition ref_view :: "sofs_const \<Rightarrow> SODataClust \<Rightarrow> u32 list option" where
  "ref_view K c = (case c of
       RefC rs \<Rightarrow> Some rs
     | DataC bs \<Rightarrow> if list_all (\<lambda>b. b = 0) bs then Some (replicate (unat (RPC K)) 0) else None
     | DirC es \<Rightarrow> None)"

definition de_view :: "sofs_const \<Rightarrow> SODataClust \<Rightarrow> SODirEntry list option" where
  "de_view K c = (case c of
       DirC es \<Rightarrow> Some es
     | DataC bs \<Rightarrow> if list_all (\<lambda>b. b = 0) bs
         then Some (replicate (unat (DPC K)) \<lparr>de_name = replicate (MAX_NAME K + 1) (CHR 0x00), de_nInode = 0\<rparr>)
         else None
     | RefC rs \<Rightarrow> None)"

text \<open>
  The device, seen through the object cache of sofs\_basicoper.c: the superblock held in
  memory, the table of inodes as blocks of \<open>IPB\<close> inodes, the cluster-to-inode map as
  blocks of \<open>RPB\<close> entries, the bitmap as blocks of \<open>BLOCK_SIZE\<close> bytes, and the data
  zone as the list of its clusters, by logical number.

  The three tables are reached through one slot of the object cache each, and the
  functions modelled here store a slot after changing it and before loading another block
  into it; so a load yields the block as the device has it: \<open>soLoadBlock...\<close> returns
  the content of the block and \<open>soStoreBlock...\<close> writes a block back.

  The clusters of references are reached through two slots (\<open>sngIndRefClust\<close> and
  \<open>dirRefClust\<close>, with the physical number of the cluster each holds) and also
  written directly (soWriteCacheCluster), so a slot can hold a copy the device no longer
  has: the two slots are part of the state. The numbers are 0 when the file system is
  opened, as the static variables are.

  The transfers of the buffer cache below (soReadCacheBlock, soWriteCacheBlock,
  soReadCacheCluster, soWriteCacheCluster) are outside the sources and taken not to fail
  on a block or cluster the device has.
\<close>

record fs_state =
  sb :: SOSuperBlock
  itable :: "SOInode list list"
  ctinmt :: "u32 list list"
  bmapt :: "u8 list list"
  dzone :: "SODataClust list"
  sngIndRefClust :: SODataClust
  nClustSIRef :: u32
  dirRefClust :: SODataClust
  nClustDRef :: u32

text \<open>
  What the code calls and the sources do not define: the identity of the calling process,
  the clock, the quick consistency checks of sofs\_basicconsist (a status each:
  \<open>None\<close> is 0; soQCheckStatDC also writes the allocation status of a cluster),
  soCleanDataCluster (inode number, cluster number) and soCheckDirectoryEmptiness (true
  for a return other than 0).

  Three local variables are read before anything is assigned to them. soReadFileCluster
  reads \<open>p_sb->itotal\<close> through its pointer \<open>p_sb\<close> before it has assigned it: what
  happens is undefined in C and depends on what the caller has left in that place of the
  stack, so \<open>unassigned_p_sb\<close> tells for each caller whether the read goes through and
  with which value (\<open>Some v\<close>), or the place holds nothing that can be read as an address
  and the run stops there (\<open>None\<close>). fillInCIT reads its \<open>p_offset\<close> and fillInBitMapT its
  \<open>bloco\<close> when no conversion has written them; these are integers whose address has been
  taken, so the read yields some value: \<open>unassigned_p_offset\<close> and \<open>unassigned_bloco\<close>.
\<close>

datatype caller = By_soGetDirEntryByName | By_soAddAttDirEntry | By_soRemDetachDirEntry

record env =
  getuid :: u32
  getgid :: u32
  time_now :: u32
  soQCheckInodeIU :: "SOSuperBlock \<Rightarrow> SOInode \<Rightarrow> errno option"
  soQCheckFDInode :: "SOSuperBlock \<Rightarrow> SOInode \<Rightarrow> errno option"
  soQCheckInT :: "SOSuperBlock \<Rightarrow> errno option"
  soQCheckDZ :: "SOSuperBlock \<Rightarrow> errno option"
  soQCheckSuperBlock :: "SOSuperBlock \<Rightarrow> errno option"
  soQCheckStatDC :: "fs_state \<Rightarrow> u32 \<Rightarrow> errno + u32"
  soQCheckDirCont :: "fs_state \<Rightarrow> SOInode \<Rightarrow> errno option"
  soCleanDataCluster :: "fs_state \<Rightarrow> u32 \<Rightarrow> u32 \<Rightarrow> errno + fs_state"
  soCheckDirectoryEmptiness :: "fs_state \<Rightarrow> u32 \<Rightarrow> bool"
  unassigned_p_sb :: "caller \<Rightarrow> u32 option"
  unassigned_p_offset :: u32
  unassigned_bloco :: u32

definition on_ok :: "errno + 'a \<Rightarrow> ('a \<Rightarrow> errno + 'b) \<Rightarrow> errno + 'b" where
  \<comment> \<open>\<open>if ((stat = f (...)) != 0) return stat;\<close> and go on with what \<open>f\<close> has written\<close>
  "on_ok m f = (case m of Inl e \<Rightarrow> Inl e | Inr x \<Rightarrow> f x)"

definition check :: "errno option \<Rightarrow> errno + 'a \<Rightarrow> errno + 'a" where
  \<comment> \<open>the same for a check that writes nothing\<close>
  "check c k = (case c of Some e \<Rightarrow> Inl e | None \<Rightarrow> k)"

definition IUIN :: u32 where "IUIN = 0"
definition FDIN :: u32 where "FDIN = 1"

definition R :: u32 where "R = 4"
definition W :: u32 where "W = 2"
definition X :: u32 where "X = 1"

section \<open>Address arithmetic (sofs\_basicoper.c)\<close>

definition soConvertBPIDC :: "sofs_const \<Rightarrow> u32 \<Rightarrow> pointer \<Rightarrow> pointer \<Rightarrow> errno + (u32 \<times> u32)" where
  "soConvertBPIDC K p p_clustInd p_offset =
     (if p \<ge> MAX_FILE_SIZE K \<or> p_clustInd = NULL \<or> p_offset = NULL then Inl EINVAL
      else Inr (p div BSLPC K, p mod BSLPC K))"


definition soConvertRefInT :: "sofs_const \<Rightarrow> fs_state \<Rightarrow> u32 \<Rightarrow> pointer \<Rightarrow> pointer \<Rightarrow> errno + (u32 \<times> u32)" where
  "soConvertRefInT K st nInode p_nBlk p_offset =
     (if nInode \<ge> itotal (sb st) \<or> p_nBlk = NULL \<or> p_offset = NULL then Inl EINVAL
      else Inr (nInode div IPB K, nInode mod IPB K))"

section \<open>The object cache (sofs\_basicoper.c)\<close>

definition soLoadBlockInT :: "sofs_const \<Rightarrow> fs_state \<Rightarrow> u32 \<Rightarrow> errno + SOInode list" where
  "soLoadBlockInT K st nBlk =
     (if nBlk \<ge> itable_size (sb st) then Inl EINVAL
      else if length (itable st) \<le> unat nBlk then Inl EIO
      else Inr (itable st ! unat nBlk))"

definition soStoreBlockInT :: "fs_state \<Rightarrow> u32 \<Rightarrow> SOInode list \<Rightarrow> fs_state" where
  \<comment> \<open>writes the slot back to the block \<open>nBlkInTLoaded\<close> it was loaded from\<close>
  "soStoreBlockInT st nBlkInTLoaded blk = st\<lparr>itable := (itable st)[unat nBlkInTLoaded := blk]\<rparr>"

section \<open>Inodes (soReadInode.c, soWriteInode.c, soAccessGranted.c, soFreeInode.c)\<close>

definition soReadInode :: "sofs_const \<Rightarrow> env \<Rightarrow> fs_state \<Rightarrow> pointer \<Rightarrow> u32 \<Rightarrow> u32 \<Rightarrow> errno + (fs_state \<times> SOInode)" where
  "soReadInode K E st p_inode nInode status =
     (if status \<noteq> IUIN \<and> status \<noteq> FDIN then Inl EINVAL
      else if p_inode = NULL then Inl EINVAL
      else
        let p_sb = sb st; blockin = itable_size p_sb * IPB K in
        if nInode > blockin then Inl EINVAL
        else
          on_ok (soConvertRefInT K st nInode Loc Loc) (\<lambda>(p_nBlk, p_offset).
          on_ok (soLoadBlockInT K st p_nBlk) (\<lambda>blk.
          let cr_inode = blk ! unat p_offset in
          on_ok (if status = FDIN then
                   (if drop_bit 12 (mode cr_inode) AND 1 = 0 then Inl EFDININVAL
                    else check (soQCheckFDInode E p_sb cr_inode) (Inr ()))
                 else
                   (if drop_bit 9 (mode cr_inode) AND 1 = 0 \<and>
                       drop_bit 10 (mode cr_inode) AND 1 = 0 \<and>
                       drop_bit 11 (mode cr_inode) AND 1 = 0 then Inl EIUININVAL
                    else check (soQCheckInodeIU E p_sb cr_inode) (Inr ())))
            (\<lambda>_.
          let cr_inode' = (if status = IUIN then cr_inode\<lparr>vD1 := time_now E\<rparr> else cr_inode);
              st' = soStoreBlockInT st p_nBlk (blk[unat p_offset := cr_inode'])
          in Inr (st', cr_inode')))))"

definition soWriteInode :: "sofs_const \<Rightarrow> env \<Rightarrow> fs_state \<Rightarrow> SOInode option \<Rightarrow> u32 \<Rightarrow> u32 \<Rightarrow> errno + fs_state" where
  \<comment> \<open>\<open>p_inode\<close> is \<open>None\<close> for the null pointer. The source does not test the
      status of soConvertRefInT and of soLoadBlockInT.\<close>
  "soWriteInode K E st p_inode nInode status =
     (let p_sb = sb st in
      if nInode \<ge> itotal p_sb then Inl EINVAL
      else if status \<noteq> IUIN \<and> status \<noteq> FDIN then Inl EINVAL
      else case p_inode of None \<Rightarrow> Inl EINVAL | Some ino \<Rightarrow>
        on_ok (if status = IUIN then check (soQCheckInodeIU E p_sb ino) (Inr ())
               else check (soQCheckFDInode E p_sb ino) (Inr ())) (\<lambda>_.
        case soConvertRefInT K st nInode Loc Loc of Inl _ \<Rightarrow> Inl UNDEFINED | Inr (nBloco, offset) \<Rightarrow>
        case soLoadBlockInT K st nBloco of Inl _ \<Rightarrow> Inl UNDEFINED | Inr blk \<Rightarrow>
          let ino' = (if status = IUIN then ino\<lparr>vD1 := time_now E, vD2 := time_now E\<rparr> else ino)
          in Inr (soStoreBlockInT st nBloco (blk[unat offset := ino']))))"

definition soAccessGranted :: "sofs_const \<Rightarrow> env \<Rightarrow> fs_state \<Rightarrow> u32 \<Rightarrow> u32 \<Rightarrow> errno + fs_state" where
  "soAccessGranted K E st nInode opRequested =
     (if opRequested = 0 \<or> (opRequested AND (R OR W OR X)) \<noteq> opRequested then Inl EINVAL
      else
        let p_sb = sb st in
        if nInode > itotal p_sb - 1 then Inl EINVAL
        else
          check (soQCheckInT E p_sb) (
          on_ok (soReadInode K E st Loc nInode IUIN) (\<lambda>(st, checkinode).
          check (soQCheckInodeIU E p_sb checkinode) (
          on_ok (soConvertRefInT K st nInode Loc Loc) (\<lambda>(p_nBlk, p_offset).
          on_ok (soLoadBlockInT K st p_nBlk) (\<lambda>ainode.
          let inode = ainode ! unat p_offset; m = mode inode in
          if owner inode \<noteq> 0 then
            (if getuid E = owner inode \<and>
                ((opRequested = R \<and> drop_bit 8 (m AND INODE_RD_USR K) = 1) \<or>
                 (opRequested = X \<and> drop_bit 6 (m AND INODE_EX_USR K) = 1) \<or>
                 (opRequested = W \<and> drop_bit 7 (m AND INODE_WR_USR K) = 1) \<or>
                 ucast (drop_bit 6 (m AND (INODE_RD_USR K OR INODE_WR_USR K OR INODE_EX_USR K))) = opRequested)
             then Inr st
             else if getgid E = group' inode \<and>
                ((opRequested = R \<and> drop_bit 5 (m AND INODE_RD_GRP K) = 1) \<or>
                 (opRequested = W \<and> drop_bit 4 (m AND INODE_WR_GRP K) = 1) \<or>
                 (opRequested = X \<and> drop_bit 3 (m AND INODE_EX_GRP K) = 1) \<or>
                 ucast (drop_bit 3 (m AND (INODE_RD_GRP K OR INODE_WR_GRP K OR INODE_EX_GRP K))) = opRequested)
             then Inr st
             else if (opRequested = R \<and> drop_bit 2 (m AND INODE_RD_OTH K) = 1) \<or>
                     (opRequested = W \<and> drop_bit 1 (m AND INODE_WR_OTH K) = 1) \<or>
                     (opRequested = X \<and> m AND INODE_EX_OTH K = 1) \<or>
                     ucast (m AND (INODE_RD_OTH K OR INODE_WR_OTH K OR INODE_EX_OTH K)) = opRequested
             then Inr st
             else Inl EACCES)
          else
            (if opRequested = R \<or> opRequested = W \<or> opRequested = (R OR W) then Inr st
             else if drop_bit 6 (m AND INODE_EX_USR K) \<noteq> 0 \<or> drop_bit 3 (m AND INODE_EX_GRP K) \<noteq> 0 \<or>
                     m AND INODE_EX_OTH K \<noteq> 0
             then Inr st
             else Inl EACCES)))))))"

definition soFreeInode :: "sofs_const \<Rightarrow> env \<Rightarrow> fs_state \<Rightarrow> u32 \<Rightarrow> errno + fs_state" where
  "soFreeInode K E st nInode =
     (if nInode = 0 then Inl EINVAL
      else
        let sbv = sb st in
        on_ok (soConvertRefInT K st nInode Loc Loc) (\<lambda>(p_blk, p_offset).
        on_ok (soLoadBlockInT K st p_blk) (\<lambda>p_inode.
        check (soQCheckInodeIU E sbv (p_inode ! unat p_offset)) (
        on_ok
          (if ifree sbv = 0 then
             let ino = p_inode ! unat p_offset;
                 ino = ino\<lparr>mode := mode ino OR INODE_FREE K\<rparr>;
                 ino = ino\<lparr>vD1 := NULL_INODE K, vD2 := NULL_INODE K\<rparr>;
                 sbv = sbv\<lparr>ihead := nInode, itail := nInode\<rparr>
             in Inr (soStoreBlockInT (st\<lparr>sb := sbv\<rparr>) p_blk (p_inode[unat p_offset := ino]))
           else
             let ino = p_inode ! unat p_offset;
                 ino = ino\<lparr>vD1 := itail sbv\<rparr>;
                 ino = ino\<lparr>vD2 := NULL_INODE K\<rparr>;
                 ino = ino\<lparr>owner := 0\<rparr>;
                 ino = ino\<lparr>group' := 0\<rparr>;
                 ino = ino\<lparr>mode := mode ino OR INODE_FREE K\<rparr>;
                 st = soStoreBlockInT st p_blk (p_inode[unat p_offset := ino])
             in on_ok (soConvertRefInT K st (itail sbv) Loc Loc) (\<lambda>(p_blkTail, p_offseTail).
                on_ok (soLoadBlockInT K st p_blkTail) (\<lambda>arr.
                let tail = arr ! unat p_offseTail;
                    arr = arr[unat p_offseTail := tail\<lparr>vD2 := nInode\<rparr>];
                    sbv = sbv\<lparr>itail := nInode\<rparr>
                in Inr (soStoreBlockInT (st\<lparr>sb := sbv\<rparr>) p_blkTail arr))))
          (\<lambda>st. Inr (st\<lparr>sb := (sb st)\<lparr>ifree := ifree (sb st) + 1\<rparr>\<rparr>))))))"

section \<open>The cluster-to-inode map, the bitmap and the clusters of references (sofs\_basicoper.c)\<close>

definition soConvertRefCInMT :: "sofs_const \<Rightarrow> fs_state \<Rightarrow> u32 \<Rightarrow> pointer \<Rightarrow> pointer \<Rightarrow> errno + (u32 \<times> u32)" where
  "soConvertRefCInMT K st ref p_nBlk p_offset =
     (if ref \<ge> dzone_total (sb st) \<or> p_nBlk = NULL \<or> p_offset = NULL then Inl EINVAL
      else Inr (ref div RPB K, ref mod RPB K))"

definition soLoadBlockCTInMT :: "sofs_const \<Rightarrow> fs_state \<Rightarrow> u32 \<Rightarrow> errno + u32 list" where
  "soLoadBlockCTInMT K st nBlk =
     (if nBlk \<ge> ciutable_size (sb st) then Inl EINVAL
      else if length (ctinmt st) \<le> unat nBlk then Inl EIO
      else Inr (ctinmt st ! unat nBlk))"

definition soStoreBlockCTInMT :: "fs_state \<Rightarrow> u32 \<Rightarrow> u32 list \<Rightarrow> fs_state" where
  "soStoreBlockCTInMT st nBlkCTInMTLoaded blk = st\<lparr>ctinmt := (ctinmt st)[unat nBlkCTInMTLoaded := blk]\<rparr>"

definition soConvertRefBMapT :: "sofs_const \<Rightarrow> fs_state \<Rightarrow> u32 \<Rightarrow> pointer \<Rightarrow> pointer \<Rightarrow> pointer \<Rightarrow> errno + (u32 \<times> u32 \<times> u32)" where
  "soConvertRefBMapT K st ref p_nBlk p_byteOff p_bitOff =
     (if ref \<ge> dzone_total (sb st) \<or> p_nBlk = NULL \<or> p_byteOff = NULL \<or> p_bitOff = NULL then Inl EINVAL
      else Inr (ref div (8 * BLOCK_SIZE K),
                (ref mod (8 * BLOCK_SIZE K)) div 8,
                (ref mod (8 * BLOCK_SIZE K)) mod 8))"

definition soLoadBlockBMapT :: "sofs_const \<Rightarrow> fs_state \<Rightarrow> u32 \<Rightarrow> errno + u8 list" where
  "soLoadBlockBMapT K st nBlk =
     (if nBlk \<ge> fctable_size (sb st) then Inl EINVAL
      else if length (bmapt st) \<le> unat nBlk then Inl EIO
      else Inr (bmapt st ! unat nBlk))"

definition soStoreBlockBMapT :: "fs_state \<Rightarrow> u32 \<Rightarrow> u8 list \<Rightarrow> fs_state" where
  "soStoreBlockBMapT st nBlkBMapTLoaded blk = st\<lparr>bmapt := (bmapt st)[unat nBlkBMapTLoaded := blk]\<rparr>"

definition clust_index :: "sofs_const \<Rightarrow> fs_state \<Rightarrow> u32 \<Rightarrow> nat" where
  \<comment> \<open>the logical number of the data cluster at physical block \<open>nClust\<close>\<close>
  "clust_index K st nClust = unat ((nClust - dzone_start (sb st)) div BLOCKS_PER_CLUSTER K)"

definition soReadCacheCluster :: "sofs_const \<Rightarrow> fs_state \<Rightarrow> u32 \<Rightarrow> errno + SODataClust" where
  \<comment> \<open>Modelled from the spec: the buffer cache is outside the sources; readCluster(phys)
      yields the \<open>CLUSTER_SIZE\<close> bytes at a physical block number. Only the clusters of
      the data zone are followed.\<close>
  "soReadCacheCluster K st nClust =
     (if nClust < dzone_start (sb st) \<or> (nClust - dzone_start (sb st)) mod BLOCKS_PER_CLUSTER K \<noteq> 0 \<or>
         length (dzone st) \<le> clust_index K st nClust then Inl UNDEFINED
      else Inr (dzone st ! clust_index K st nClust))"

definition soWriteCacheCluster :: "sofs_const \<Rightarrow> fs_state \<Rightarrow> u32 \<Rightarrow> SODataClust \<Rightarrow> errno + fs_state" where
  \<comment> \<open>Modelled from the spec: writeCluster(phys), as soReadCacheCluster.\<close>
  "soWriteCacheCluster K st nClust buff =
     (if nClust < dzone_start (sb st) \<or> (nClust - dzone_start (sb st)) mod BLOCKS_PER_CLUSTER K \<noteq> 0 \<or>
         length (dzone st) \<le> clust_index K st nClust then Inl UNDEFINED
      else Inr (st\<lparr>dzone := (dzone st)[clust_index K st nClust := buff]\<rparr>))"

definition soLoadSngIndRefClust :: "sofs_const \<Rightarrow> fs_state \<Rightarrow> u32 \<Rightarrow> errno + fs_state" where
  "soLoadSngIndRefClust K st nClust =
     (if nClust < dzone_start (sb st) \<or> (nClust - dzone_start (sb st)) mod BLOCKS_PER_CLUSTER K \<noteq> 0 \<or>
         nClust \<ge> dzone_start (sb st) + dzone_total (sb st) * BLOCKS_PER_CLUSTER K then Inl EINVAL
      else if nClust = nClustSIRef st then Inr st
      else on_ok (soReadCacheCluster K st nClust) (\<lambda>c. Inr (st\<lparr>sngIndRefClust := c, nClustSIRef := nClust\<rparr>)))"

definition soStoreSngIndRefClust :: "sofs_const \<Rightarrow> fs_state \<Rightarrow> errno + fs_state" where
  "soStoreSngIndRefClust K st = soWriteCacheCluster K st (nClustSIRef st) (sngIndRefClust st)"

definition soLoadDirRefClust :: "sofs_const \<Rightarrow> fs_state \<Rightarrow> u32 \<Rightarrow> errno + fs_state" where
  "soLoadDirRefClust K st nClust =
     (if nClust < dzone_start (sb st) \<or> (nClust - dzone_start (sb st)) mod BLOCKS_PER_CLUSTER K \<noteq> 0 \<or>
         nClust \<ge> dzone_start (sb st) + dzone_total (sb st) * BLOCKS_PER_CLUSTER K then Inl EINVAL
      else if nClust = nClustDRef st then Inr st
      else on_ok (soReadCacheCluster K st nClust) (\<lambda>c. Inr (st\<lparr>dirRefClust := c, nClustDRef := nClust\<rparr>)))"

definition soStoreDirRefClust :: "sofs_const \<Rightarrow> fs_state \<Rightarrow> errno + fs_state" where
  "soStoreDirRefClust K st = soWriteCacheCluster K st (nClustDRef st) (dirRefClust st)"

text \<open>Reading and writing \<open>p_clt->ref[k]\<close>, and the loop that fills a cluster with null references.\<close>

definition get_ref :: "sofs_const \<Rightarrow> SODataClust \<Rightarrow> u32 \<Rightarrow> errno + u32" where
  "get_ref K c k = (case ref_view K c of None \<Rightarrow> Inl UNDEFINED
     | Some rs \<Rightarrow> if length rs \<le> unat k then Inl UNDEFINED else Inr (rs ! unat k))"

definition set_ref :: "sofs_const \<Rightarrow> SODataClust \<Rightarrow> u32 \<Rightarrow> u32 \<Rightarrow> errno + SODataClust" where
  "set_ref K c k v = (case ref_view K c of None \<Rightarrow> Inl UNDEFINED
     | Some rs \<Rightarrow> if length rs \<le> unat k then Inl UNDEFINED else Inr (RefC (rs[unat k := v])))"

definition null_refs :: "sofs_const \<Rightarrow> SODataClust" where
  "null_refs K = RefC (replicate (unat (RPC K)) (NULL_CLUSTER K))"

definition all_null_refs :: "sofs_const \<Rightarrow> SODataClust \<Rightarrow> errno + bool" where
  \<comment> \<open>\<open>flag = 1; for (i = 0; i < RPC; i++) if (p_clt->ref[i] != NULL_CLUSTER) flag = 0;\<close>\<close>
  "all_null_refs K c = (case ref_view K c of None \<Rightarrow> Inl UNDEFINED
     | Some rs \<Rightarrow> Inr (list_all (\<lambda>r. r = NULL_CLUSTER K) rs))"

section \<open>Data clusters (soAllocDataCluster.c, soFreeDataCluster.c)\<close>

definition DZONE_CACHE_SIZE :: u32 where "DZONE_CACHE_SIZE = 50"

fun soDeplete_loop :: "sofs_const \<Rightarrow> fs_state \<Rightarrow> nat list \<Rightarrow> errno + fs_state" where
  "soDeplete_loop K st [] = Inr st"
| "soDeplete_loop K st (n # ns) =
     (let ins = dzone_insert (sb st) in
      if length (cache ins) \<le> n then Inl UNDEFINED
      else case soConvertRefBMapT K st (cache ins ! n) Loc Loc Loc of
        Inl _ \<Rightarrow> Inl UNDEFINED
      | Inr (p_nBlk, p_byteOff, p_bitOff) \<Rightarrow>
          (case soLoadBlockBMapT K st p_nBlk of
             Inl error \<Rightarrow> Inl error
           | Inr fcBMapT \<Rightarrow>
               let fcBMapT = fcBMapT[unat p_byteOff := (fcBMapT ! unat p_byteOff) OR drop_bit (unat p_bitOff) 0x80];
                   ins = ins\<lparr>cache := (cache ins)[n := NULL_CLUSTER K]\<rparr>;
                   st = st\<lparr>sb := (sb st)\<lparr>dzone_insert := ins\<rparr>\<rparr>;
                   st = soStoreBlockBMapT st p_nBlk fcBMapT
               in soDeplete_loop K st ns))"

definition soDeplete :: "sofs_const \<Rightarrow> env \<Rightarrow> fs_state \<Rightarrow> errno + fs_state" where
  \<comment> \<open>the loop runs \<open>n\<close> from 0 while \<open>n < cache_idx\<close>\<close>
  "soDeplete K E st =
     on_ok (soDeplete_loop K st [0 ..< unat (cache_idx (dzone_insert (sb st)))]) (\<lambda>st.
     let ins = (dzone_insert (sb st))\<lparr>cache_idx := 0\<rparr>;
         st = st\<lparr>sb := (sb st)\<lparr>dzone_insert := ins\<rparr>\<rparr>
     in check (soQCheckDZ E (sb st)) (Inr st))"

definition soFreeDataCluster :: "sofs_const \<Rightarrow> env \<Rightarrow> fs_state \<Rightarrow> u32 \<Rightarrow> errno + fs_state" where
  "soFreeDataCluster K E st nClust =
     (let p_sb = sb st in
      check (soQCheckDZ E p_sb) (
      if nClust > dzone_total p_sb - 1 \<or> nClust \<le> 0 then Inl EINVAL
      else
        check (soQCheckSuperBlock E p_sb) (
        on_ok (soQCheckStatDC E st nClust) (\<lambda>data_stat.
        if data_stat = FREE_CLT K then Inl EDCNALINVAL
        else
          on_ok (if cache_idx (dzone_insert p_sb) = DZONE_CACHE_SIZE then soDeplete K E st else Inr st) (\<lambda>st.
          let ins = dzone_insert (sb st) in
          if length (cache ins) \<le> unat (cache_idx ins) then Inl UNDEFINED
          else
            let ins = ins\<lparr>cache := (cache ins)[unat (cache_idx ins) := nClust]\<rparr>;
                ins = ins\<lparr>cache_idx := cache_idx ins + 1\<rparr>;
                sbv = (sb st)\<lparr>dzone_insert := ins\<rparr>;
                sbv = sbv\<lparr>dzone_free := dzone_free sbv + 1\<rparr>
            in Inr (st\<lparr>sb := sbv\<rparr>))))))"

text \<open>
  The body of the two loops of soReplenish. The first loop loads the block \<open>nBlk\<close> of the
  bitmap; the second one passes \<open>nByte\<close> to soLoadBlockBMapT (\<open>second\<close> tells which).
\<close>

definition soReplenish_body :: "sofs_const \<Rightarrow> fs_state \<Rightarrow> nat \<Rightarrow> u32 \<Rightarrow> bool \<Rightarrow> errno + (fs_state \<times> nat \<times> u32)" where
  "soReplenish_body K st n pos second =
     (case soConvertRefBMapT K st pos Loc Loc Loc of
        Inl _ \<Rightarrow> Inl UNDEFINED
      | Inr (nBlk, nByte, nBit) \<Rightarrow>
          let loaded = (if second then nByte else nBlk) in
          on_ok (soLoadBlockBMapT K st loaded) (\<lambda>fcBMapT.
          let mask = drop_bit (unat nBit) (0x80 :: u8) in
          on_ok (if (fcBMapT ! unat nByte) AND mask = mask then
                   (let ret = dzone_retriev (sb st) in
                    if length (cache ret) \<le> n then Inl UNDEFINED
                    else Inr (st\<lparr>sb := (sb st)\<lparr>dzone_retriev := ret\<lparr>cache := (cache ret)[n := pos]\<rparr>\<rparr>\<rparr>,
                              fcBMapT[unat nByte := (fcBMapT ! unat nByte) AND NOT mask],
                              n + 1))
                 else Inr (st, fcBMapT, n)) (\<lambda>(st, fcBMapT, n).
          let pos = (pos + 1) mod dzone_total (sb st)
          in Inr (soStoreBlockBMapT st loaded fcBMapT, n, pos))))"

text \<open>
  The first loop is \<open>do body while (n < DZONE_CACHE_SIZE && pos != fctable_pos)\<close>: after the
  first pass of the body it goes on as a \<open>while\<close> loop. \<open>pos\<close> steps through the
  references modulo \<open>dzone_total\<close> and is back at \<open>fctable_pos\<close> after \<open>dzone_total\<close>
  passes, which is the fuel given.
\<close>

fun soReplenish_scan :: "sofs_const \<Rightarrow> nat \<Rightarrow> fs_state \<Rightarrow> nat \<Rightarrow> u32 \<Rightarrow> errno + (fs_state \<times> nat \<times> u32)" where
  "soReplenish_scan K 0 st n pos =
     (if n < 50 \<and> pos \<noteq> fctable_pos (sb st) then Inl ENDLESS else Inr (st, n, pos))"
| "soReplenish_scan K (Suc fuel) st n pos =
     (if n < 50 \<and> pos \<noteq> fctable_pos (sb st) then
        (case soReplenish_body K st n pos False of
           Inl stat \<Rightarrow> Inl stat
         | Inr (st, n, pos) \<Rightarrow> soReplenish_scan K fuel st n pos)
      else Inr (st, n, pos))"

text \<open>
  The second loop is \<open>do body while (n < DZONE_CACHE_SIZE)\<close>. It only clears bits, so a
  full turn of \<open>dzone_total\<close> passes that captures nothing is repeated for ever; a run that
  ends captures at most 50 references and ends within \<open>50 * dzone_total\<close> passes.
\<close>

fun soReplenish_rest :: "sofs_const \<Rightarrow> nat \<Rightarrow> fs_state \<Rightarrow> nat \<Rightarrow> u32 \<Rightarrow> errno + (fs_state \<times> nat \<times> u32)" where
  "soReplenish_rest K 0 st n pos = Inl ENDLESS"
| "soReplenish_rest K (Suc fuel) st n pos =
     (case soReplenish_body K st n pos True of
        Inl stat \<Rightarrow> Inl stat
      | Inr (st, n, pos) \<Rightarrow> if n < 50 then soReplenish_rest K fuel st n pos else Inr (st, n, pos))"

definition soReplenish :: "sofs_const \<Rightarrow> env \<Rightarrow> fs_state \<Rightarrow> errno + fs_state" where
  \<comment> \<open>the status of soDeplete is not tested\<close>
  "soReplenish K E st =
     (let p_sb = sb st;
          nclustt = (if dzone_free p_sb < DZONE_CACHE_SIZE then dzone_free p_sb else DZONE_CACHE_SIZE);
          pos = fctable_pos p_sb;
          n = unat (DZONE_CACHE_SIZE - nclustt)
      in
      on_ok (soReplenish_body K st n pos False) (\<lambda>(st, n, pos).
      on_ok (soReplenish_scan K (unat (dzone_total (sb st))) st n pos) (\<lambda>(st, n, pos).
      on_ok (if n \<noteq> 50 then
               (case soDeplete K E st of
                  Inl _ \<Rightarrow> Inl UNDEFINED
                | Inr st \<Rightarrow> soReplenish_rest K (50 * unat (dzone_total (sb st))) st n pos)
             else Inr (st, n, pos)) (\<lambda>(st, n, pos).
      let ret = (dzone_retriev (sb st))\<lparr>cache_idx := DZONE_CACHE_SIZE - nclustt\<rparr>
      in Inr (st\<lparr>sb := (sb st)\<lparr>dzone_retriev := ret, fctable_pos := pos\<rparr>\<rparr>)))))"

definition soAllocDataCluster :: "sofs_const \<Rightarrow> env \<Rightarrow> fs_state \<Rightarrow> pointer \<Rightarrow> errno + (fs_state \<times> u32)" where
  "soAllocDataCluster K E st p_nClust =
     (let p_sb = sb st in
      if dzone_free p_sb = 0 then Inl ENOSPC
      else if p_nClust = NULL then Inl EINVAL
      else
        check (soQCheckDZ E p_sb) (
        on_ok (if cache_idx (dzone_retriev p_sb) = DZONE_CACHE_SIZE then soReplenish K E st else Inr st) (\<lambda>st.
        let ret = dzone_retriev (sb st) in
        if length (cache ret) \<le> unat (cache_idx ret) then Inl UNDEFINED
        else
          let nClust = cache ret ! unat (cache_idx ret) in
          on_ok (soConvertRefCInMT K st nClust Loc Loc) (\<lambda>(nBlk, off).
          on_ok (soLoadBlockCTInMT K st nBlk) (\<lambda>cTInT.
          on_ok (if cTInT ! unat off \<noteq> NULL_INODE K
                 then soCleanDataCluster E st (cTInT ! unat off) nClust else Inr st) (\<lambda>st.
          let ret = dzone_retriev (sb st);
              ret = ret\<lparr>cache := (cache ret)[unat (cache_idx ret) := NULL_CLUSTER K]\<rparr>;
              ret = ret\<lparr>cache_idx := cache_idx ret + 1\<rparr>;
              sbv = (sb st)\<lparr>dzone_retriev := ret\<rparr>;
              sbv = sbv\<lparr>dzone_free := dzone_free sbv - 1\<rparr>
          in Inr (st\<lparr>sb := sbv\<rparr>, nClust)))))))"


section \<open>The clusters of a file (soHandleFileCluster.c, soReadFileCluster.c, soWriteFileCluster.c)\<close>

definition GET :: u32 where "GET = 0"
definition ALLOC :: u32 where "ALLOC = 1"
definition FREE :: u32 where "FREE = 2"
definition FREE_CLEAN :: u32 where "FREE_CLEAN = 3"
definition CLEAN :: u32 where "CLEAN = 4"

definition soMapDCtoIn :: "sofs_const \<Rightarrow> fs_state \<Rightarrow> u32 \<Rightarrow> u32 \<Rightarrow> errno + fs_state" where
  "soMapDCtoIn K st nInode nClust =
     (let p_sb = sb st in
      if nClust < 1 \<or> nClust > dzone_total p_sb - 1 then Inl EINVAL
      else if nInode = 0 \<or> nInode \<ge> itotal p_sb then Inl EINVAL
      else
        on_ok (soConvertRefCInMT K st nClust Loc Loc) (\<lambda>(p_blk, p_off).
        on_ok (soLoadBlockCTInMT K st p_blk) (\<lambda>p_Nclust.
        Inr (soStoreBlockCTInMT st p_blk (p_Nclust[unat p_off := nInode])))))"

definition soUnmapDCtoIn :: "sofs_const \<Rightarrow> fs_state \<Rightarrow> u32 \<Rightarrow> u32 \<Rightarrow> errno + fs_state" where
  "soUnmapDCtoIn K st nInode nClust =
     (let p_sb = sb st in
      if nClust < 1 \<or> nClust > dzone_total p_sb - 1 then Inl EINVAL
      else if nInode = 0 \<or> nInode \<ge> itotal p_sb then Inl EINVAL
      else
        on_ok (soConvertRefCInMT K st nClust Loc Loc) (\<lambda>(p_blk, p_off).
        on_ok (soLoadBlockCTInMT K st p_blk) (\<lambda>p_Nclust.
        if p_Nclust ! unat p_off \<noteq> nInode then Inl EDCMINVAL
        else Inr (soStoreBlockCTInMT st p_blk (p_Nclust[unat p_off := NULL_INODE K])))))"

text \<open>
  The three handlers work on the copy \<open>p_inode\<close> of the inode that soHandleFileCluster
  has read, and return it changed, with the value written through \<open>p_outVal\<close> if any.
  The operations exclude one another, so the sequence of \<open>if (op == ...)\<close> of
  soHandleDirect is a chain here.
\<close>

definition soHandleDirect :: "sofs_const \<Rightarrow> env \<Rightarrow> fs_state \<Rightarrow> u32 \<Rightarrow> SOInode \<Rightarrow> u32 \<Rightarrow> u32 \<Rightarrow> pointer \<Rightarrow> errno + (fs_state \<times> SOInode \<times> u32 option)" where
  "soHandleDirect K E st nInode p_inode clustInd op p_outVal =
     (let ref = d p_inode ! unat clustInd in
      if op = GET then
        (if p_outVal = NULL then Inl UNDEFINED else Inr (st, p_inode, Some ref))
      else if op = ALLOC then
        (if ref \<noteq> NULL_CLUSTER K then Inl EDCARDYIL
         else
           on_ok (soAllocDataCluster K E st p_outVal) (\<lambda>(st, outVal).
           let p_inode = p_inode\<lparr>d := (d p_inode)[unat clustInd := outVal]\<rparr>;
               p_inode = p_inode\<lparr>clucount := clucount p_inode + 1\<rparr>
           in on_ok (soMapDCtoIn K st nInode outVal) (\<lambda>st. Inr (st, p_inode, Some outVal))))
      else if op = FREE then
        (if ref = NULL_CLUSTER K then Inl EDCNOTIL
         else on_ok (soFreeDataCluster K E st ref) (\<lambda>st. Inr (st, p_inode, None)))
      else if op = FREE_CLEAN then
        (if ref = NULL_CLUSTER K then Inl EDCNOTIL
         else
           on_ok (soFreeDataCluster K E st ref) (\<lambda>st.
           on_ok (soUnmapDCtoIn K st nInode ref) (\<lambda>st.
           let p_inode = p_inode\<lparr>d := (d p_inode)[unat clustInd := NULL_CLUSTER K]\<rparr>;
               p_inode = p_inode\<lparr>clucount := clucount p_inode - 1\<rparr>
           in Inr (st, p_inode, None))))
      else if op = CLEAN then
        (if ref = NULL_CLUSTER K then Inl EDCNOTIL
         else
           let p_inode = p_inode\<lparr>clucount := clucount p_inode - 1\<rparr> in
           on_ok (soUnmapDCtoIn K st nInode ref) (\<lambda>st.
           Inr (st, p_inode\<lparr>d := (d p_inode)[unat clustInd := NULL_CLUSTER K]\<rparr>, None)))
      else Inr (st, p_inode, None))"

definition upd_dirRef :: "sofs_const \<Rightarrow> fs_state \<Rightarrow> u32 \<Rightarrow> u32 \<Rightarrow> errno + fs_state" where
  \<comment> \<open>\<open>p_clt->ref[k] = v\<close> on the slot \<open>dirRefClust\<close>\<close>
  "upd_dirRef K st k v = on_ok (set_ref K (dirRefClust st) k v) (\<lambda>c. Inr (st\<lparr>dirRefClust := c\<rparr>))"

definition upd_sngIndRef :: "sofs_const \<Rightarrow> fs_state \<Rightarrow> u32 \<Rightarrow> u32 \<Rightarrow> errno + fs_state" where
  \<comment> \<open>the same on the slot \<open>sngIndRefClust\<close>\<close>
  "upd_sngIndRef K st k v = on_ok (set_ref K (sngIndRefClust st) k v) (\<lambda>c. Inr (st\<lparr>sngIndRefClust := c\<rparr>))"

definition soHandleSIndirect :: "sofs_const \<Rightarrow> env \<Rightarrow> fs_state \<Rightarrow> u32 \<Rightarrow> SOInode \<Rightarrow> u32 \<Rightarrow> u32 \<Rightarrow> pointer \<Rightarrow> errno + (fs_state \<times> SOInode \<times> u32 option)" where
  "soHandleSIndirect K E st nInode p_inode clustInd op p_outVal =
     (let p_sb = sb st in
      if op = GET then
        (if p_outVal = NULL then Inl EIO
         else if i1 p_inode = NULL_CLUSTER K then Inr (st, p_inode, Some (NULL_CLUSTER K))
         else
           let pcn = dzone_start p_sb + i1 p_inode * BLOCKS_PER_CLUSTER K in
           on_ok (soLoadDirRefClust K st pcn) (\<lambda>st.
           on_ok (get_ref K (dirRefClust st) (clustInd - N_DIRECT K)) (\<lambda>r.
           Inr (st, p_inode, Some r))))
      else if op = ALLOC then
        (if p_outVal = NULL then Inl EIO
         else
           on_ok (if i1 p_inode = NULL_CLUSTER K then
                    on_ok (soAllocDataCluster K E st Loc) (\<lambda>(st, n_cluster).
                    let p_inode = p_inode\<lparr>i1 := n_cluster\<rparr> in
                    on_ok (soMapDCtoIn K st nInode n_cluster) (\<lambda>st.
                    Inr (st, p_inode\<lparr>clucount := clucount p_inode + 1\<rparr>, True)))
                  else Inr (st, p_inode, False)) (\<lambda>(st, p_inode, iflag).
           let pcn = dzone_start p_sb + i1 p_inode * BLOCKS_PER_CLUSTER K in
           on_ok (soLoadDirRefClust K st pcn) (\<lambda>st.
           let st = (if iflag then st\<lparr>dirRefClust := null_refs K\<rparr> else st) in
           on_ok (get_ref K (dirRefClust st) (clustInd - N_DIRECT K)) (\<lambda>r.
           if r \<noteq> NULL_CLUSTER K then Inl EDCARDYIL
           else
             on_ok (soStoreDirRefClust K st) (\<lambda>st.
             on_ok (soAllocDataCluster K E st Loc) (\<lambda>(st, n_cluster).
             on_ok (soLoadDirRefClust K st pcn) (\<lambda>st.
             on_ok (upd_dirRef K st (clustInd - N_DIRECT K) n_cluster) (\<lambda>st.
             let p_inode = p_inode\<lparr>clucount := clucount p_inode + 1\<rparr> in
             on_ok (soMapDCtoIn K st nInode n_cluster) (\<lambda>st.
             on_ok (soStoreDirRefClust K st) (\<lambda>st.
             on_ok (get_ref K (dirRefClust st) (clustInd - N_DIRECT K)) (\<lambda>r.
             Inr (st, p_inode, Some r))))))))))))
      else if op = FREE \<or> op = FREE_CLEAN \<or> op = CLEAN then
        (if i1 p_inode = NULL_CLUSTER K then Inl EDCNOTIL
         else
           let pcn = dzone_start p_sb + i1 p_inode * BLOCKS_PER_CLUSTER K in
           on_ok (soLoadDirRefClust K st pcn) (\<lambda>st.
           let n_cluster = clustInd - N_DIRECT K in
           on_ok (get_ref K (dirRefClust st) n_cluster) (\<lambda>r.
           if r = NULL_CLUSTER K then Inl EDCNOTIL
           else
             on_ok (if op \<noteq> CLEAN then soFreeDataCluster K E st r else Inr st) (\<lambda>st.
             if op = CLEAN \<or> op = FREE_CLEAN then
               on_ok (soUnmapDCtoIn K st nInode r) (\<lambda>st.
               on_ok (upd_dirRef K st n_cluster (NULL_CLUSTER K)) (\<lambda>st.
               let p_inode = p_inode\<lparr>clucount := clucount p_inode - 1\<rparr> in
               on_ok (soStoreDirRefClust K st) (\<lambda>st.
               on_ok (all_null_refs K (dirRefClust st)) (\<lambda>iflag.
               if iflag then
                 on_ok (soUnmapDCtoIn K st nInode (i1 p_inode)) (\<lambda>st.
                 on_ok (soFreeDataCluster K E st (i1 p_inode)) (\<lambda>st.
                 let p_inode = p_inode\<lparr>i1 := NULL_CLUSTER K\<rparr>
                 in Inr (st, p_inode\<lparr>clucount := clucount p_inode - 1\<rparr>, None)))
               else Inr (st, p_inode, None)))))
             else Inr (st, p_inode, None)))))
      else Inl EINVAL)"

definition soHandleDIndirect :: "sofs_const \<Rightarrow> env \<Rightarrow> fs_state \<Rightarrow> u32 \<Rightarrow> SOInode \<Rightarrow> u32 \<Rightarrow> u32 \<Rightarrow> pointer \<Rightarrow> errno + (fs_state \<times> SOInode \<times> u32 option)" where
  "soHandleDIndirect K E st nInode p_inode clustInd op p_outVal =
     (let p_sb = sb st;
          kSI = (clustInd - N_DIRECT K - RPC K) div RPC K;
          kD = clustInd - N_DIRECT K - (RPC K * (kSI + 1))
      in
      if op = ALLOC then
        (if p_outVal = NULL then Inl EIO
         else
           on_ok (if i2 p_inode = NULL_CLUSTER K then
                    on_ok (soAllocDataCluster K E st Loc) (\<lambda>(st, n_cluster).
                    let p_inode = p_inode\<lparr>i2 := n_cluster\<rparr>;
                        p_inode = p_inode\<lparr>clucount := clucount p_inode + 1\<rparr>
                    in on_ok (soMapDCtoIn K st nInode n_cluster) (\<lambda>st. Inr (st, p_inode, True)))
                  else Inr (st, p_inode, False)) (\<lambda>(st, p_inode, iflagSI).
           let pcn = dzone_start p_sb + i2 p_inode * BLOCKS_PER_CLUSTER K in
           on_ok (soLoadSngIndRefClust K st pcn) (\<lambda>st.
           let st = (if iflagSI then st\<lparr>sngIndRefClust := null_refs K\<rparr> else st) in
           on_ok (soStoreSngIndRefClust K st) (\<lambda>st.
           on_ok (get_ref K (sngIndRefClust st) kSI) (\<lambda>refSI.
           on_ok (if refSI = NULL_CLUSTER K then
                    on_ok (soAllocDataCluster K E st Loc) (\<lambda>(st, n_cluster).
                    on_ok (soLoadSngIndRefClust K st pcn) (\<lambda>st.
                    on_ok (upd_sngIndRef K st kSI n_cluster) (\<lambda>st.
                    let p_inode = p_inode\<lparr>clucount := clucount p_inode + 1\<rparr> in
                    on_ok (soStoreSngIndRefClust K st) (\<lambda>st.
                    on_ok (soMapDCtoIn K st nInode n_cluster) (\<lambda>st.
                    Inr (st, p_inode, n_cluster, True))))))
                  else Inr (st, p_inode, refSI, False)) (\<lambda>(st, p_inode, refSI, iflagD).
           let pcn = dzone_start p_sb + refSI * BLOCKS_PER_CLUSTER K in
           on_ok (soLoadDirRefClust K st pcn) (\<lambda>st.
           let st = (if iflagD then st\<lparr>dirRefClust := null_refs K\<rparr> else st) in
           on_ok (soStoreDirRefClust K st) (\<lambda>st.
           on_ok (get_ref K (dirRefClust st) kD) (\<lambda>refD.
           if refD \<noteq> NULL_CLUSTER K then Inl EDCARDYIL
           else
             on_ok (soAllocDataCluster K E st Loc) (\<lambda>(st, n_cluster).
             on_ok (soLoadDirRefClust K st pcn) (\<lambda>st.
             on_ok (upd_dirRef K st kD n_cluster) (\<lambda>st.
             let p_inode = p_inode\<lparr>clucount := clucount p_inode + 1\<rparr> in
             on_ok (soStoreDirRefClust K st) (\<lambda>st.
             on_ok (soMapDCtoIn K st nInode n_cluster) (\<lambda>st.
             Inr (st, p_inode, Some n_cluster)))))))))))))))
      else if op = GET then
        (if p_outVal = NULL then Inl EIO
         else if i2 p_inode = NULL_CLUSTER K then Inr (st, p_inode, Some (NULL_CLUSTER K))
         else
           let pcn = dzone_start p_sb + i2 p_inode * BLOCKS_PER_CLUSTER K in
           on_ok (soLoadSngIndRefClust K st pcn) (\<lambda>st.
           on_ok (get_ref K (sngIndRefClust st) kSI) (\<lambda>refSI.
           if refSI = NULL_CLUSTER K then Inr (st, p_inode, Some (NULL_CLUSTER K))
           else
             let pcn = dzone_start p_sb + refSI * BLOCKS_PER_CLUSTER K in
             on_ok (soLoadDirRefClust K st pcn) (\<lambda>st.
             on_ok (get_ref K (dirRefClust st) kD) (\<lambda>refD.
             Inr (st, p_inode, Some refD))))))
      else
        (if i2 p_inode = NULL_CLUSTER K then Inl EDCNOTIL
         else
           let pcn = dzone_start p_sb + i2 p_inode * BLOCKS_PER_CLUSTER K in
           on_ok (soLoadSngIndRefClust K st pcn) (\<lambda>st.
           on_ok (get_ref K (sngIndRefClust st) kSI) (\<lambda>refSI.
           if refSI = NULL_CLUSTER K then Inl EDCNOTIL
           else
             let pcn = dzone_start p_sb + refSI * BLOCKS_PER_CLUSTER K in
             on_ok (soLoadDirRefClust K st pcn) (\<lambda>st.
             on_ok (get_ref K (dirRefClust st) kD) (\<lambda>refD.
             if refD = NULL_CLUSTER K then Inl EDCNOTIL
             else
               on_ok (if op = FREE \<or> op = FREE_CLEAN then soFreeDataCluster K E st refD else Inr st) (\<lambda>st.
               if op = CLEAN \<or> op = FREE_CLEAN then
                 on_ok (soUnmapDCtoIn K st nInode refD) (\<lambda>st.
                 on_ok (upd_dirRef K st kD (NULL_CLUSTER K)) (\<lambda>st.
                 let p_inode = p_inode\<lparr>clucount := clucount p_inode - 1\<rparr> in
                 on_ok (soStoreDirRefClust K st) (\<lambda>st.
                 on_ok (all_null_refs K (dirRefClust st)) (\<lambda>iflagD.
                 on_ok (if iflagD then
                          on_ok (get_ref K (sngIndRefClust st) kSI) (\<lambda>refSI.
                          on_ok (soFreeDataCluster K E st refSI) (\<lambda>st.
                          on_ok (soUnmapDCtoIn K st nInode refSI) (\<lambda>st.
                          on_ok (upd_sngIndRef K st kSI (NULL_CLUSTER K)) (\<lambda>st.
                          let p_inode = p_inode\<lparr>clucount := clucount p_inode - 1\<rparr> in
                          on_ok (soStoreSngIndRefClust K st) (\<lambda>st. Inr (st, p_inode))))))
                        else Inr (st, p_inode)) (\<lambda>(st, p_inode).
                 let pcn = dzone_start p_sb + i2 p_inode * BLOCKS_PER_CLUSTER K in
                 on_ok (soLoadSngIndRefClust K st pcn) (\<lambda>st.
                 on_ok (all_null_refs K (sngIndRefClust st)) (\<lambda>iflagSI.
                 if iflagSI then
                   on_ok (soFreeDataCluster K E st (i2 p_inode)) (\<lambda>st.
                   on_ok (soUnmapDCtoIn K st nInode (i2 p_inode)) (\<lambda>st.
                   let p_inode = p_inode\<lparr>i2 := NULL_CLUSTER K\<rparr>
                   in Inr (st, p_inode\<lparr>clucount := clucount p_inode - 1\<rparr>, None)))
                 else Inr (st, p_inode, None))))))))
               else Inr (st, p_inode, None))))))))"

definition soHandleFileCluster :: "sofs_const \<Rightarrow> env \<Rightarrow> fs_state \<Rightarrow> u32 \<Rightarrow> u32 \<Rightarrow> u32 \<Rightarrow> pointer \<Rightarrow> errno + (fs_state \<times> u32 option)" where
  \<comment> \<open>a handler that fails makes the function return its status without writing the inode\<close>
  "soHandleFileCluster K E st nInode clustInd op p_outVal =
     (let p_sb = sb st in
      if nInode > itotal p_sb then Inl EINVAL
      else if op \<noteq> GET \<and> op \<noteq> ALLOC \<and> op \<noteq> FREE \<and> op \<noteq> FREE_CLEAN \<and> op \<noteq> CLEAN then Inl EINVAL
      else if p_outVal = NULL \<and> (op = GET \<or> op = ALLOC) then Inl EINVAL
      else if p_outVal \<noteq> NULL \<and> (op = FREE \<or> op = FREE_CLEAN \<or> op = CLEAN) then Inl EINVAL
      else
        let inode_status = (if op = CLEAN then 1 else 0) in
        on_ok (soReadInode K E st Loc nInode inode_status) (\<lambda>(st, p_inode).
        check (if op \<noteq> CLEAN then soQCheckInodeIU E p_sb p_inode else None) (
        check (if op = CLEAN then soQCheckFDInode E p_sb p_inode else None) (
        on_ok (if clustInd < N_DIRECT K then soHandleDirect K E st nInode p_inode clustInd op p_outVal
               else if clustInd < N_DIRECT K + RPC K then soHandleSIndirect K E st nInode p_inode clustInd op p_outVal
               else soHandleDIndirect K E st nInode p_inode clustInd op p_outVal) (\<lambda>(st, p_inode, outVal).
        on_ok (if op \<noteq> GET then soWriteInode K E st (Some p_inode) nInode inode_status else Inr st) (\<lambda>st.
        Inr (st, outVal)))))))"

definition soReadFileCluster :: "sofs_const \<Rightarrow> env \<Rightarrow> caller \<Rightarrow> fs_state \<Rightarrow> u32 \<Rightarrow> u32 \<Rightarrow> pointer \<Rightarrow> errno + (fs_state \<times> SODataClust)" where
  \<comment> \<open>The first test reads \<open>p_sb->itotal\<close> before \<open>p_sb\<close> is assigned (it is assigned after
      the three tests): the read is undefined, and \<open>who\<close>, the function that makes the call,
      selects what \<open>unassigned_p_sb\<close> says of it. The status of soConvertRefInT,
      soLoadBlockInT and soReadCacheCluster is not tested, and soQCheckInodeIU is given the
      first inode of the block loaded.\<close>
  "soReadFileCluster K E who st nInode clustInd buff =
     (case unassigned_p_sb E who of None \<Rightarrow> Inl UNDEFINED | Some p_sb_itotal \<Rightarrow>
      if nInode \<ge> p_sb_itotal then Inl EINVAL
      else if clustInd \<ge> MAX_FILE_CLUSTERS K then Inl EINVAL
      else if buff = NULL then Inl EINVAL
      else
        let p_sb = sb st in
        case soConvertRefInT K st nInode Loc Loc of Inl _ \<Rightarrow> Inl UNDEFINED | Inr (nBloco, offset) \<Rightarrow>
        case soLoadBlockInT K st nBloco of Inl _ \<Rightarrow> Inl UNDEFINED | Inr p_inode \<Rightarrow>
        if p_inode = [] then Inl UNDEFINED
        else
          check (soQCheckInodeIU E p_sb (p_inode ! 0)) (
          on_ok (soHandleFileCluster K E st nInode clustInd GET Loc) (\<lambda>(st, outVal).
          case outVal of None \<Rightarrow> Inl UNDEFINED | Some p_outVal \<Rightarrow>
          if p_outVal = NULL_CLUSTER K then Inr (st, DataC (replicate (unat (BSLPC K)) 0))
          else
            (case soReadCacheCluster K st (p_outVal * BLOCKS_PER_CLUSTER K + dzone_start p_sb) of
               Inl _ \<Rightarrow> Inl UNDEFINED
             | Inr c \<Rightarrow> Inr (st, c)))))"

definition soWriteFileCluster :: "sofs_const \<Rightarrow> env \<Rightarrow> fs_state \<Rightarrow> u32 \<Rightarrow> u32 \<Rightarrow> SODataClust option \<Rightarrow> errno + fs_state" where
  \<comment> \<open>\<open>buff\<close> is \<open>None\<close> for the null pointer\<close>
  "soWriteFileCluster K E st nInode clustInd buff =
     (let p_sb = sb st in
      case buff of None \<Rightarrow> Inl EINVAL | Some buff \<Rightarrow>
      if nInode \<ge> itotal p_sb \<or> clustInd \<ge> MAX_FILE_CLUSTERS K then Inl EINVAL
      else
        case soConvertRefInT K st nInode Loc Loc of Inl _ \<Rightarrow> Inl UNDEFINED | Inr (nBlk, offset) \<Rightarrow>
        case soLoadBlockInT K st nBlk of Inl _ \<Rightarrow> Inl UNDEFINED | Inr inode \<Rightarrow>
        if mode (inode ! unat offset) = INODE_FREE K then Inl EINVAL
        else
          on_ok (soHandleFileCluster K E st nInode clustInd GET Loc) (\<lambda>(st, outVal).
          case outVal of None \<Rightarrow> Inl UNDEFINED | Some nLogicalDC \<Rightarrow>
          on_ok (if nLogicalDC = NULL_CLUSTER K then
                   on_ok (soHandleFileCluster K E st nInode clustInd ALLOC Loc) (\<lambda>(st, outVal).
                   case outVal of None \<Rightarrow> Inl UNDEFINED | Some nLogicalDC \<Rightarrow> Inr (st, nLogicalDC))
                 else Inr (st, nLogicalDC)) (\<lambda>(st, nLogicalDC).
          let nBlocoC = nLogicalDC * BLOCKS_PER_CLUSTER K + dzone_start p_sb
          in soWriteCacheCluster K st nBlocoC buff)))"

section \<open>All the clusters of a file (soHandleFileClusters.c)\<close>

fun hfc_refs :: "sofs_const \<Rightarrow> env \<Rightarrow> u32 \<Rightarrow> u32 \<Rightarrow> u32 \<Rightarrow> u32 list \<Rightarrow> fs_state \<Rightarrow> nat list \<Rightarrow> errno + fs_state" where
  \<comment> \<open>\<open>for (; idx < ...; idx++) if (ref[idx] != NULL_CLUSTER) soHandleFileCluster (nInode, idx + base, op, NULL)\<close>,
      over a copy \<open>refs\<close> of the references\<close>
  "hfc_refs K E nInode op base refs st [] = Inr st"
| "hfc_refs K E nInode op base refs st (idx # idxs) =
     (if length refs \<le> idx then Inl UNDEFINED
      else if refs ! idx \<noteq> NULL_CLUSTER K then
        (case soHandleFileCluster K E st nInode (of_nat idx + base) op NULL of
           Inl stat \<Rightarrow> Inl stat
         | Inr (st, _) \<Rightarrow> hfc_refs K E nInode op base refs st idxs)
      else hfc_refs K E nInode op base refs st idxs)"

fun hfc_dindirect :: "sofs_const \<Rightarrow> env \<Rightarrow> u32 \<Rightarrow> u32 \<Rightarrow> u32 list \<Rightarrow> fs_state \<Rightarrow> nat \<Rightarrow> nat list \<Rightarrow> errno + fs_state" where
  \<comment> \<open>the outer loop over the cluster of single indirect references; \<open>offset\<close> is 0 from
      the second pass on\<close>
  "hfc_dindirect K E nInode op ref1 st offset [] = Inr st"
| "hfc_dindirect K E nInode op ref1 st offset (idx # idxs) =
     (if length ref1 \<le> idx then Inl UNDEFINED
      else if ref1 ! idx \<noteq> NULL_CLUSTER K then
        (let nclust = dzone_start (sb st) + (ref1 ! idx) * BLOCKS_PER_CLUSTER K in
         case soLoadSngIndRefClust K st nclust of
           Inl stat \<Rightarrow> Inl stat
         | Inr st \<Rightarrow>
            (case ref_view K (sngIndRefClust st) of
               None \<Rightarrow> Inl UNDEFINED
             | Some ref2 \<Rightarrow>
                (case hfc_refs K E nInode op (of_nat idx * RPC K + RPC K + N_DIRECT K) ref2 st
                        [offset ..< unat (RPC K)] of
                   Inl stat \<Rightarrow> Inl stat
                 | Inr st \<Rightarrow> hfc_dindirect K E nInode op ref1 st 0 idxs)))
      else hfc_dindirect K E nInode op ref1 st 0 idxs)"

definition soHandleFileClusters :: "sofs_const \<Rightarrow> env \<Rightarrow> fs_state \<Rightarrow> u32 \<Rightarrow> u32 \<Rightarrow> u32 \<Rightarrow> errno + fs_state" where
  "soHandleFileClusters K E st nInode clustIndIn op =
     (let p_sb = sb st in
      if nInode \<ge> itotal p_sb then Inl EINVAL
      else if op \<noteq> FREE \<and> op \<noteq> FREE_CLEAN \<and> op \<noteq> CLEAN then Inl EINVAL
      else
        on_ok (if op \<noteq> CLEAN then soReadInode K E st Loc nInode IUIN
               else soReadInode K E st Loc nInode FDIN) (\<lambda>(st, p_inode).
        if clustIndIn \<ge> MAX_FILE_CLUSTERS K then Inl EINVAL
        else
          on_ok (if i2 p_inode \<noteq> NULL_CLUSTER K then
                   (let nclust = dzone_start p_sb + i2 p_inode * BLOCKS_PER_CLUSTER K in
                    on_ok (soLoadSngIndRefClust K st nclust) (\<lambda>st.
                    case ref_view K (sngIndRefClust st) of
                      None \<Rightarrow> Inl UNDEFINED
                    | Some ref1 \<Rightarrow>
                        let idx = (if clustIndIn \<ge> N_DIRECT K + RPC K
                                   then unat ((clustIndIn - (N_DIRECT K + RPC K)) div RPC K) else 0);
                            offset = (if clustIndIn \<ge> N_DIRECT K + RPC K
                                      then unat ((clustIndIn - (N_DIRECT K + RPC K)) mod RPC K) else 0)
                        in hfc_dindirect K E nInode op ref1 st offset [idx ..< unat (RPC K)]))
                 else Inr st) (\<lambda>st.
          on_ok (if i1 p_inode \<noteq> NULL_CLUSTER K \<and> clustIndIn < N_DIRECT K + RPC K then
                   (let nclust = dzone_start p_sb + i1 p_inode * BLOCKS_PER_CLUSTER K in
                    on_ok (soLoadSngIndRefClust K st nclust) (\<lambda>st.
                    case ref_view K (sngIndRefClust st) of
                      None \<Rightarrow> Inl UNDEFINED
                    | Some ref1 \<Rightarrow>
                        let idx = (if clustIndIn \<ge> N_DIRECT K then unat (clustIndIn - N_DIRECT K) else 0)
                        in hfc_refs K E nInode op (N_DIRECT K) ref1 st [idx ..< unat (RPC K)]))
                 else Inr st) (\<lambda>st.
          if clustIndIn < N_DIRECT K
          then hfc_refs K E nInode op 0 (d p_inode) st [unat clustIndIn ..< unat (N_DIRECT K)]
          else Inr st))))"

section \<open>Directories (soGetDirEntryByName.c, soAddAttDirEntry.c, soRemDetachDirEntry.c)\<close>

definition basename :: "string \<Rightarrow> string" where
  \<comment> \<open>basename of libgen.h: the last component of a path, without trailing slashes\<close>
  "basename path =
     (if path = [] then ''.''
      else if list_all (\<lambda>c. c = CHR ''/'') path then ''/''
      else rev (takeWhile (\<lambda>c. c \<noteq> CHR ''/'') (dropWhile (\<lambda>c. c = CHR ''/'') (rev path))))"

definition cstring :: "char list \<Rightarrow> string" where
  \<comment> \<open>the string an array of characters holds: up to the first null character\<close>
  "cstring a = takeWhile (\<lambda>c. c \<noteq> CHR 0x00) a"

definition strncpy :: "string \<Rightarrow> nat \<Rightarrow> char list" where
  \<comment> \<open>\<open>strncpy (dst, src, n)\<close>: the \<open>n\<close> characters written to \<open>dst\<close>\<close>
  "strncpy src n = take n (src @ replicate n (CHR 0x00))"

definition sizeof_SODirEntry :: "sofs_const \<Rightarrow> u32" where
  \<comment> \<open>Modelled from the spec: the type is declared in the missing sofs\_direntry.h; an entry
      is \<open>name[MAX_NAME+1]\<close> followed by a 32-bit \<open>nInode\<close> (section 6.1).\<close>
  "sizeof_SODirEntry K = of_nat (MAX_NAME K + 1) + 4"

fun gde_entries :: "sofs_const \<Rightarrow> string \<Rightarrow> SODirEntry list \<Rightarrow> u32 \<Rightarrow> u32 \<Rightarrow> nat list \<Rightarrow> (u32 \<times> u32) + u32" where
  \<comment> \<open>the inner loop over the entries \<open>j\<close> of cluster \<open>i\<close>: \<open>Inl\<close> is the return on a match
      (inode, index), \<open>Inr\<close> the value of \<open>indice\<close> after the loop\<close>
  "gde_entries K eName de i indice [] = Inr indice"
| "gde_entries K eName de i indice (j # js) =
     (if de_name (de ! j) ! 0 = CHR 0x00 \<and> de_name (de ! j) ! 1 = CHR 0x00 then
        gde_entries K eName de i (if indice = - 1 then i * DPC K + of_nat j else indice) js
      else if cstring (de_name (de ! j)) = eName then Inl (de_nInode (de ! j), i * DPC K + of_nat j)
      else gde_entries K eName de i indice js)"

fun gde_clusters :: "sofs_const \<Rightarrow> env \<Rightarrow> string \<Rightarrow> u32 \<Rightarrow> fs_state \<Rightarrow> u32 \<Rightarrow> nat list \<Rightarrow> errno + (fs_state \<times> ((u32 \<times> u32) + u32))" where
  \<comment> \<open>the outer loop over the clusters \<open>i\<close> of the directory\<close>
  "gde_clusters K E eName nInodeDir st indice [] = Inr (st, Inr indice)"
| "gde_clusters K E eName nInodeDir st indice (i # is) =
     (case soReadFileCluster K E By_soGetDirEntryByName st nInodeDir (of_nat i) Loc of
        Inl stat \<Rightarrow> Inl stat
      | Inr (st, clust) \<Rightarrow>
         (case de_view K clust of
            None \<Rightarrow> Inl UNDEFINED
          | Some de \<Rightarrow>
             (case gde_entries K eName de (of_nat i) indice [0 ..< unat (DPC K)] of
                Inl found \<Rightarrow> Inr (st, Inl found)
              | Inr indice \<Rightarrow> gde_clusters K E eName nInodeDir st indice is)))"

text \<open>
  soGetDirEntryByName returns with the two outputs written on a match (status 0) and when
  no entry matches (status \<open>-ENOENT\<close>): these are the results \<open>Inr (st, None, nInodeEnt, idx)\<close>
  and \<open>Inr (st, Some ENOENT, nInodeEnt, idx)\<close>. The name is \<open>None\<close> for the null pointer.
  The name is copied into an array of \<open>MAX_NAME + 1\<close> characters before its length is
  tested. When no entry is clean, the index written is the value of the loop variable
  \<open>j\<close> after the loops, which is \<open>DPC\<close> once a cluster has been scanned.
\<close>

definition soGetDirEntryByName :: "sofs_const \<Rightarrow> env \<Rightarrow> fs_state \<Rightarrow> u32 \<Rightarrow> string option \<Rightarrow> pointer \<Rightarrow> pointer \<Rightarrow> errno + (fs_state \<times> errno option \<times> u32 \<times> u32)" where
  "soGetDirEntryByName K E st nInodeDir eName p_nInodeEnt p_idx =
     (case eName of None \<Rightarrow> Inl EINVAL | Some eName \<Rightarrow>
      if length eName > MAX_NAME K then Inl UNDEFINED
      else if basename eName \<noteq> eName then Inl EINVAL
      else if length eName = 0 then Inl EINVAL
      else if length eName > MAX_NAME K then Inl ENAMETOOLONG
      else
        let p_sb = sb st in
        if nInodeDir \<ge> itotal p_sb then Inl EINVAL
        else
          on_ok (soReadInode K E st Loc nInodeDir IUIN) (\<lambda>(st, inode).
          if mode inode AND INODE_TYPE_MASK K \<noteq> INODE_DIR K then Inl ENOTDIR
          else
            on_ok (soAccessGranted K E st nInodeDir X) (\<lambda>st.
            check (soQCheckDirCont E st inode) (
            let ncl = unat (size' inode div (DPC K * sizeof_SODirEntry K)) in
            on_ok (gde_clusters K E eName nInodeDir st (- 1) [0 ..< ncl]) (\<lambda>(st, r).
            case r of
              Inl (nInodeEnt, idx) \<Rightarrow> Inr (st, None, nInodeEnt, idx)
            | Inr indice \<Rightarrow>
                if indice = - 1 then
                  (if ncl = 0 \<and> p_idx \<noteq> NULL then Inl UNDEFINED
                   else Inr (st, Some ENOENT, NULL_INODE K, DPC K))
                else Inr (st, Some ENOENT, NULL_INODE K, indice))))))"

definition ADD :: u32 where "ADD = 0"
definition ATTACH :: u32 where "ATTACH = 1"
definition REM :: u32 where "REM = 0"
definition DETACH :: u32 where "DETACH = 1"

definition clean_entry :: "sofs_const \<Rightarrow> SODirEntry" where
  \<comment> \<open>\<open>memset (name, '\\0', MAX_NAME+1); nInode = NULL_INODE\<close>\<close>
  "clean_entry K = \<lparr>de_name = replicate (MAX_NAME K + 1) (CHR 0x00), de_nInode = NULL_INODE K\<rparr>"

text \<open>
  soAddAttDirEntry. The tests \<open>eName == "."\<close> and \<open>eName == ".."\<close> of the source compare
  the address of the name with the addresses of two string literals; they are taken to
  be false. \<open>return -1\<close> is \<open>-EPERM\<close>.
\<close>

definition soAddAttDirEntry :: "sofs_const \<Rightarrow> env \<Rightarrow> fs_state \<Rightarrow> u32 \<Rightarrow> string option \<Rightarrow> u32 \<Rightarrow> u32 \<Rightarrow> errno + fs_state" where
  "soAddAttDirEntry K E st nInodeDir eName nInodeEnt op =
     (let p_sb = sb st in
      if nInodeDir \<ge> itotal p_sb \<or> nInodeEnt \<ge> itotal p_sb then Inl EINVAL
      else case eName of None \<Rightarrow> Inl EINVAL | Some eName \<Rightarrow>
      if length eName > MAX_NAME K then Inl ENAMETOOLONG
      else if list_ex (\<lambda>c. c = CHR ''/'') eName then Inl EINVAL
      else
        on_ok (soReadInode K E st Loc nInodeDir IUIN) (\<lambda>(st, inodedir).
        if op \<noteq> ADD \<and> op \<noteq> ATTACH then Inl EINVAL
        else
          on_ok (soAccessGranted K E st nInodeDir X) (\<lambda>st.
          on_ok (case soAccessGranted K E st nInodeDir W of
                   Inl estado \<Rightarrow> if estado = EACCES then Inl EPERM else Inl estado
                 | Inr st \<Rightarrow> Inr st) (\<lambda>st.
          if mode inodedir AND INODE_TYPE_MASK K \<noteq> INODE_DIR K then Inl ENOTDIR
          else if size' inodedir = MAX_FILE_SIZE K then Inl EFBIG
          else
            on_ok (soReadInode K E st Loc nInodeEnt IUIN) (\<lambda>(st, inodeent).
            if refcount inodedir = 65535 \<or> refcount inodeent = 65535 then Inl EMLINK
            else
              case soGetDirEntryByName K E st nInodeDir (Some eName) NULL Loc of
                Inl _ \<Rightarrow> Inl EEXIST
              | Inr (_, None, _, _) \<Rightarrow> Inl EEXIST
              | Inr (st, Some stat, _, indice) \<Rightarrow>
                if stat \<noteq> ENOENT then Inl EEXIST
                else
                  let indicecluster = indice div DPC K;
                      idir = indice mod DPC K
                  in
                  on_ok
                    (if op = ADD then
                       (if mode inodeent AND INODE_TYPE_MASK K = INODE_DIR K then
                          (let clust1 = DirC (\<lparr>de_name = strncpy ''.'' (MAX_NAME K + 1), de_nInode = nInodeEnt\<rparr> #
                                              \<lparr>de_name = strncpy ''..'' (MAX_NAME K + 1), de_nInode = nInodeDir\<rparr> #
                                              replicate (unat (DPC K) - 2) (clean_entry K))
                           in
                           on_ok (soWriteFileCluster K E st nInodeEnt 0 (Some clust1)) (\<lambda>st.
                           on_ok (soReadInode K E st Loc nInodeEnt IUIN) (\<lambda>(st, inodeent).
                           let inodedir = inodedir\<lparr>refcount := refcount inodedir + 1\<rparr>;
                               inodeent = inodeent\<lparr>size' := BSLPC K\<rparr>;
                               inodeent = inodeent\<lparr>refcount := refcount inodeent + 2\<rparr>
                           in Inr (st, inodedir, inodeent))))
                        else if mode inodeent AND INODE_TYPE_MASK K = INODE_SYMLINK K \<or>
                                mode inodeent AND INODE_TYPE_MASK K = INODE_FILE K then
                          (let inodeent = inodeent\<lparr>refcount := refcount inodeent + 1\<rparr> in
                           on_ok (soWriteInode K E st (Some inodeent) nInodeEnt IUIN) (\<lambda>st.
                           Inr (st, inodedir, inodeent)))
                        else Inr (st, inodedir, inodeent))
                     else if op = ATTACH then
                       (if mode inodeent AND INODE_TYPE_MASK K = INODE_DIR K then Inl EIUININVAL
                        else if size' inodeent = 0 then Inl EPERM
                        else
                          on_ok (soReadFileCluster K E By_soAddAttDirEntry st nInodeEnt 0 Loc) (\<lambda>(st, clust1).
                          case de_view K clust1 of None \<Rightarrow> Inl UNDEFINED | Some de \<Rightarrow>
                          let clust1 = DirC (de[1 := (de ! 1)\<lparr>de_nInode := nInodeDir\<rparr>]) in
                          on_ok (soWriteFileCluster K E st nInodeEnt 0 (Some clust1)) (\<lambda>st.
                          on_ok (soReadInode K E st Loc nInodeEnt IUIN) (\<lambda>(st, inodeent).
                          let inodedir = inodedir\<lparr>refcount := refcount inodedir + 1\<rparr>;
                              inodeent = inodeent\<lparr>refcount := refcount inodeent + 2\<rparr>
                          in
                          on_ok (soWriteInode K E st (Some inodedir) nInodeDir IUIN) (\<lambda>st.
                          on_ok (soWriteInode K E st (Some inodeent) nInodeEnt IUIN) (\<lambda>st.
                          Inr (st, inodedir, inodeent)))))))
                     else Inl EINVAL)
                    (\<lambda>(st, inodedir, inodeent).
                  on_ok (soReadFileCluster K E By_soAddAttDirEntry st nInodeDir indicecluster Loc) (\<lambda>(st, clust2).
                  case de_view K clust2 of None \<Rightarrow> Inl UNDEFINED | Some de \<Rightarrow>
                  let de = (if idir = 0 then hd de # replicate (unat (DPC K) - 1) (clean_entry K) else de);
                      inodedir = (if idir = 0 then inodedir\<lparr>size' := size' inodedir + BSLPC K\<rparr> else inodedir);
                      de = de[unat idir := \<lparr>de_name = strncpy eName (MAX_NAME K + 1), de_nInode = nInodeEnt\<rparr>]
                  in
                  on_ok (soWriteInode K E st (Some inodedir) nInodeDir IUIN) (\<lambda>st.
                  on_ok (soWriteFileCluster K E st nInodeDir indicecluster (Some (DirC de))) (\<lambda>st.
                  soWriteInode K E st (Some inodeent) nInodeEnt IUIN)))))))))"

text \<open>
  soRemDetachDirEntry. The operation code is passed as the status of the inode to
  soReadInode and soWriteInode and as the operation to soHandleFileClusters. The status of
  the two calls of soWriteInode is not tested; a call that fails has written nothing.

  The function is given in two parts. \<open>soRemDetachDirEntry_entry\<close> is the code down to the
  two calls of soWriteInode: it finds the entry, prepares the new content \<open>de\<close> of its
  directory cluster \<open>i\<close> and writes the two inodes with their new refcounts; it yields these
  with the inode of the entry as it has been written. soRemDetachDirEntry goes on with the
  release of a file that has lost its last link and with the write of the directory cluster.
\<close>

definition soRemDetachDirEntry_entry :: "sofs_const \<Rightarrow> env \<Rightarrow> fs_state \<Rightarrow> u32 \<Rightarrow> string option \<Rightarrow> u32 \<Rightarrow> errno + (fs_state \<times> u32 \<times> SODirEntry list \<times> SOInode \<times> u32)" where
  "soRemDetachDirEntry_entry K E st nInodeDir eName op =
     (case eName of None \<Rightarrow> Inl UNDEFINED | Some name \<Rightarrow>
      if name = ''.'' \<or> name = ''..'' then Inl EPERM
      else
        on_ok (soReadInode K E st Loc nInodeDir op) (\<lambda>(st, inodeDir).
        if mode inodeDir AND INODE_TYPE_MASK K \<noteq> INODE_DIR K then Inl ENOTDIR
        else
          on_ok (soAccessGranted K E st nInodeDir W) (\<lambda>st.
          on_ok (soAccessGranted K E st nInodeDir X) (\<lambda>st.
          on_ok (soGetDirEntryByName K E st nInodeDir eName Loc Loc) (\<lambda>(st, error, nInodeEnt, index).
          case error of Some error \<Rightarrow> Inl error | None \<Rightarrow>
          if nInodeEnt = NULL_INODE K then Inl ENOENT
          else
            let i = index div DPC K;
                index = index mod DPC K
            in
            on_ok (soReadFileCluster K E By_soRemDetachDirEntry st nInodeDir i Loc) (\<lambda>(st, cluster).
            case de_view K cluster of None \<Rightarrow> Inl UNDEFINED | Some de \<Rightarrow>
            on_ok (soReadInode K E st Loc nInodeEnt op) (\<lambda>(st, inodeEnt).
            on_ok
              (if op = REM then
                 (if mode inodeEnt AND INODE_DIR K \<noteq> 0 \<and> soCheckDirectoryEmptiness E st nInodeEnt
                  then Inl ENOTEMPTY
                  else
                    let e = de ! unat index;
                        nm = de_name e;
                        nm = nm[MAX_NAME K := nm ! 0];
                        nm = nm[0 := CHR 0x00]
                    in Inr (st, de[unat index := e\<lparr>de_name := nm\<rparr>]))
               else if op = DETACH then
                 (let e = \<lparr>de_name = replicate (MAX_NAME K + 1) (CHR 0x00), de_nInode = NULL_CLUSTER K\<rparr>;
                      de = de[unat index := e]
                  in
                  if mode inodeEnt AND INODE_DIR K \<noteq> 0 then
                    on_ok (soReadFileCluster K E By_soRemDetachDirEntry st nInodeEnt 0 Loc) (\<lambda>(st, cluster1). Inr (st, de))
                  else Inr (st, de))
               else Inr (st, de))
              (\<lambda>(st, de).
            let inodeEnt = inodeEnt\<lparr>refcount := refcount inodeEnt - 1\<rparr>;
                inodeDir = (if mode inodeEnt AND INODE_DIR K \<noteq> 0
                            then inodeDir\<lparr>refcount := refcount inodeDir - 1\<rparr> else inodeDir);
                inodeEnt = (if mode inodeEnt AND INODE_DIR K \<noteq> 0 \<and> op = REM
                            then inodeEnt\<lparr>refcount := refcount inodeEnt - 1\<rparr> else inodeEnt);
                st = (case soWriteInode K E st (Some inodeEnt) nInodeEnt op of Inl _ \<Rightarrow> st | Inr st \<Rightarrow> st);
                st = (case soWriteInode K E st (Some inodeDir) nInodeDir op of Inl _ \<Rightarrow> st | Inr st \<Rightarrow> st)
            in Inr (st, i, de, inodeEnt, nInodeEnt)))))))))"

definition soRemDetachDirEntry :: "sofs_const \<Rightarrow> env \<Rightarrow> fs_state \<Rightarrow> u32 \<Rightarrow> string option \<Rightarrow> u32 \<Rightarrow> errno + fs_state" where
  "soRemDetachDirEntry K E st nInodeDir eName op =
     on_ok (soRemDetachDirEntry_entry K E st nInodeDir eName op) (\<lambda>(st, i, de, inodeEnt, nInodeEnt).
     on_ok (if op = REM \<and> (refcount inodeEnt = 0 \<or>
                              (refcount inodeEnt = 1 \<and> mode inodeEnt AND INODE_DIR K \<noteq> 0)) then
              on_ok (soHandleFileClusters K E st nInodeEnt 0 op) (\<lambda>st.
              soFreeInode K E st nInodeEnt)
            else Inr st) (\<lambda>st.
     soWriteFileCluster K E st nInodeDir i (Some (DirC de))))"

section \<open>The formatter (mkfs\_sofs13.c)\<close>

definition MAGIC_NUMBER :: u32 where "MAGIC_NUMBER = 0x65FE"
definition VERSION_NUMBER :: u32 where "VERSION_NUMBER = 0x2013"
definition PARTITION_NAME_SIZE :: nat where "PARTITION_NAME_SIZE = 23"
definition PRU :: u32 where "PRU = 0"

definition sige_div :: "u32 \<Rightarrow> u32 \<Rightarrow> u32" where
  \<comment> \<open>\<open>if ((a % b) == 0) r = a / b; else r = a / b + 1;\<close>\<close>
  "sige_div a b = (if a mod b = 0 then a div b else a div b + 1)"

text \<open>
  The layout that \<open>main\<close> computes from the number of blocks of the device and the number
  of inodes asked for (0 if none is given): the total number of inodes, the blocks of the
  cluster-to-inode map, the blocks of the bitmap and the number of data clusters.
\<close>

definition mkfs_layout :: "sofs_const \<Rightarrow> u32 \<Rightarrow> u32 \<Rightarrow> u32 \<times> u32 \<times> u32 \<times> u32" where
  "mkfs_layout K ntotal' itotal' =
     (let n = ntotal';
          itotal = (if itotal' = 0 then drop_bit 3 n else itotal');
          iblktotal = sige_div itotal (IPB K);
          tmp = (n - 1 - iblktotal) div BLOCKS_PER_CLUSTER K;
          fcblktotal = sige_div tmp (BITS_PER_BLOCK K);
          ctinmblktotal = sige_div tmp (RPB K);
          nclusttotal = (n - 1 - iblktotal - fcblktotal - ctinmblktotal) div BLOCKS_PER_CLUSTER K;
          fcblktotal = sige_div nclusttotal (BITS_PER_BLOCK K);
          ctinmblktotal = sige_div nclusttotal (RPB K);
          nclusttotal =
            (if nclusttotal mod BITS_PER_BLOCK K \<noteq> 0 \<and> nclusttotal mod RPB K \<noteq> 0 \<and>
                n - 1 - iblktotal - fcblktotal - ctinmblktotal - nclusttotal * BLOCKS_PER_CLUSTER K
                  \<ge> BLOCKS_PER_CLUSTER K
             then nclusttotal + 1 else nclusttotal);
          iblktotal = n - 1 - fcblktotal - ctinmblktotal - nclusttotal * BLOCKS_PER_CLUSTER K;
          itotal = iblktotal * IPB K
      in (itotal, ctinmblktotal, fcblktotal, nclusttotal))"

definition fillInSuperBlock :: "sofs_const \<Rightarrow> SOSuperBlock \<Rightarrow> u32 \<Rightarrow> u32 \<Rightarrow> u32 \<Rightarrow> u32 \<Rightarrow> u32 \<Rightarrow> string \<Rightarrow> SOSuperBlock" where
  \<comment> \<open>\<open>p_sb\<close> points to the superblock held in memory, so the test for a null pointer is
      left out; the volume name is cut to \<open>PARTITION_NAME_SIZE\<close> characters\<close>
  "fillInSuperBlock K p_sb ntotal' itotal' ctinmblktotal fcblktotal nclusttotal name =
     (let p_sb = p_sb\<lparr>magic := 0xFFFF, version := VERSION_NUMBER,
                      sb_name := take PARTITION_NAME_SIZE name, ntotal := ntotal', mstat := PRU\<rparr>;
          p_sb = p_sb\<lparr>itable_start := 1\<rparr>;
          iblktotal = itotal' div IPB K;
          p_sb = p_sb\<lparr>itable_size := iblktotal, itotal := itotal', ifree := itotal' - 1,
                      ihead := 1, itail := itotal' - 1\<rparr>;
          p_sb = p_sb\<lparr>ciutable_start := itable_start p_sb + itable_size p_sb\<rparr>;
          p_sb = p_sb\<lparr>ciutable_size := ctinmblktotal\<rparr>;
          p_sb = p_sb\<lparr>fctable_start := ciutable_start p_sb + ciutable_size p_sb\<rparr>;
          p_sb = p_sb\<lparr>fctable_size := fcblktotal, fctable_pos := 1\<rparr>;
          p_sb = p_sb\<lparr>dzone_start := fctable_start p_sb + fctable_size p_sb\<rparr>;
          p_sb = p_sb\<lparr>dzone_total := nclusttotal, dzone_free := nclusttotal - 1\<rparr>;
          p_sb = p_sb\<lparr>dzone_retriev := \<lparr>cache_idx = DZONE_CACHE_SIZE,
                                         cache = replicate (unat DZONE_CACHE_SIZE) (NULL_CLUSTER K)\<rparr>\<rparr>;
          p_sb = p_sb\<lparr>dzone_insert := \<lparr>cache_idx = 0,
                                        cache = replicate (unat DZONE_CACHE_SIZE) (NULL_CLUSTER K)\<rparr>\<rparr>
      in p_sb)"

definition fillInINT_inode :: "sofs_const \<Rightarrow> env \<Rightarrow> SOSuperBlock \<Rightarrow> u32 \<Rightarrow> SOInode \<Rightarrow> SOInode" where
  \<comment> \<open>the body of the inner loop of fillInINT, on the inode \<open>node = IPB * blk + i\<close>\<close>
  "fillInINT_inode K E p_sb node ino =
     (let ino = ino\<lparr>mode := INODE_FREE K, refcount := 0, owner := 0, group' := 0, size' := 0, clucount := 0\<rparr>;
          ino = ino\<lparr>vD1 := node - 1, vD2 := node + 1\<rparr>;
          ino = ino\<lparr>d := fold (\<lambda>k ds. ds[k := NULL_CLUSTER K]) [0 ..< unat (N_DIRECT K)] (d ino)\<rparr>;
          ino = ino\<lparr>i1 := NULL_CLUSTER K, i2 := NULL_CLUSTER K\<rparr>;
          ino = (if node = 0 then
                   ino\<lparr>mode := INODE_RD_OTH K OR INODE_WR_OTH K OR INODE_EX_OTH K OR
                               INODE_RD_GRP K OR INODE_WR_GRP K OR INODE_EX_GRP K OR
                               INODE_RD_USR K OR INODE_WR_USR K OR INODE_EX_USR K OR INODE_DIR K,
                       refcount := 2, owner := getuid E, group' := getgid E,
                       size' := CLUSTER_SIZE K, clucount := 1,
                       vD1 := time_now E, vD2 := time_now E, d := (d ino)[0 := 0]\<rparr>
                 else ino);
          ino = (if node = 1 then ino\<lparr>vD1 := NULL_INODE K, vD2 := node + 1\<rparr> else ino);
          ino = (if node = itotal p_sb - 1 then ino\<lparr>vD1 := node - 1, vD2 := NULL_INODE K\<rparr> else ino)
      in ino)"

fun fillInINT_block :: "sofs_const \<Rightarrow> env \<Rightarrow> SOSuperBlock \<Rightarrow> u32 \<Rightarrow> SOInode list \<Rightarrow> nat list \<Rightarrow> SOInode list" where
  \<comment> \<open>the inner loop over the inodes \<open>i\<close> of the block \<open>blk\<close>\<close>
  "fillInINT_block K E p_sb blk inode [] = inode"
| "fillInINT_block K E p_sb blk inode (i # is) =
     fillInINT_block K E p_sb blk
       (inode[i := fillInINT_inode K E p_sb (IPB K * blk + of_nat i) (inode ! i)]) is"

fun fillInINT_loop :: "sofs_const \<Rightarrow> env \<Rightarrow> fs_state \<Rightarrow> nat list \<Rightarrow> errno + fs_state" where
  \<comment> \<open>the outer loop over the blocks of the table of inodes\<close>
  "fillInINT_loop K E st [] = Inr st"
| "fillInINT_loop K E st (blk # blks) =
     (case soLoadBlockInT K st (of_nat blk) of
        Inl s \<Rightarrow> Inl s
      | Inr inode \<Rightarrow>
          fillInINT_loop K E
            (soStoreBlockInT st (of_nat blk)
               (fillInINT_block K E (sb st) (of_nat blk) inode [0 ..< unat (IPB K)])) blks)"

definition fillInINT :: "sofs_const \<Rightarrow> env \<Rightarrow> fs_state \<Rightarrow> errno + fs_state" where
  "fillInINT K E st = fillInINT_loop K E st [0 ..< unat (itable_size (sb st))]"

text \<open>
  fillInCIT keeps a block of the map loaded: \<open>nBlk\<close> is its number, \<open>bits\<close> its content and
  \<open>p_offset\<close> the offset of the last reference converted (\<open>None\<close> before the first one).
  With a single data cluster the loop converts nothing, and the code after the loop goes
  on from whatever \<open>p_offset\<close> holds: \<open>p_offset++; for (; p_offset < RPB; p_offset++)\<close>
  stays inside the block whatever that is.
\<close>

fun fillInCIT_loop :: "sofs_const \<Rightarrow> fs_state \<Rightarrow> u32 \<Rightarrow> u32 list \<Rightarrow> u32 option \<Rightarrow> nat list \<Rightarrow> errno + (fs_state \<times> u32 \<times> u32 list \<times> u32 option)" where
  "fillInCIT_loop K st nBlk bits p_offset [] = Inr (st, nBlk, bits, p_offset)"
| "fillInCIT_loop K st nBlk bits p_offset (ref # refs) =
     (case soConvertRefCInMT K st (of_nat ref) Loc Loc of
        Inl status \<Rightarrow> Inl status
      | Inr (p_nBlk, p_offset) \<Rightarrow>
          (case (if p_offset = 0 then
                   (let st = soStoreBlockCTInMT st nBlk bits in
                    case soLoadBlockCTInMT K st p_nBlk of
                      Inl status \<Rightarrow> Inl status
                    | Inr bits \<Rightarrow> Inr (st, p_nBlk, bits))
                 else Inr (st, nBlk, bits)) of
             Inl status \<Rightarrow> Inl status
           | Inr (st, nBlk, bits) \<Rightarrow>
               fillInCIT_loop K st nBlk (bits[unat p_offset := NULL_INODE K]) (Some p_offset) refs))"

definition fillInCIT :: "sofs_const \<Rightarrow> env \<Rightarrow> fs_state \<Rightarrow> errno + fs_state" where
  "fillInCIT K E st =
     on_ok (soLoadBlockCTInMT K st 0) (\<lambda>bits.
     let bits = bits[0 := 0] in
     on_ok (fillInCIT_loop K st 0 bits None [1 ..< unat (dzone_total (sb st))]) (\<lambda>(st, nBlk, bits, p_offset).
     let p_offset = (case p_offset of None \<Rightarrow> unassigned_p_offset E | Some p_offset \<Rightarrow> p_offset);
         bits = fold (\<lambda>k b. b[k := 0xFFFFFFFE]) [unat (p_offset + 1) ..< unat (RPB K)] bits
     in Inr (soStoreBlockCTInMT st nBlk bits)))"

definition fillInRootDir :: "sofs_const \<Rightarrow> fs_state \<Rightarrow> errno + fs_state" where
  "fillInRootDir K st =
     (let dir = \<lparr>de_name = strncpy ''.'' (MAX_NAME K + 1), de_nInode = 0\<rparr> #
                \<lparr>de_name = strncpy ''..'' (MAX_NAME K + 1), de_nInode = 0\<rparr> #
                map (\<lambda>i. \<lparr>de_name = strncpy [] (MAX_NAME K + 1), de_nInode = NULL_INODE K\<rparr>)
                    [2 ..< unat (DPC K)]
      in soWriteCacheCluster K st (dzone_start (sb st)) (DirC dir))"

text \<open>
  fillInBitMapT does not test the status of soConvertRefBMapT. In the loop the reference
  is below \<open>dzone_total\<close> and the conversion cannot fail. Before the loop the reference is
  0, and the conversion fails when there is no data cluster at all: \<open>bloco\<close> is then read
  as it has been found.
\<close>

fun fillInBitMapT_loop :: "sofs_const \<Rightarrow> fs_state \<Rightarrow> bool \<Rightarrow> nat list \<Rightarrow> errno + fs_state" where
  "fillInBitMapT_loop K st zero [] = Inr st"
| "fillInBitMapT_loop K st zero (i # is) =
     (case soConvertRefBMapT K st (of_nat i) Loc Loc Loc of
        Inl _ \<Rightarrow> Inl UNDEFINED
      | Inr (bloco, byteoff, bitoff) \<Rightarrow>
          (case soLoadBlockBMapT K st bloco of
             Inl error \<Rightarrow> Inl error
           | Inr p_blck \<Rightarrow>
               let p_blck = (if byteoff = 0 \<and> bitoff = 0 then replicate (unat (BLOCK_SIZE K)) 0 else p_blck);
                   p_blck = p_blck[unat byteoff := (p_blck ! unat byteoff) OR push_bit (7 - unat bitoff) 1]
               in
               (case (if zero then
                        soWriteCacheCluster K st (dzone_start (sb st) + of_nat i * BLOCKS_PER_CLUSTER K)
                          (DataC (replicate (unat (BSLPC K)) 0))
                      else Inr st) of
                  Inl error \<Rightarrow> Inl error
                | Inr st \<Rightarrow> fillInBitMapT_loop K (soStoreBlockBMapT st bloco p_blck) zero is)))"

definition fillInBitMapT :: "sofs_const \<Rightarrow> env \<Rightarrow> fs_state \<Rightarrow> bool \<Rightarrow> errno + fs_state" where
  "fillInBitMapT K E st zero =
     (let bloco = (case soConvertRefBMapT K st 0 Loc Loc Loc of
                     Inl _ \<Rightarrow> unassigned_bloco E
                   | Inr (bloco, byteoff, bitoff) \<Rightarrow> bloco)
      in
      on_ok (soLoadBlockBMapT K st bloco) (\<lambda>p_blck.
      let p_blck = replicate (unat (BLOCK_SIZE K)) 0;
          p_blck = p_blck[0 := 0x7F];
          st = soStoreBlockBMapT st bloco p_blck
      in fillInBitMapT_loop K st zero [1 ..< unat (dzone_total (sb st))]))"

definition checkFSConsist :: "sofs_const \<Rightarrow> env \<Rightarrow> fs_state \<Rightarrow> errno + fs_state" where
  "checkFSConsist K E st =
     (let p_sb = sb st in
      check (soQCheckSuperBlock E p_sb) (
      on_ok (soLoadBlockInT K st 0) (\<lambda>inode.
      check (soQCheckInodeIU E p_sb (inode ! 0)) (
      check (soQCheckDirCont E st (inode ! 0)) (Inr st)))))"

text \<open>
  The formatter, from the point where the device is open: \<open>dev\<close> is the device as it is
  found, \<open>ntotal'\<close> its number of blocks, \<open>itotal'\<close> the number of inodes asked for (0 for
  none), \<open>zero\<close> the option \<open>-z\<close>.
\<close>

definition mkfs :: "sofs_const \<Rightarrow> env \<Rightarrow> fs_state \<Rightarrow> u32 \<Rightarrow> u32 \<Rightarrow> string \<Rightarrow> bool \<Rightarrow> errno + fs_state" where
  "mkfs K E dev ntotal' itotal' name zero =
     (case mkfs_layout K ntotal' itotal' of (itotal', ctinmblktotal, fcblktotal, nclusttotal) \<Rightarrow>
      let st = dev\<lparr>sb := fillInSuperBlock K (sb dev) ntotal' itotal' ctinmblktotal fcblktotal nclusttotal name\<rparr> in
      on_ok (fillInINT K E st) (\<lambda>st.
      on_ok (fillInCIT K E st) (\<lambda>st.
      on_ok (fillInRootDir K st) (\<lambda>st.
      on_ok (fillInBitMapT K E st zero) (\<lambda>st.
      let st = st\<lparr>sb := (sb st)\<lparr>magic := MAGIC_NUMBER\<rparr>\<rparr>
      in checkFSConsist K E st)))))"

section \<open>Concrete file systems\<close>

text \<open>
  The states the functions are run on below. The quick consistency checks pass on them
  (each state is a consistent file system), so the environment answers 0 for every check.
\<close>

definition env_of :: "u32 \<Rightarrow> u32 \<Rightarrow> env" where
  \<comment> \<open>a calling process with the given uid and gid, at time 1000, every check passing. The
      read of soReadFileCluster through its unassigned pointer goes through inside
      soGetDirEntryByName, where the calls made just before it all work on the superblock,
      and yields the number of inodes of the file systems below; in the calls that
      soAddAttDirEntry and soRemDetachDirEntry make themselves the run stops at that read.\<close>
  "env_of uid gid = \<lparr> getuid = uid, getgid = gid, time_now = 1000,
     soQCheckInodeIU = (\<lambda>_ _. None), soQCheckFDInode = (\<lambda>_ _. None),
     soQCheckInT = (\<lambda>_. None), soQCheckDZ = (\<lambda>_. None), soQCheckSuperBlock = (\<lambda>_. None),
     soQCheckStatDC = (\<lambda>_ _. Inr 1), soQCheckDirCont = (\<lambda>_ _. None),
     soCleanDataCluster = (\<lambda>st _ _. Inr st), soCheckDirectoryEmptiness = (\<lambda>_ _. False),
     unassigned_p_sb = (\<lambda>who. case who of By_soGetDirEntryByName \<Rightarrow> Some 8 | _ \<Rightarrow> None),
     unassigned_p_offset = 0, unassigned_bloco = 0 \<rparr>"

definition env_stale :: "u32 \<Rightarrow> u32 \<Rightarrow> env" where
  \<comment> \<open>the same, for a build in which every read of soReadFileCluster through its
      unassigned pointer goes through and yields the number of inodes\<close>
  "env_stale uid gid = (env_of uid gid)\<lparr>unassigned_p_sb := (\<lambda>who. Some 8)\<rparr>"

definition no_refs :: "u32 list" where
  "no_refs = replicate 7 0xFFFFFFFF"

definition root_inode :: SOInode where
  \<comment> \<open>inode 0 as the formatter leaves it, owned by user 1000\<close>
  "root_inode = \<lparr> mode = 0x9FF, refcount = 2, owner = 1000, group' = 1000, size' = 2048,
     clucount = 1, vD1 = 900, vD2 = 900, d = no_refs[0 := 0], i1 = 0xFFFFFFFF, i2 = 0xFFFFFFFF \<rparr>"

definition file_inode :: "u16 \<Rightarrow> u16 \<Rightarrow> SOInode" where
  \<comment> \<open>an empty regular file of user 1000 with the given permission bits and refcount\<close>
  "file_inode perm rc = \<lparr> mode = 0x400 OR perm, refcount = rc, owner = 1000, group' = 1000,
     size' = 0, clucount = 0, vD1 = 900, vD2 = 900, d = no_refs, i1 = 0xFFFFFFFF, i2 = 0xFFFFFFFF \<rparr>"

definition empty_cache :: "u32 list" where
  "empty_cache = replicate 50 0xFFFFFFFF"

definition sb_full :: SOSuperBlock where
  \<comment> \<open>100 blocks, 8 inodes all in use, 24 data clusters of which cluster 0 is allocated\<close>
  "sb_full = \<lparr> magic = 0x65FE, version = 0x2013, sb_name = ''SOFS13'', ntotal = 100, mstat = 0,
     itable_start = 1, itable_size = 1, itotal = 8, ifree = 0, ihead = 0xFFFFFFFF, itail = 0xFFFFFFFF,
     ciutable_start = 2, ciutable_size = 1,
     dzone_retriev = \<lparr>cache_idx = 50, cache = empty_cache\<rparr>,
     dzone_insert = \<lparr>cache_idx = 0, cache = empty_cache\<rparr>,
     fctable_start = 3, fctable_size = 1, fctable_pos = 1,
     dzone_start = 4, dzone_total = 24, dzone_free = 23 \<rparr>"

definition fs_full :: fs_state where
  \<comment> \<open>the root directory and seven regular files with mode \<open>r--------\<close>; file 1 has no
      directory entry left (refcount 0), the others have one\<close>
  "fs_full = \<lparr> sb = sb_full,
     itable = [root_inode # file_inode 0x100 0 # replicate 6 (file_inode 0x100 1)],
     ctinmt = [0 # replicate 23 0xFFFFFFFF @ replicate 104 0xFFFFFFFE],
     bmapt = [0x7F # 0xFF # 0xFF # replicate 509 0],
     dzone = [],
     sngIndRefClust = DataC [], nClustSIRef = 0, dirRefClust = DataC [], nClustDRef = 0 \<rparr>"

definition dirent :: "string \<Rightarrow> u32 \<Rightarrow> SODirEntry" where
  \<comment> \<open>an entry in use: the name padded to 60 characters, and the inode number\<close>
  "dirent nm n = \<lparr>de_name = strncpy nm 60, de_nInode = n\<rparr>"

definition free_inode :: "u32 \<Rightarrow> u32 \<Rightarrow> SOInode" where
  \<comment> \<open>a free inode in the clean state, with its links in the list of free inodes\<close>
  "free_inode prv nxt = \<lparr> mode = 0x1000, refcount = 0, owner = 0, group' = 0, size' = 0, clucount = 0,
     vD1 = prv, vD2 = nxt, d = no_refs, i1 = 0xFFFFFFFF, i2 = 0xFFFFFFFF \<rparr>"

definition dir_inode :: "u16 \<Rightarrow> u32 \<Rightarrow> SOInode" where
  \<comment> \<open>a directory of user 1000 with mode \<open>rwxrwxrwx\<close>, the given refcount and its one cluster\<close>
  "dir_inode rc c = \<lparr> mode = 0x9FF, refcount = rc, owner = 1000, group' = 1000, size' = 2048,
     clucount = 1, vD1 = 900, vD2 = 900, d = no_refs[0 := c], i1 = 0xFFFFFFFF, i2 = 0xFFFFFFFF \<rparr>"

definition sb_tree :: SOSuperBlock where
  \<comment> \<open>inodes 4 to 7 free; clusters 0 to 3 allocated, 4 and 5 in the retrieval cache\<close>
  "sb_tree = sb_full\<lparr> ifree := 4, ihead := 4, itail := 7,
     dzone_retriev := \<lparr>cache_idx = 48, cache = empty_cache[48 := 4, 49 := 5]\<rparr>,
     fctable_pos := 6, dzone_free := 20 \<rparr>"

definition fs_tree :: fs_state where
  \<comment> \<open>the root directory (inode 0) with the entries \<open>a\<close> (the directory of inode 1) and
      \<open>f\<close> (the regular file of inode 3, with one data cluster and this one link); inode 2
      is a directory with its \<open>.\<close> and \<open>..\<close> entries that is in no directory\<close>
  "fs_tree = \<lparr> sb = sb_tree,
     itable = [[dir_inode 3 0, dir_inode 2 1, dir_inode 0 2,
                (file_inode 0x180 1)\<lparr>size' := 10, clucount := 1, d := no_refs[0 := 3]\<rparr>,
                free_inode 0xFFFFFFFF 5, free_inode 4 6, free_inode 5 7, free_inode 6 0xFFFFFFFF]],
     ctinmt = [0 # 1 # 2 # 3 # replicate 20 0xFFFFFFFF @ replicate 104 0xFFFFFFFE],
     bmapt = [0x03 # 0xFF # 0xFF # replicate 509 0],
     dzone = [DirC (dirent ''.'' 0 # dirent ''..'' 0 # dirent ''a'' 1 # dirent ''f'' 3 #
                    replicate 28 (clean_entry sofs13)),
              DirC (dirent ''.'' 1 # dirent ''..'' 0 # replicate 30 (clean_entry sofs13)),
              DirC (dirent ''.'' 2 # dirent ''..'' 2 # replicate 30 (clean_entry sofs13)),
              DataC (replicate 2048 0x41)] @ replicate 20 (DataC (replicate 2048 0)),
     sngIndRefClust = DataC [], nClustSIRef = 0, dirRefClust = DataC [], nClustDRef = 0 \<rparr>"

definition bigdir_cluster0 :: "SODirEntry list" where
  "bigdir_cluster0 =
         [dirent ''.'' 0, dirent ''..'' 0,
          dirent ''h00'' 1,
          dirent ''h01'' 1,
          dirent ''h02'' 1,
          dirent ''h03'' 1,
          dirent ''h04'' 1,
          dirent ''h05'' 1,
          dirent ''h06'' 1,
          dirent ''h07'' 1,
          dirent ''h08'' 1,
          dirent ''h09'' 1,
          dirent ''h10'' 1,
          dirent ''h11'' 1,
          dirent ''h12'' 1,
          dirent ''h13'' 1,
          dirent ''h14'' 1,
          dirent ''h15'' 1,
          dirent ''h16'' 1,
          dirent ''h17'' 1,
          dirent ''h18'' 1,
          dirent ''h19'' 1,
          dirent ''h20'' 1,
          dirent ''h21'' 1,
          dirent ''h22'' 1,
          dirent ''h23'' 1,
          dirent ''h24'' 1,
          dirent ''h25'' 1,
          dirent ''h26'' 1,
          dirent ''h27'' 1,
          dirent ''h28'' 1,
          dirent ''h29'' 1]"

definition bigdir_cluster1 :: "SODirEntry list" where
  "bigdir_cluster1 =
         [dirent ''h30'' 1,
          dirent ''h31'' 1,
          dirent ''h32'' 1,
          dirent ''h33'' 1,
          dirent ''h34'' 1,
          dirent ''h35'' 1,
          dirent ''h36'' 1,
          dirent ''h37'' 1,
          dirent ''h38'' 1,
          dirent ''h39'' 1,
          dirent ''h40'' 1,
          dirent ''h41'' 1,
          dirent ''h42'' 1,
          dirent ''h43'' 1,
          dirent ''h44'' 1,
          dirent ''h45'' 1,
          dirent ''h46'' 1,
          dirent ''h47'' 1,
          dirent ''h48'' 1,
          dirent ''h49'' 1,
          dirent ''h50'' 1,
          dirent ''h51'' 1,
          dirent ''h52'' 1,
          dirent ''h53'' 1,
          dirent ''h54'' 1,
          dirent ''h55'' 1,
          dirent ''h56'' 1,
          dirent ''h57'' 1,
          dirent ''h58'' 1,
          dirent ''h59'' 1,
          dirent ''h60'' 1,
          dirent ''h61'' 1]"

definition fs_bigdir :: fs_state where
  \<comment> \<open>a root directory of two clusters whose 64 entries are all in use: \<open>.\<close>, \<open>..\<close> and
      62 links \<open>h00\<close> ... \<open>h61\<close> to the regular file of inode 1\<close>
  "fs_bigdir = \<lparr>
     sb = sb_full\<lparr> ifree := 6, ihead := 2, itail := 7, fctable_pos := 2, dzone_free := 22 \<rparr>,
     itable = [[(dir_inode 2 0)\<lparr>size' := 4096, clucount := 2, d := no_refs[0 := 0, 1 := 1]\<rparr>,
                file_inode 0x180 62,
                free_inode 0xFFFFFFFF 3, free_inode 2 4, free_inode 3 5, free_inode 4 6,
                free_inode 5 7, free_inode 6 0xFFFFFFFF]],
     ctinmt = [0 # 0 # replicate 22 0xFFFFFFFF @ replicate 104 0xFFFFFFFE],
     bmapt = [0x3F # 0xFF # 0xFF # replicate 509 0],
     dzone = [DirC bigdir_cluster0, DirC bigdir_cluster1] @ replicate 22 (DataC (replicate 2048 0)),
     sngIndRefClust = DataC [], nClustSIRef = 0, dirRefClust = DataC [], nClustDRef = 0 \<rparr>"

subsection \<open>A device of 20 blocks, before and after the formatter\<close>

definition garbage_inode :: SOInode where
  \<comment> \<open>what an inode of a device never formatted may hold\<close>
  "garbage_inode = \<lparr> mode = 0xAAAA, refcount = 7, owner = 3, group' = 3, size' = 77, clucount = 5,
     vD1 = 1, vD2 = 2, d = replicate 7 5, i1 = 9, i2 = 10 \<rparr>"

definition dev20 :: fs_state where
  \<comment> \<open>a device of 20 blocks before it is formatted: one block of inodes, one of the map,
      one of the bitmap and four data clusters, none with a meaningful content\<close>
  "dev20 = \<lparr> sb = sb_full, itable = [replicate 8 garbage_inode],
      ctinmt = [replicate 128 0x55], bmapt = [replicate 512 0xAA], dzone = replicate 4 (DataC []),
      sngIndRefClust = DataC [], nClustSIRef = 0, dirRefClust = DataC [], nClustDRef = 0 \<rparr>"

definition sb20 :: SOSuperBlock where
  \<comment> \<open>the superblock of the device of 20 blocks once formatted with 8 inodes\<close>
  "sb20 = \<lparr> magic = 0x65FE, version = 0x2013, sb_name = ''SOFS13'', ntotal = 20, mstat = 0,
     itable_start = 1, itable_size = 1, itotal = 8, ifree = 7, ihead = 1, itail = 7,
     ciutable_start = 2, ciutable_size = 1,
     dzone_retriev = \<lparr>cache_idx = 50, cache = empty_cache\<rparr>,
     dzone_insert = \<lparr>cache_idx = 0, cache = empty_cache\<rparr>,
     fctable_start = 3, fctable_size = 1, fctable_pos = 1,
     dzone_start = 4, dzone_total = 4, dzone_free = 3 \<rparr>"

definition fs20 :: fs_state where
  \<comment> \<open>the device of 20 blocks once formatted by user 1000 at time 1000\<close>
  "fs20 = \<lparr> sb = sb20,
     itable = [[root_inode\<lparr>vD1 := 1000, vD2 := 1000\<rparr>, free_inode 0xFFFFFFFF 2, free_inode 1 3,
                free_inode 2 4, free_inode 3 5, free_inode 4 6, free_inode 5 7, free_inode 6 0xFFFFFFFF]],
     ctinmt = [0 # replicate 3 0xFFFFFFFF @ replicate 124 0xFFFFFFFE],
     bmapt = [0x7F # replicate 511 0],
     dzone = [DirC (\<lparr>de_name = CHR ''.'' # replicate 59 (CHR 0x00), de_nInode = 0\<rparr> #
                    \<lparr>de_name = CHR ''.'' # CHR ''.'' # replicate 58 (CHR 0x00), de_nInode = 0\<rparr> #
                    replicate 30 \<lparr>de_name = replicate 60 (CHR 0x00), de_nInode = 0xFFFFFFFF\<rparr>),
              DataC [], DataC [], DataC []],
     sngIndRefClust = DataC [], nClustSIRef = 0, dirRefClust = DataC [], nClustDRef = 0 \<rparr>"

definition dev8 :: fs_state where
  \<comment> \<open>a device of 8 blocks before it is formatted: one block of inodes, one of the map,
      one of the bitmap and one data cluster\<close>
  "dev8 = \<lparr> sb = sb_full, itable = [replicate 8 garbage_inode],
      ctinmt = [replicate 128 0x55], bmapt = [replicate 512 0xAA], dzone = [DataC []],
      sngIndRefClust = DataC [], nClustSIRef = 0, dirRefClust = DataC [], nClustDRef = 0 \<rparr>"

section \<open>Reading the tables\<close>

definition inode_at :: "sofs_const \<Rightarrow> fs_state \<Rightarrow> u32 \<Rightarrow> SOInode" where
  \<comment> \<open>the inode \<open>n\<close> of the table, by the arithmetic of soConvertRefInT\<close>
  "inode_at K st n = itable st ! unat (n div IPB K) ! unat (n mod IPB K)"

definition bmap_bit :: "sofs_const \<Rightarrow> fs_state \<Rightarrow> u32 \<Rightarrow> bool" where
  \<comment> \<open>the test of soReplenish on the bit of the cluster \<open>c\<close>:
      \<open>mask = 0x80 >> nBit; (fcBMapT[nByte] & mask) == mask\<close>, at the position that
      soConvertRefBMapT gives\<close>
  "bmap_bit K st c =
     (let nBlk = c div (8 * BLOCK_SIZE K);
          nByte = (c mod (8 * BLOCK_SIZE K)) div 8;
          nBit = (c mod (8 * BLOCK_SIZE K)) mod 8;
          mask = drop_bit (unat nBit) (0x80 :: u8)
      in (bmapt st ! unat nBlk ! unat nByte) AND mask = mask)"

definition bm_get :: "nat \<Rightarrow> u8 list list \<Rightarrow> nat \<Rightarrow> bool" where
  \<comment> \<open>the same bit, the position computed on natural numbers (\<open>BS\<close> bytes in a block)\<close>
  "bm_get BS bm c = bit (bm ! (c div (8 * BS)) ! ((c mod (8 * BS)) div 8)) (7 - c mod 8)"

definition bm_inv :: "nat \<Rightarrow> u8 list list \<Rightarrow> nat \<Rightarrow> bool" where
  \<comment> \<open>what the loop of fillInBitMapT has reached before it handles the cluster \<open>i\<close>\<close>
  "bm_inv BS bm i = (\<forall>c<i. c div (8 * BS) < length bm \<and> length (bm ! (c div (8 * BS))) = BS \<and>
                            bm_get BS bm c = (c \<noteq> 0))"

section \<open>Properties\<close>

subsection \<open>Running the functions on the concrete file systems\<close>

lemmas model_defs =
  on_ok_def check_def soConvertRefInT_def soLoadBlockInT_def soStoreBlockInT_def
  soReadInode_def soWriteInode_def soAccessGranted_def soFreeInode_def
  soConvertRefCInMT_def soLoadBlockCTInMT_def soStoreBlockCTInMT_def
  soReadCacheCluster_def soWriteCacheCluster_def clust_index_def
  soAllocDataCluster_def soMapDCtoIn_def soHandleDirect_def soHandleFileCluster_def
  soReadFileCluster_def soWriteFileCluster_def soHandleFileClusters_def
  soGetDirEntryByName_def soAddAttDirEntry_def soRemDetachDirEntry_entry_def soRemDetachDirEntry_def
  basename_def cstring_def strncpy_def sizeof_SODirEntry_def de_view_def ref_view_def clean_entry_def

lemmas const_defs =
  sofs13_def env_of_def env_stale_def GET_def ALLOC_def FREE_def FREE_CLEAN_def CLEAN_def IUIN_def FDIN_def
  DZONE_CACHE_SIZE_def R_def W_def X_def ADD_def ATTACH_def REM_def DETACH_def

lemmas state_defs =
  fs_tree_def sb_tree_def fs_bigdir_def bigdir_cluster0_def bigdir_cluster1_def fs_full_def sb_full_def
  root_inode_def dir_inode_def file_inode_def free_inode_def no_refs_def empty_cache_def dirent_def

lemma upt_32:
  "[0..<32::nat] = [0, 1, 2, 3, 4, 5, 6, 7, 8, 9, 10, 11, 12, 13, 14, 15, 16, 17, 18, 19, 20,
                    21, 22, 23, 24, 25, 26, 27, 28, 29, 30, 31]"
  by code_simp

lemma upt_2: "[0..<2::nat] = [0, 1]"
  by code_simp

subsection \<open>Byte position to cluster index and offset\<close>

text \<open>
  C9. For every byte position \<open>p < MAX_FILE_SIZE\<close> (and non-null output pointers) the
  conversion returns the pair \<open>(p / BSLPC, p mod BSLPC)\<close>, and
  \<open>clustInd * BSLPC + offset\<close> gives \<open>p\<close> back; for \<open>p \<ge> MAX_FILE_SIZE\<close> or a
  null output pointer it fails with EINVAL.
\<close>

theorem soConvertBPIDC_roundtrip:
  "(p < MAX_FILE_SIZE K \<and> p_clustInd \<noteq> NULL \<and> p_offset \<noteq> NULL \<longrightarrow>
      soConvertBPIDC K p p_clustInd p_offset = Inr (p div BSLPC K, p mod BSLPC K) \<and>
      (p div BSLPC K) * BSLPC K + p mod BSLPC K = p) \<and>
   (p \<ge> MAX_FILE_SIZE K \<or> p_clustInd = NULL \<or> p_offset = NULL \<longrightarrow>
      soConvertBPIDC K p p_clustInd p_offset = Inl EINVAL)"
  by (auto simp: soConvertBPIDC_def div_mult_mod_eq)

theorem soConvertBPIDC_roundtrip_witness:
  "soConvertBPIDC sofs13 5000 Loc Loc = Inr (2, 904) \<and> (2 :: u32) * 2048 + 904 = 5000 \<and>
   soConvertBPIDC sofs13 537933824 Loc Loc = Inl EINVAL \<and>
   soConvertBPIDC sofs13 5000 NULL Loc = Inl EINVAL"
  using soConvertBPIDC_roundtrip [of 5000 sofs13 Loc Loc]
        soConvertBPIDC_roundtrip [of 537933824 sofs13 Loc Loc]
        soConvertBPIDC_roundtrip [of 5000 sofs13 NULL Loc]
  by (simp add: sofs13_def)

subsection \<open>Access rights\<close>

text \<open>
  C3. The claim: when the calling process is root (uid 0), any request made of R and W only
  is granted. The code does not test the uid of the caller: it takes the root branch when
  the \<^emph>\<open>owner of the inode\<close> is 0. On a file of user 1000 with mode \<open>r--------\<close>, a
  root process (uid 0, gid 0) asking for \<open>R|W\<close> goes through the owner, group and other
  tests of an ordinary user and is refused.
\<close>

theorem soAccessGranted_root_denied:
  "soAccessGranted sofs13 (env_of 0 0) fs_full 1 (R OR W) = Inl EACCES"
  by code_simp

text \<open>The input is as the claim asks: the caller is root and inode 1 is a regular file in use.\<close>

theorem soAccessGranted_root_denied_witness:
  "getuid (env_of 0 0) = 0 \<and>
   mode (itable fs_full ! 0 ! 1) AND INODE_TYPE_MASK sofs13 = INODE_FILE sofs13 \<and>
   mode (itable fs_full ! 0 ! 1) AND INODE_FREE sofs13 = 0 \<and>
   soAccessGranted sofs13 (env_of 0 0) fs_full 1 (R OR W) = Inl EACCES"
proof -
  have "getuid (env_of 0 0) = 0" by (simp add: env_of_def)
  moreover have "mode (itable fs_full ! 0 ! 1) AND INODE_TYPE_MASK sofs13 = INODE_FILE sofs13"
    by code_simp
  moreover have "mode (itable fs_full ! 0 ! 1) AND INODE_FREE sofs13 = 0"
    by code_simp
  ultimately show ?thesis
    using soAccessGranted_root_denied by simp
qed

subsection \<open>Freeing an inode\<close>

text \<open>
  C5. The claim: freeInode clears owner and group. When the list of free inodes is empty
  (\<open>ifree = 0\<close>) the code sets the free flag and the two links but leaves owner and group
  as they were; only the branch for a non-empty list clears them. Here inode 1 is in use with
  refcount 0 and owned by user 1000, and no inode is free.
\<close>

theorem soFreeInode_empty_list_keeps_owner:
  "(case soFreeInode sofs13 (env_of 1000 1000) fs_full 1 of
      Inl e \<Rightarrow> False
    | Inr st \<Rightarrow>
        owner (itable st ! 0 ! 1) = 1000 \<and> group' (itable st ! 0 ! 1) = 1000 \<and>
        mode (itable st ! 0 ! 1) = 0x1500 \<and>
        ihead (sb st) = 1 \<and> itail (sb st) = 1 \<and> ifree (sb st) = 1)"
  by code_simp

text \<open>The input is as the claim asks: inode 1 is in use, its refcount is 0, and it is not inode 0.\<close>

theorem soFreeInode_empty_list_keeps_owner_witness:
  "mode (itable fs_full ! 0 ! 1) AND INODE_FREE sofs13 = 0 \<and>
   refcount (itable fs_full ! 0 ! 1) = 0 \<and> ifree (sb fs_full) = 0 \<and>
   (\<exists>st. soFreeInode sofs13 (env_of 1000 1000) fs_full 1 = Inr st \<and>
      owner (itable st ! 0 ! 1) = 1000 \<and> group' (itable st ! 0 ! 1) = 1000)"
proof -
  have "mode (itable fs_full ! 0 ! 1) AND INODE_FREE sofs13 = 0" by code_simp
  moreover have "refcount (itable fs_full ! 0 ! 1) = 0" by code_simp
  moreover have "ifree (sb fs_full) = 0" by code_simp
  ultimately show ?thesis
    using soFreeInode_empty_list_keeps_owner
    by (cases "soFreeInode sofs13 (env_of 1000 1000) fs_full 1") simp_all
qed

subsection \<open>Reading an inode\<close>

text \<open>
  C10. A successful soReadInode with status IUIN returns the stored inode with its
  \<open>vD1\<close> (atime) set to the current time, and writes the block of the table of inodes back
  with exactly that inode replaced: every other field of the inode, every other inode of
  the block, every other block, the superblock and the other tables are as before. The
  inode returned is the one now stored.
\<close>

theorem soReadInode_in_use_sets_atime:
  assumes "soReadInode K E st Loc nInode IUIN = Inr (st', ino)"
  shows "unat (nInode div IPB K) < length (itable st) \<and>
         ino = (itable st ! unat (nInode div IPB K) ! unat (nInode mod IPB K))\<lparr>vD1 := time_now E\<rparr> \<and>
         itable st' = (itable st)[unat (nInode div IPB K) :=
                        (itable st ! unat (nInode div IPB K))[unat (nInode mod IPB K) := ino]] \<and>
         sb st' = sb st \<and> ctinmt st' = ctinmt st \<and> bmapt st' = bmapt st \<and> dzone st' = dzone st \<and>
         sngIndRefClust st' = sngIndRefClust st \<and> nClustSIRef st' = nClustSIRef st \<and>
         dirRefClust st' = dirRefClust st \<and> nClustDRef st' = nClustDRef st \<and>
         (unat (nInode mod IPB K) < length (itable st ! unat (nInode div IPB K)) \<longrightarrow>
            itable st' ! unat (nInode div IPB K) ! unat (nInode mod IPB K) = ino)"
  using assms
  by (auto simp: soReadInode_def soConvertRefInT_def soLoadBlockInT_def soStoreBlockInT_def
        on_ok_def check_def Let_def IUIN_def FDIN_def
      split: if_splits sum.splits option.splits)

theorem soReadInode_in_use_sets_atime_witness:
  "soReadInode sofs13 (env_of 1000 1000) fs_full Loc 2 IUIN =
     Inr (fs_full\<lparr>itable := [(itable fs_full ! 0)[2 := (file_inode 0x100 1)\<lparr>vD1 := 1000\<rparr>]]\<rparr>,
          (file_inode 0x100 1)\<lparr>vD1 := 1000\<rparr>) \<and>
   itable fs_full ! 0 ! 2 = file_inode 0x100 1 \<and> vD1 (file_inode 0x100 1) = 900"
proof -
  have run: "soReadInode sofs13 (env_of 1000 1000) fs_full Loc 2 IUIN =
     Inr (fs_full\<lparr>itable := [(itable fs_full ! 0)[2 := (file_inode 0x100 1)\<lparr>vD1 := 1000\<rparr>]]\<rparr>,
          (file_inode 0x100 1)\<lparr>vD1 := 1000\<rparr>)"
    by code_simp
  have "2 < length (itable fs_full ! 0)" by code_simp
  with soReadInode_in_use_sets_atime [OF run] show ?thesis
    using run by (simp add: fs_full_def file_inode_def sofs13_def)
qed

subsection \<open>Allocating a cluster of a file\<close>

text \<open>
  C4. The claim: for every inode in use, \<open>ALLOC\<close> on an empty slot allocates a cluster,
  attaches it and returns its number. soMapDCtoIn refuses inode 0, so on the root
  directory (inode 0, in use) the operation pops a cluster from the retrieval cache and
  then fails with EINVAL; the inode is not written. Here slot 1 of the root directory is
  empty.
\<close>

theorem soHandleFileCluster_alloc_root_fails:
  "soHandleFileCluster sofs13 (env_of 1000 1000) fs_tree 0 1 ALLOC Loc = Inl EINVAL"
  by (simp add: model_defs const_defs state_defs Let_def word_le_nat_alt word_less_nat_alt)

text \<open>The input is as the claim asks: inode 0 is a directory in use and its slot 1 is empty.\<close>

theorem soHandleFileCluster_alloc_root_fails_witness:
  "mode (itable fs_tree ! 0 ! 0) AND INODE_TYPE_MASK sofs13 = INODE_DIR sofs13 \<and>
   mode (itable fs_tree ! 0 ! 0) AND INODE_FREE sofs13 = 0 \<and>
   d (itable fs_tree ! 0 ! 0) ! 1 = NULL_CLUSTER sofs13 \<and>
   soHandleFileCluster sofs13 (env_of 1000 1000) fs_tree 0 1 ALLOC Loc = Inl EINVAL"
  using soHandleFileCluster_alloc_root_fails
  by (simp add: const_defs state_defs)

text \<open>
  On the regular file of inode 3 the same operation does what the claim says: cluster 4
  is taken from the retrieval cache, stored in slot 1, mapped to inode 3, and \<open>clucount\<close>
  goes from 1 to 2.
\<close>

lemma soHandleFileCluster_alloc_file:
  "(case soHandleFileCluster sofs13 (env_of 1000 1000) fs_tree 3 1 ALLOC Loc of
      Inl e \<Rightarrow> False
    | Inr (st, outVal) \<Rightarrow>
        outVal = Some 4 \<and> d (itable st ! 0 ! 3) ! 1 = 4 \<and> clucount (itable st ! 0 ! 3) = 2 \<and>
        ctinmt st ! 0 ! 4 = 3 \<and> dzone_free (sb st) = 19)"
  by (simp add: model_defs const_defs state_defs Let_def word_le_nat_alt word_less_nat_alt)

subsection \<open>Looking a name up in a directory\<close>

text \<open>
  C7. The claim: when no entry matches and none is clean, the index returned is the size of
  the directory divided by the size of an entry. The code stores the inner loop variable
  \<open>j\<close>, which is \<open>DPC\<close> after the loops whatever the number of clusters. In a directory
  of two full clusters (64 entries of 64 bytes, size 4096) the index is 32, not 64.
\<close>

theorem soGetDirEntryByName_full_directory:
  "(case soGetDirEntryByName sofs13 (env_of 1000 1000) fs_bigdir 0 (Some ''zz'') Loc Loc of
      Inl e \<Rightarrow> False
    | Inr (st, stat, nInodeEnt, idx) \<Rightarrow>
        stat = Some ENOENT \<and> nInodeEnt = NULL_INODE sofs13 \<and> idx = 32)"
  by (simp add: model_defs const_defs state_defs Let_def word_le_nat_alt word_less_nat_alt upt_32 upt_2)

text \<open>The input: the directory has 4096 / 64 = 64 entries.\<close>

theorem soGetDirEntryByName_full_directory_witness:
  "size' (itable fs_bigdir ! 0 ! 0) div sizeof_SODirEntry sofs13 = 64 \<and>
   (\<exists>st. soGetDirEntryByName sofs13 (env_of 1000 1000) fs_bigdir 0 (Some ''zz'') Loc Loc =
            Inr (st, Some ENOENT, NULL_INODE sofs13, 32))"
proof -
  have "size' (itable fs_bigdir ! 0 ! 0) div sizeof_SODirEntry sofs13 = 64"
    by (simp add: const_defs state_defs sizeof_SODirEntry_def)
  then show ?thesis
    using soGetDirEntryByName_full_directory
    by (cases "soGetDirEntryByName sofs13 (env_of 1000 1000) fs_bigdir 0 (Some ''zz'') Loc Loc")
       auto
qed

subsection \<open>Attaching a directory\<close>

text \<open>
  C6. The claim: \<open>ATTACH\<close> succeeds only for a directory and fails with the inode
  inconsistency error otherwise. The test of the code is the other way round: it returns
  EIUININVAL when the inode to attach \<^emph>\<open>is\<close> a directory. Here inode 2 is a directory in
  use, with its \<open>.\<close> and \<open>..\<close> entries, and the root directory has no entry \<open>b\<close>.
\<close>

theorem soAddAttDirEntry_attach_directory_fails:
  "soAddAttDirEntry sofs13 (env_of 1000 1000) fs_tree 0 (Some ''b'') 2 ATTACH = Inl EIUININVAL"
  by (simp add: model_defs const_defs state_defs Let_def word_le_nat_alt word_less_nat_alt upt_32)

theorem soAddAttDirEntry_attach_directory_fails_witness:
  "mode (itable fs_tree ! 0 ! 2) AND INODE_TYPE_MASK sofs13 = INODE_DIR sofs13 \<and>
   mode (itable fs_tree ! 0 ! 2) AND INODE_FREE sofs13 = 0 \<and>
   soAddAttDirEntry sofs13 (env_of 1000 1000) fs_tree 0 (Some ''b'') 2 ATTACH = Inl EIUININVAL"
  using soAddAttDirEntry_attach_directory_fails
  by (simp add: const_defs state_defs)

subsection \<open>Removing the last link of a file\<close>

text \<open>
  Whatever the state, the inode and the index, soHandleFileClusters refuses the operation
  code of \<open>REM\<close>, which is 0 and none of \<open>FREE\<close>, \<open>FREE_CLEAN\<close> and \<open>CLEAN\<close>.
\<close>

lemma soHandleFileClusters_REM:
  "soHandleFileClusters K E st nInode clustIndIn REM = Inl EINVAL"
  by (simp add: soHandleFileClusters_def REM_def FREE_def FREE_CLEAN_def CLEAN_def Let_def)

text \<open>
  C2. The claim: when the refcount of the entry drops to zero (to one for a directory),
  \<open>REM\<close> releases the clusters with \<open>handleFileClusters (nInodeEnt, 0, FREE_CLEAN)\<close> and
  frees the inode. The code passes its own operation code \<open>op\<close> to soHandleFileClusters.
  So, for every file system, directory, name and environment: \<open>REM\<close> is the code down to
  the write of the two inodes, followed, when the refcount written is zero (one for a
  directory), by the return of EINVAL, and by the write of the directory cluster
  otherwise. The removal of a last link never succeeds, the clusters are never released
  and soFreeInode is never called.
\<close>

theorem soRemDetachDirEntry_REM_last_link:
  "soRemDetachDirEntry K E st nInodeDir eName REM =
     on_ok (soRemDetachDirEntry_entry K E st nInodeDir eName REM) (\<lambda>(st, i, de, inodeEnt, nInodeEnt).
       if refcount inodeEnt = 0 \<or> (refcount inodeEnt = 1 \<and> mode inodeEnt AND INODE_DIR K \<noteq> 0)
       then Inl EINVAL
       else soWriteFileCluster K E st nInodeDir i (Some (DirC de)))"
  by (auto simp: soRemDetachDirEntry_def soHandleFileClusters_REM on_ok_def
           split: sum.splits prod.splits)

text \<open>
  Here \<open>f\<close> is the only link of inode 3, a regular file. Where the read of
  soReadFileCluster through its unassigned pointer stops the run, the removal stops at
  the first call that soRemDetachDirEntry makes of it; where the read goes through, the
  refcount 0 is written and the removal returns EINVAL.
\<close>

theorem soRemDetachDirEntry_REM_last_link_witness:
  "refcount (itable fs_tree ! 0 ! 3) = 1 \<and>
   mode (itable fs_tree ! 0 ! 3) AND INODE_TYPE_MASK sofs13 = INODE_FILE sofs13 \<and>
   soRemDetachDirEntry sofs13 (env_of 1000 1000) fs_tree 0 (Some ''f'') REM = Inl UNDEFINED \<and>
   (case soRemDetachDirEntry_entry sofs13 (env_stale 1000 1000) fs_tree 0 (Some ''f'') REM of
      Inl _ \<Rightarrow> False
    | Inr (st, i, de, inodeEnt, nInodeEnt) \<Rightarrow>
        nInodeEnt = 3 \<and> refcount inodeEnt = 0 \<and> refcount (itable st ! 0 ! 3) = 0) \<and>
   soRemDetachDirEntry sofs13 (env_stale 1000 1000) fs_tree 0 (Some ''f'') REM = Inl EINVAL"
proof -
  have e1: "soRemDetachDirEntry_entry sofs13 (env_of 1000 1000) fs_tree 0 (Some ''f'') REM = Inl UNDEFINED"
    by (simp add: model_defs const_defs state_defs Let_def word_le_nat_alt word_less_nat_alt upt_32)
  have e2: "(case soRemDetachDirEntry_entry sofs13 (env_stale 1000 1000) fs_tree 0 (Some ''f'') REM of
      Inl _ \<Rightarrow> False
    | Inr (st, i, de, inodeEnt, nInodeEnt) \<Rightarrow>
        nInodeEnt = 3 \<and> refcount inodeEnt = 0 \<and> refcount (itable st ! 0 ! 3) = 0)"
    by (simp add: model_defs const_defs state_defs Let_def word_le_nat_alt word_less_nat_alt upt_32)
  have r1: "soRemDetachDirEntry sofs13 (env_of 1000 1000) fs_tree 0 (Some ''f'') REM = Inl UNDEFINED"
    using soRemDetachDirEntry_REM_last_link [of sofs13 "env_of 1000 1000" fs_tree 0 "Some ''f''"]
    by (simp add: e1 on_ok_def)
  have r2: "soRemDetachDirEntry sofs13 (env_stale 1000 1000) fs_tree 0 (Some ''f'') REM = Inl EINVAL"
    using soRemDetachDirEntry_REM_last_link [of sofs13 "env_stale 1000 1000" fs_tree 0 "Some ''f''"] e2
    by (auto simp: on_ok_def split: sum.splits prod.splits)
  have "refcount (itable fs_tree ! 0 ! 3) = 1 \<and>
        mode (itable fs_tree ! 0 ! 3) AND INODE_TYPE_MASK sofs13 = INODE_FILE sofs13"
    by (simp add: const_defs state_defs)
  with e2 r1 r2 show ?thesis by simp
qed

subsection \<open>The formatter\<close>

text \<open>The table of inodes after fillInINT.\<close>

lemma fold_update_all:
  "n \<le> length xs \<Longrightarrow> fold (\<lambda>k ds. ds[k := v]) [0 ..< n] xs = replicate n v @ drop n xs"
proof (induction n)
  case 0 then show ?case by simp
next
  case (Suc n)
  then have "fold (\<lambda>k ds. ds[k := v]) [0 ..< Suc n] xs = (replicate n v @ drop n xs)[n := v]"
    by simp
  also have "\<dots> = replicate n v @ (drop n xs)[0 := v]"
    by (simp add: list_update_append)
  also have "(drop n xs)[0 := v] = v # drop (Suc n) xs"
    using Suc.prems by (cases "drop n xs") (auto simp: drop_Suc tl_drop dest: arg_cong[where f=tl])
  finally show ?case by (simp add: replicate_append_same)
qed

lemma fillInINT_block_length:
  "length (fillInINT_block K E p_sb blk inode is) = length inode"
  by (induction "is" arbitrary: inode) auto

lemma fillInINT_block_nth:
  "distinct is \<Longrightarrow> i < length inode \<Longrightarrow>
   fillInINT_block K E p_sb blk inode is ! i =
     (if i \<in> set is then fillInINT_inode K E p_sb (IPB K * blk + of_nat i) (inode ! i) else inode ! i)"
proof (induction "is" arbitrary: inode)
  case Nil then show ?case by simp
next
  case (Cons a "is")
  let ?inode = "inode[a := fillInINT_inode K E p_sb (IPB K * blk + of_nat a) (inode ! a)]"
  have IH: "fillInINT_block K E p_sb blk ?inode is ! i =
     (if i \<in> set is then fillInINT_inode K E p_sb (IPB K * blk + of_nat i) (?inode ! i) else ?inode ! i)"
    using Cons.IH[of ?inode] Cons.prems by simp
  show ?case
  proof (cases "i = a")
    case True
    then have "i \<notin> set is" using Cons.prems(1) by simp
    with IH True Cons.prems(2) show ?thesis by simp
  next
    case False
    with IH show ?thesis by simp
  qed
qed

lemma fillInINT_loop_frame:
  "fillInINT_loop K E st blks = Inr st' \<Longrightarrow>
     sb st' = sb st \<and> ctinmt st' = ctinmt st \<and> bmapt st' = bmapt st \<and> dzone st' = dzone st \<and>
     length (itable st') = length (itable st)"
  by (induction blks arbitrary: st) (auto simp: soStoreBlockInT_def split: sum.splits)

lemma fillInINT_loop_nth:
  assumes "fillInINT_loop K E st blks = Inr st'" "distinct blks" "\<forall>b \<in> set blks. b \<le> unat (z :: u32)"
  shows "(\<forall>b \<in> set blks. b < length (itable st)) \<and>
     itable st' ! b =
     (if b \<in> set blks then fillInINT_block K E (sb st) (of_nat b) (itable st ! b) [0 ..< unat (IPB K)]
      else itable st ! b)"
  using assms
proof (induction blks arbitrary: st)
  case Nil then show ?case by simp
next
  case (Cons a blks)
  from Cons.prems(1) obtain inode where
    ld: "soLoadBlockInT K st (of_nat a) = Inr inode" and
    rest: "fillInINT_loop K E (soStoreBlockInT st (of_nat a)
               (fillInINT_block K E (sb st) (of_nat a) inode [0 ..< unat (IPB K)])) blks = Inr st'"
    by (auto split: sum.splits)
  have ua: "unat (of_nat a :: u32) = a" using Cons.prems(3) le_unat_uoi[of a z] by simp
  from ld have alen: "a < length (itable st)" and ino: "inode = itable st ! a"
    by (auto simp: soLoadBlockInT_def ua split: if_splits)
  let ?st1 = "soStoreBlockInT st (of_nat a) (fillInINT_block K E (sb st) (of_nat a) inode [0 ..< unat (IPB K)])"
  have sb1: "sb ?st1 = sb st" and len1: "length (itable ?st1) = length (itable st)"
    by (simp_all add: soStoreBlockInT_def)
  have IH: "(\<forall>b \<in> set blks. b < length (itable ?st1)) \<and> itable st' ! b = (if b \<in> set blks then fillInINT_block K E (sb ?st1) (of_nat b) (itable ?st1 ! b) [0 ..< unat (IPB K)]
      else itable ?st1 ! b)"
    using Cons.IH[OF rest] Cons.prems(2,3) by simp
  show ?case
  proof (cases "b = a")
    case True
    then have "b \<notin> set blks" using Cons.prems(2) by simp
    then show ?thesis using IH True alen ino len1 by (simp add: soStoreBlockInT_def ua)
  next
    case False
    then show ?thesis using IH sb1 alen len1 by (simp add: soStoreBlockInT_def ua)
  qed
qed

lemma fillInINT_inode_at:
  assumes ok: "fillInINT K E st = Inr st'"
    and tot: "unat (itotal (sb st)) = unat (itable_size (sb st)) * unat (IPB K)"
    and shape: "\<forall>blk \<in> set (itable st). length blk = unat (IPB K)"
    and n: "n < itotal (sb st)"
  shows "inode_at K st' n = fillInINT_inode K E (sb st) n (inode_at K st n)"
proof -
  have ipb: "unat (IPB K) \<noteq> 0" using tot n by (cases "unat (IPB K) = 0") (auto simp: word_less_nat_alt)
  let ?b = "unat (n div IPB K)" and ?i = "unat (n mod IPB K)"
  have b: "?b < unat (itable_size (sb st))"
    using tot n ipb by (simp add: unat_div word_less_nat_alt less_mult_imp_div_less)
  have i: "?i < unat (IPB K)" using ipb by (simp add: unat_mod)
  from ok have lp: "fillInINT_loop K E st [0 ..< unat (itable_size (sb st))] = Inr st'"
    by (simp add: fillInINT_def)
  have nth: "(\<forall>b \<in> set [0 ..< unat (itable_size (sb st))]. b < length (itable st)) \<and>
     itable st' ! ?b =
     (if ?b \<in> set [0 ..< unat (itable_size (sb st))] then fillInINT_block K E (sb st) (of_nat ?b) (itable st ! ?b) [0 ..< unat (IPB K)]
      else itable st ! ?b)"
    by (rule fillInINT_loop_nth[OF lp, where z = "itable_size (sb st)"]) auto
  with b have blen: "?b < length (itable st)" and
    blk: "itable st' ! ?b = fillInINT_block K E (sb st) (of_nat ?b) (itable st ! ?b) [0 ..< unat (IPB K)]"
    by auto
  from blen shape have len: "length (itable st ! ?b) = unat (IPB K)" by simp
  have "itable st' ! ?b ! ?i = fillInINT_inode K E (sb st) (IPB K * of_nat ?b + of_nat ?i) (itable st ! ?b ! ?i)"
    unfolding blk using i len by (subst fillInINT_block_nth) auto
  moreover have "IPB K * of_nat ?b + of_nat ?i = n"
    by (simp add: mult_div_mod_eq)
  ultimately show ?thesis by (simp add: inode_at_def)
qed


lemma fillInINT_frame:
  "fillInINT K E st = Inr st' \<Longrightarrow>
     sb st' = sb st \<and> ctinmt st' = ctinmt st \<and> bmapt st' = bmapt st \<and> dzone st' = dzone st"
  using fillInINT_loop_frame by (simp add: fillInINT_def)

lemma fillInCIT_loop_frame:
  "fillInCIT_loop K st nBlk bits p_offset refs = Inr (st', r) \<Longrightarrow>
     sb st' = sb st \<and> itable st' = itable st \<and> bmapt st' = bmapt st \<and> dzone st' = dzone st"
  by (induction refs arbitrary: st nBlk bits p_offset)
     (auto simp: soStoreBlockCTInMT_def Let_def split: sum.splits prod.splits if_splits)

lemma fillInCIT_frame:
  "fillInCIT K E st = Inr st' \<Longrightarrow>
     sb st' = sb st \<and> itable st' = itable st \<and> bmapt st' = bmapt st \<and> dzone st' = dzone st"
  by (auto simp: fillInCIT_def on_ok_def soStoreBlockCTInMT_def Let_def
           split: sum.splits prod.splits option.splits dest!: fillInCIT_loop_frame)

lemma fillInRootDir_effect:
  "fillInRootDir K st = Inr st' \<Longrightarrow>
     sb st' = sb st \<and> itable st' = itable st \<and> bmapt st' = bmapt st \<and>
     dzone st' ! 0 = DirC (\<lparr>de_name = strncpy ''.'' (MAX_NAME K + 1), de_nInode = 0\<rparr> #
                           \<lparr>de_name = strncpy ''..'' (MAX_NAME K + 1), de_nInode = 0\<rparr> #
                           replicate (unat (DPC K) - 2) (clean_entry K)) \<and>
     length (dzone st') = length (dzone st)"
  by (auto simp: fillInRootDir_def soWriteCacheCluster_def clust_index_def clean_entry_def strncpy_def
                 Let_def map_replicate_const split: if_splits)

text \<open>The bits of the bitmap: bytes, masks and positions.\<close>

lemma bit_pow8: "bit (2 ^ n :: u8) m = (m = n \<and> n < 8)"
  by (auto simp add: bit_exp_iff)

lemma bit_or_push: "n < 8 \<Longrightarrow> bit ((x :: u8) OR 2 ^ n) m = (bit x m \<or> m = n)"
  by (cases "m = n") (auto simp add: bit_or_iff bit_pow8 dest: bit_imp_le_length)

lemma pos_split_mod: "(c :: nat) mod (8 * BS) = 8 * ((c mod (8 * BS)) div 8) + c mod 8"
proof -
  have "c mod (8 * BS) mod 8 = c mod 8" by (simp add: mod_mod_cancel)
  then show ?thesis by (metis mult_div_mod_eq)
qed

lemma pos_split: "(c :: nat) = 8 * BS * (c div (8 * BS)) + 8 * ((c mod (8 * BS)) div 8) + c mod 8"
  using pos_split_mod[of c BS] by (metis add.assoc mult_div_mod_eq)

lemma div_pred_same:
  assumes "(i :: nat) mod N \<noteq> 0" "0 < N"
  shows "(i - 1) div N = i div N"
proof -
  have "i = i mod N + (i div N) * N" by simp
  then have "i - 1 = (i mod N - 1) + (i div N) * N" using assms(1) by linarith
  then have "(i - 1) div N = ((i mod N - 1) + (i div N) * N) div N" by simp
  also have "\<dots> = i div N + (i mod N - 1) div N" using assms(2) by simp
  also have "(i mod N - 1) div N = 0" using assms(2) by (simp add: less_imp_diff_less)
  finally show ?thesis by simp
qed

lemma bm_step:
  assumes BS: "0 < BS" and inv: "bm_inv BS bm i" and i: "0 < i" and blk: "i div (8 * BS) < length bm"
  shows "bm_inv BS
           (bm[i div (8 * BS) :=
              (if (i mod (8 * BS)) div 8 = 0 \<and> i mod 8 = 0 then replicate BS 0 else bm ! (i div (8 * BS)))
                [(i mod (8 * BS)) div 8 :=
                   ((if (i mod (8 * BS)) div 8 = 0 \<and> i mod 8 = 0 then replicate BS 0 else bm ! (i div (8 * BS)))
                      ! ((i mod (8 * BS)) div 8)) OR push_bit (7 - i mod 8) 1]])
           (Suc i)"
proof -
  define N where "N = 8 * BS"
  define b where "b = i div N"
  define y where "y = (i mod N) div 8"
  define first where "first = (y = 0 \<and> i mod 8 = 0)"
  define old where "old = (if first then replicate BS 0 else bm ! b)"
  define new where "new = old[y := old ! y OR push_bit (7 - i mod 8) 1]"
  define bm' where "bm' = bm[b := new]"
  have N: "0 < N" using BS by (simp add: N_def)
  have isplit: "i = N * b + 8 * y + i mod 8"
    unfolding N_def b_def y_def by (rule pos_split)
  have y_lt: "y < BS"
    unfolding y_def N_def using BS by (simp add: less_mult_imp_div_less mult.commute)
  have len_old: "length old = BS"
  proof (cases first)
    case True then show ?thesis by (simp add: old_def)
  next
    case False
    then have "8 * y + i mod 8 \<noteq> 0" by (auto simp: first_def)
    then have "i mod N \<noteq> 0" using pos_split_mod[of i BS] by (simp add: N_def y_def)
    then have "(i - 1) div N = b" unfolding b_def using N by (rule div_pred_same)
    moreover have "i - 1 < i" using i by simp
    ultimately have "length (bm ! b) = BS" using inv unfolding bm_inv_def N_def by metis
    with False show ?thesis by (simp add: old_def)
  qed
  have len_new: "length new = BS" by (simp add: new_def len_old)
  have blk': "b < length bm" using blk by (simp add: b_def N_def)
  have "bm_inv BS bm' (Suc i)"
    unfolding bm_inv_def
  proof (intro allI impI)
    fix c assume c: "c < Suc i"
    have csplit: "c = N * (c div N) + 8 * ((c mod N) div 8) + c mod 8"
      unfolding N_def by (rule pos_split)
    show "c div (8 * BS) < length bm' \<and> length (bm' ! (c div (8 * BS))) = BS \<and> bm_get BS bm' c = (c \<noteq> 0)"
    proof (cases "c = i")
      case True
      have "bit (new ! y) (7 - i mod 8)"
        using y_lt len_old by (simp add: new_def bit_or_push)
      then show ?thesis
        using True blk' len_new i by (simp add: bm'_def bm_get_def b_def[symmetric] N_def[symmetric] y_def[symmetric])
    next
      case False
      then have ci: "c < i" using c by simp
      then have old_c: "c div N < length bm" "length (bm ! (c div N)) = BS" "bm_get BS bm c = (c \<noteq> 0)"
        using inv unfolding bm_inv_def N_def by auto
      show ?thesis
      proof (cases "c div N = b")
        case False
        then show ?thesis using old_c by (simp add: bm'_def bm_get_def N_def[symmetric])
      next
        case True
        have nf: "\<not> first"
        proof
          assume first
          then have "i = N * b" using isplit by (simp add: first_def)
          then have "i \<le> c" using csplit True by simp
          then show False using ci by simp
        qed
        then have old: "old = bm ! b" by (simp add: old_def)
        show ?thesis
        proof (cases "(c mod N) div 8 = y")
          case False
          then show ?thesis using old_c True blk' len_new
            by (simp add: bm'_def bm_get_def N_def[symmetric] new_def old)
        next
          case same: True
          have ne: "c mod 8 \<noteq> i mod 8" using csplit isplit True same ci by auto
          have "c mod 8 < 8" "i mod 8 < 8" by simp_all
          then have ne7: "7 - c mod 8 \<noteq> 7 - i mod 8" using ne by linarith
          have "bit (new ! y) (7 - c mod 8) = bit (bm ! b ! y) (7 - c mod 8)"
            using y_lt len_old ne7 by (simp add: new_def bit_or_push old[symmetric])
          then show ?thesis using old_c True same blk' len_new
            by (simp add: bm'_def bm_get_def N_def[symmetric])
        qed
      qed
    qed
  qed
  then show ?thesis
    unfolding bm'_def new_def old_def first_def y_def b_def N_def .
qed


lemma mask_pow: "b < 8 \<Longrightarrow> drop_bit b (0x80 :: u8) = 2 ^ (7 - b)"
proof -
  assume "b < 8"
  then consider "b = 0" | "b = 1" | "b = 2" | "b = 3" | "b = 4" | "b = 5" | "b = 6" | "b = 7"
    by linarith
  then show ?thesis by cases simp_all
qed

lemma and_pow_iff: "n < 8 \<Longrightarrow> ((x :: u8) AND 2 ^ n = 2 ^ n) = bit x n"
proof
  assume n: "n < 8" and e: "x AND 2 ^ n = 2 ^ n"
  have "bit (x AND 2 ^ n) n = bit (2 ^ n :: u8) n" using e by simp
  then show "bit x n" using n by (simp add: bit_and_iff bit_pow8)
next
  assume n: "n < 8" and b: "bit x n"
  show "x AND 2 ^ n = 2 ^ n"
  proof (rule bit_eqI)
    fix m
    show "bit (x AND 2 ^ n) m = bit (2 ^ n :: u8) m"
      using b by (cases "m = n") (auto simp add: bit_and_iff bit_pow8)
  qed
qed

lemma bit_7F: "bit (0x7F :: u8) n = (n < 7)"
proof (cases "n < 8")
  case True
  then consider "n = 0" | "n = 1" | "n = 2" | "n = 3" | "n = 4" | "n = 5" | "n = 6" | "n = 7"
    by linarith
  then show ?thesis by cases (simp_all add: bit_numeral_simps)
next
  case False
  then have "\<not> bit (0x7F :: u8) n" using bit_imp_le_length[of "0x7F :: u8" n] by auto
  with False show ?thesis by simp
qed

lemma bmap_pos_nat:
  assumes "8 * unat (BLOCK_SIZE K) < 2 ^ 32"
  shows "unat (c div (8 * BLOCK_SIZE K)) = unat c div (8 * unat (BLOCK_SIZE K))"
    and "unat ((c mod (8 * BLOCK_SIZE K)) div 8) = (unat c mod (8 * unat (BLOCK_SIZE K))) div 8"
    and "unat ((c mod (8 * BLOCK_SIZE K)) mod 8) = unat c mod 8"
proof -
  have u8: "unat (8 * BLOCK_SIZE K) = 8 * unat (BLOCK_SIZE K)"
    using assms unat_mult_lem[of 8 "BLOCK_SIZE K"] by simp
  show "unat (c div (8 * BLOCK_SIZE K)) = unat c div (8 * unat (BLOCK_SIZE K))"
    by (simp add: unat_div u8)
  show "unat ((c mod (8 * BLOCK_SIZE K)) div 8) = (unat c mod (8 * unat (BLOCK_SIZE K))) div 8"
    by (simp add: unat_div unat_mod u8)
  show "unat ((c mod (8 * BLOCK_SIZE K)) mod 8) = unat c mod 8"
    by (simp add: unat_mod u8 mod_mod_cancel)
qed

lemma bmap_bit_nat:
  assumes "8 * unat (BLOCK_SIZE K) < 2 ^ 32"
  shows "bmap_bit K st c = bm_get (unat (BLOCK_SIZE K)) (bmapt st) (unat c)"
proof -
  have "unat c mod 8 < 8" by simp
  then show ?thesis
    by (simp add: bmap_bit_def bm_get_def Let_def bmap_pos_nat[OF assms] mask_pow and_pow_iff)
qed

lemma clust_index_mult:
  assumes "BLOCKS_PER_CLUSTER K \<noteq> 0" "i * unat (BLOCKS_PER_CLUSTER K) < 2 ^ 32"
  shows "clust_index K st (dzone_start (sb st) + of_nat i * BLOCKS_PER_CLUSTER K) = i"
proof -
  have b: "0 < unat (BLOCKS_PER_CLUSTER K)" using assms(1) by (simp add: unat_gt_0)
  then have "i \<le> i * unat (BLOCKS_PER_CLUSTER K)" by simp
  then have "i < 2 ^ 32" using assms(2) by linarith
  then have ui: "unat (of_nat i :: u32) = i" by (simp add: unat_of_nat)
  have "unat (of_nat i * BLOCKS_PER_CLUSTER K) = i * unat (BLOCKS_PER_CLUSTER K)"
    using assms(2) unat_mult_lem[of "of_nat i :: u32" "BLOCKS_PER_CLUSTER K"] by (simp add: ui)
  then show ?thesis using b by (simp add: clust_index_def unat_div)
qed

text \<open>The loop of fillInBitMapT.\<close>

lemma fillInBitMapT_loop_inv:
  assumes BS: "BLOCK_SIZE K \<noteq> 0" "8 * unat (BLOCK_SIZE K) < 2 ^ 32"
    and BPC: "BLOCKS_PER_CLUSTER K \<noteq> 0"
  shows "fillInBitMapT_loop K st zero [i ..< T] = Inr st' \<Longrightarrow>
         bm_inv (unat (BLOCK_SIZE K)) (bmapt st) i \<Longrightarrow> 0 < i \<Longrightarrow>
         T \<le> unat (dzone_total (sb st)) \<Longrightarrow>
         unat (dzone_total (sb st)) * unat (BLOCKS_PER_CLUSTER K) < 2 ^ 32 \<Longrightarrow>
         bm_inv (unat (BLOCK_SIZE K)) (bmapt st') (max i T) \<and> sb st' = sb st \<and>
         itable st' = itable st \<and> ctinmt st' = ctinmt st \<and> dzone st' ! 0 = dzone st ! 0"
proof (induction "T - i" arbitrary: i st)
  case 0
  then have "[i ..< T] = []" and "max i T = i" by simp_all
  with 0 show ?case by simp
next
  case (Suc k)
  let ?BS = "unat (BLOCK_SIZE K)"
  have iT: "i < T" using Suc.hyps(2) by simp
  have l: "[i ..< T] = i # [Suc i ..< T]" using iT by (simp add: upt_conv_Cons)
  define w where "w = (of_nat i :: u32)"
  have uw: "unat w = i"
    unfolding w_def using iT Suc.prems(4) le_unat_uoi[of i "dzone_total (sb st)"] by simp
  define bloco where "bloco = w div (8 * BLOCK_SIZE K)"
  define byteoff where "byteoff = (w mod (8 * BLOCK_SIZE K)) div 8"
  define bitoff where "bitoff = (w mod (8 * BLOCK_SIZE K)) mod 8"
  have pos: "unat bloco = i div (8 * ?BS)" "unat byteoff = (i mod (8 * ?BS)) div 8" "unat bitoff = i mod 8"
    unfolding bloco_def byteoff_def bitoff_def using bmap_pos_nat[OF BS(2), of w] uw by simp_all
  have wlt: "w < dzone_total (sb st)" using iT Suc.prems(4) uw by (simp add: word_less_nat_alt)
  have conv: "soConvertRefBMapT K st w Loc Loc Loc = Inr (bloco, byteoff, bitoff)"
    using wlt by (simp add: soConvertRefBMapT_def bloco_def byteoff_def bitoff_def)
  define p1 where "p1 = (if byteoff = 0 \<and> bitoff = 0 then replicate ?BS 0 else bmapt st ! unat bloco)"
  define p2 where "p2 = p1[unat byteoff := (p1 ! unat byteoff) OR push_bit (7 - unat bitoff) 1]"
  have wi: "of_nat i = w" by (simp add: w_def)
  note step = Suc.prems(1)[unfolded l fillInBitMapT_loop.simps wi conv]
  from step obtain p where load: "soLoadBlockBMapT K st bloco = Inr p"
    by (auto split: sum.splits)
  then have p: "p = bmapt st ! unat bloco" and blen: "unat bloco < length (bmapt st)"
    by (auto simp: soLoadBlockBMapT_def split: if_splits)
  from Suc.prems(1) obtain st2 where
    wr: "(if zero then soWriteCacheCluster K st (dzone_start (sb st) + w * BLOCKS_PER_CLUSTER K)
                         (DataC (replicate (unat (BSLPC K)) 0))
          else Inr st) = Inr st2" and
    rest: "fillInBitMapT_loop K (soStoreBlockBMapT st2 bloco p2) zero [Suc i ..< T] = Inr st'"
    using step load
    by (auto simp: p p1_def p2_def Let_def split: sum.splits)
  have "i * unat (BLOCKS_PER_CLUSTER K) \<le> unat (dzone_total (sb st)) * unat (BLOCKS_PER_CLUSTER K)"
    using iT Suc.prems(4) by simp
  then have "i * unat (BLOCKS_PER_CLUSTER K) < 2 ^ 32" using Suc.prems(5) by linarith
  then have ci: "clust_index K st (dzone_start (sb st) + w * BLOCKS_PER_CLUSTER K) = i"
    unfolding w_def using BPC by (rule clust_index_mult[rotated])
  have st2: "sb st2 = sb st \<and> itable st2 = itable st \<and> ctinmt st2 = ctinmt st \<and>
             bmapt st2 = bmapt st \<and> dzone st2 ! 0 = dzone st ! 0"
    using wr ci Suc.prems(3)
    by (cases zero) (auto simp: soWriteCacheCluster_def split: if_splits)
  let ?st3 = "soStoreBlockBMapT st2 bloco p2"
  have st3: "sb ?st3 = sb st" "itable ?st3 = itable st" "ctinmt ?st3 = ctinmt st"
    "dzone ?st3 ! 0 = dzone st ! 0" "bmapt ?st3 = (bmapt st)[unat bloco := p2]"
    using st2 by (simp_all add: soStoreBlockBMapT_def)
  have first: "(byteoff = 0 \<and> bitoff = 0) = ((i mod (8 * ?BS)) div 8 = 0 \<and> i mod 8 = 0)"
    using pos by (simp add: unat_eq_0[symmetric])
  have bs0: "0 < ?BS" using BS(1) by (simp add: unat_gt_0)
  have blen': "i div (8 * ?BS) < length (bmapt st)" using blen pos(1) by simp
  have eq: "bmapt ?st3 =
      (bmapt st)[i div (8 * ?BS) :=
              (if (i mod (8 * ?BS)) div 8 = 0 \<and> i mod 8 = 0 then replicate ?BS 0 else bmapt st ! (i div (8 * ?BS)))
                [(i mod (8 * ?BS)) div 8 :=
                   ((if (i mod (8 * ?BS)) div 8 = 0 \<and> i mod 8 = 0 then replicate ?BS 0 else bmapt st ! (i div (8 * ?BS)))
                      ! ((i mod (8 * ?BS)) div 8)) OR push_bit (7 - i mod 8) 1]]"
    unfolding st3(5) by (simp only: p2_def p1_def first pos)
  have "bm_inv ?BS (bmapt ?st3) (Suc i)"
    unfolding eq by (rule bm_step[OF bs0 Suc.prems(2) Suc.prems(3) blen'])
  note inv3 = this
  have k: "k = T - Suc i" using Suc.hyps(2) by simp
  have T3: "T \<le> unat (dzone_total (sb ?st3))" using Suc.prems(4) st3(1) by simp
  have tot3: "unat (dzone_total (sb ?st3)) * unat (BLOCKS_PER_CLUSTER K) < 2 ^ 32"
    using Suc.prems(5) st3(1) by simp
  have "bm_inv ?BS (bmapt st') (max (Suc i) T) \<and> sb st' = sb ?st3 \<and>
         itable st' = itable ?st3 \<and> ctinmt st' = ctinmt ?st3 \<and> dzone st' ! 0 = dzone ?st3 ! 0"
    by (rule Suc.hyps(1)[OF k rest inv3 _ T3 tot3]) simp
  moreover have "max (Suc i) T = max i T" using iT by simp
  ultimately show ?case using st3 by simp
qed

lemma bm_inv_init:
  assumes "0 < BS" "0 < length bm"
  shows "bm_inv BS (bm[0 := (replicate BS 0)[0 := 0x7F]]) (Suc 0)"
  using assms by (simp add: bm_inv_def bm_get_def bit_7F)

lemma fillInBitMapT_effect:
  assumes BS: "BLOCK_SIZE K \<noteq> 0" "8 * unat (BLOCK_SIZE K) < 2 ^ 32"
    and BPC: "BLOCKS_PER_CLUSTER K \<noteq> 0"
    and ok: "fillInBitMapT K E st zero = Inr st'"
    and tot: "unat (dzone_total (sb st)) * unat (BLOCKS_PER_CLUSTER K) < 2 ^ 32"
    and pos: "0 < dzone_total (sb st)"
  shows "bm_inv (unat (BLOCK_SIZE K)) (bmapt st') (unat (dzone_total (sb st))) \<and> sb st' = sb st \<and>
         itable st' = itable st \<and> ctinmt st' = ctinmt st \<and> dzone st' ! 0 = dzone st ! 0"
proof -
  let ?BS = "unat (BLOCK_SIZE K)"
  have bs0: "0 < ?BS" using BS(1) by (simp add: unat_gt_0)
  from pos have conv: "soConvertRefBMapT K st 0 Loc Loc Loc = Inr (0, 0, 0)"
    by (simp add: soConvertRefBMapT_def word_gt_0)
  from ok obtain p where load: "soLoadBlockBMapT K st 0 = Inr p"
    using conv by (auto simp: fillInBitMapT_def on_ok_def split: sum.splits)
  then have blen: "0 < length (bmapt st)"
    by (auto simp: soLoadBlockBMapT_def split: if_splits)
  let ?st1 = "soStoreBlockBMapT st 0 ((replicate ?BS 0)[0 := 0x7F])"
  have lp: "fillInBitMapT_loop K ?st1 zero [Suc 0 ..< unat (dzone_total (sb ?st1))] = Inr st'"
    using ok conv load by (simp add: fillInBitMapT_def on_ok_def Let_def)
  have st1: "sb ?st1 = sb st" "itable ?st1 = itable st" "ctinmt ?st1 = ctinmt st" "dzone ?st1 = dzone st"
    "bmapt ?st1 = (bmapt st)[0 := (replicate ?BS 0)[0 := 0x7F]]"
    by (simp_all add: soStoreBlockBMapT_def)
  have inv1: "bm_inv ?BS (bmapt ?st1) (Suc 0)"
    unfolding st1(5) using bs0 blen by (rule bm_inv_init)
  have "1 \<le> unat (dzone_total (sb st))" using pos by (simp add: word_less_nat_alt)
  then have mx: "max (Suc 0) (unat (dzone_total (sb st))) = unat (dzone_total (sb st))" by simp
  have "bm_inv ?BS (bmapt st') (max (Suc 0) (unat (dzone_total (sb ?st1)))) \<and> sb st' = sb ?st1 \<and>
         itable st' = itable ?st1 \<and> ctinmt st' = ctinmt ?st1 \<and> dzone st' ! 0 = dzone ?st1 ! 0"
    using fillInBitMapT_loop_inv[OF BS BPC lp inv1] tot st1(1) by simp
  then show ?thesis using st1 mx by simp
qed

text \<open>The inodes and the superblock that the formatter writes.\<close>

lemma fillInINT_inode_idx:
  assumes ok: "fillInINT K E st = Inr st'"
    and tot: "unat (itotal (sb st)) = unat (itable_size (sb st)) * unat (IPB K)"
    and n: "n < itotal (sb st)"
  shows "unat (n div IPB K) < length (itable st) \<and> unat (n mod IPB K) < unat (IPB K)"
proof -
  have ipb: "unat (IPB K) \<noteq> 0" using tot n by (cases "unat (IPB K) = 0") (auto simp: word_less_nat_alt)
  let ?b = "unat (n div IPB K)" and ?i = "unat (n mod IPB K)"
  have b: "?b < unat (itable_size (sb st))"
    using tot n ipb by (simp add: unat_div word_less_nat_alt less_mult_imp_div_less)
  have i: "?i < unat (IPB K)" using ipb by (simp add: unat_mod)
  from ok have lp: "fillInINT_loop K E st [0 ..< unat (itable_size (sb st))] = Inr st'"
    by (simp add: fillInINT_def)
  have "(\<forall>b \<in> set [0 ..< unat (itable_size (sb st))]. b < length (itable st)) \<and>
     itable st' ! ?b =
     (if ?b \<in> set [0 ..< unat (itable_size (sb st))] then fillInINT_block K E (sb st) (of_nat ?b) (itable st ! ?b) [0 ..< unat (IPB K)]
      else itable st ! ?b)"
    by (rule fillInINT_loop_nth[OF lp, where z = "itable_size (sb st)"]) auto
  with b i show ?thesis by auto
qed

lemma fillInINT_inode_root:
  assumes "N_DIRECT K \<noteq> 0" "length (d ino) = unat (N_DIRECT K)"
  shows "mode (fillInINT_inode K E p_sb 0 ino) =
           (INODE_RD_OTH K OR INODE_WR_OTH K OR INODE_EX_OTH K OR
            INODE_RD_GRP K OR INODE_WR_GRP K OR INODE_EX_GRP K OR
            INODE_RD_USR K OR INODE_WR_USR K OR INODE_EX_USR K OR INODE_DIR K) \<and>
         refcount (fillInINT_inode K E p_sb 0 ino) = 2 \<and>
         size' (fillInINT_inode K E p_sb 0 ino) = CLUSTER_SIZE K \<and>
         d (fillInINT_inode K E p_sb 0 ino) ! 0 = 0"
proof -
  have "0 < unat (N_DIRECT K)" using assms(1) by (simp add: unat_gt_0)
  then show ?thesis using assms(2)
    by (simp add: fillInINT_inode_def Let_def fold_update_all)
qed

lemma fillInINT_inode_free:
  assumes "n \<noteq> 0" "length (d ino) = unat (N_DIRECT K)"
  shows "fillInINT_inode K E p_sb n ino =
           ino\<lparr>mode := INODE_FREE K, refcount := 0, owner := 0, group' := 0, size' := 0, clucount := 0,
               vD1 := (if n = 1 \<and> n \<noteq> itotal p_sb - 1 then NULL_INODE K else n - 1),
               vD2 := (if n = itotal p_sb - 1 then NULL_INODE K else n + 1),
               d := replicate (unat (N_DIRECT K)) (NULL_CLUSTER K),
               i1 := NULL_CLUSTER K, i2 := NULL_CLUSTER K\<rparr>"
  using assms by (simp add: fillInINT_inode_def Let_def fold_update_all)

lemma take_all_equal:
  assumes "n \<le> length xs" "\<And>y. y \<in> set xs \<Longrightarrow> y = x"
  shows "take n xs = replicate n x"
proof (rule replicate_eqI)
  show "length (take n xs) = n" using assms(1) by simp
next
  fix y assume "y \<in> set (take n xs)"
  then have "y \<in> set xs" using set_take_subset[of n xs] by auto
  then show "y = x" by (rule assms(2))
qed

lemma strncpy_dot:
  "strncpy ''.'' (n + 1) = CHR ''.'' # replicate n (CHR 0x00)"
proof -
  have "take n (CHR 0x00 # replicate n (CHR 0x00)) = replicate n (CHR 0x00)"
    by (rule take_all_equal) auto
  then show ?thesis by (simp add: strncpy_def)
qed

lemma strncpy_dotdot:
  "0 < n \<Longrightarrow> strncpy ''..'' (n + 1) = CHR ''.'' # CHR ''.'' # replicate (n - 1) (CHR 0x00)"
proof -
  assume "0 < n"
  then obtain m where m: "n = Suc m" by (cases n) auto
  have "take m (CHR 0x00 # CHR 0x00 # replicate m (CHR 0x00)) = replicate m (CHR 0x00)"
    by (rule take_all_equal) auto
  then show ?thesis by (simp add: strncpy_def m)
qed

lemma fillInSuperBlock_fields:
  "itotal (fillInSuperBlock K p_sb nt it cm fc nc name) = it \<and>
   ifree (fillInSuperBlock K p_sb nt it cm fc nc name) = it - 1 \<and>
   ihead (fillInSuperBlock K p_sb nt it cm fc nc name) = 1 \<and>
   itail (fillInSuperBlock K p_sb nt it cm fc nc name) = it - 1 \<and>
   dzone_total (fillInSuperBlock K p_sb nt it cm fc nc name) = nc \<and>
   dzone_free (fillInSuperBlock K p_sb nt it cm fc nc name) = nc - 1"
  by (simp add: fillInSuperBlock_def Let_def)

lemma checkFSConsist_ok:
  "checkFSConsist K E st = Inr st' \<Longrightarrow> st' = st \<and> 0 < itable_size (sb st)"
  by (auto simp: checkFSConsist_def check_def on_ok_def soLoadBlockInT_def Let_def word_gt_0
           split: option.splits sum.splits if_splits)

lemma fillInBitMapT_loop_sb:
  "fillInBitMapT_loop K st zero is = Inr st' \<Longrightarrow> sb st' = sb st"
  by (induction "is" arbitrary: st)
     (auto simp: soWriteCacheCluster_def soStoreBlockBMapT_def Let_def split: sum.splits prod.splits if_splits)

lemma fillInBitMapT_sb:
  "fillInBitMapT K E st zero = Inr st' \<Longrightarrow> sb st' = sb st"
  by (auto simp: fillInBitMapT_def on_ok_def soStoreBlockBMapT_def Let_def
           split: sum.splits prod.splits dest!: fillInBitMapT_loop_sb)

text \<open>
  The formatter cannot succeed with no data cluster at all when a cluster has more than
  one block: the layout then gives no block to the map either, and fillInCIT fails.
\<close>

lemma sige_div_zero: "sige_div 0 b = 0"
  by (simp add: sige_div_def)

lemma mkfs_layout_clusters:
  assumes lay: "mkfs_layout K n i = (it, cm, fc, nc)" and cm: "cm \<noteq> 0"
    and bpc: "1 < BLOCKS_PER_CLUSTER K"
  shows "nc \<noteq> 0"
proof -
  define iblk where "iblk = sige_div (if i = 0 then drop_bit 3 n else i) (IPB K)"
  define tmp where "tmp = (n - 1 - iblk) div BLOCKS_PER_CLUSTER K"
  define x where "x = n - 1 - iblk - sige_div tmp (BITS_PER_BLOCK K) - sige_div tmp (RPB K)"
  define nc1 where "nc1 = x div BLOCKS_PER_CLUSTER K"
  have cm1: "cm = sige_div nc1 (RPB K)" and nc: "nc = nc1 \<or> nc = nc1 + 1"
    using lay by (auto simp: mkfs_layout_def Let_def iblk_def tmp_def x_def nc1_def split: if_splits)
  have n0: "nc1 \<noteq> 0" using cm cm1 sige_div_zero by auto
  have "2 \<le> unat (BLOCKS_PER_CLUSTER K)" using bpc by (simp add: word_less_nat_alt)
  then have "unat x div unat (BLOCKS_PER_CLUSTER K) \<le> unat x div 2" by (intro div_le_mono2) simp_all
  moreover have "unat x < 2 ^ 32" using unsigned_less[of x, where 'a = nat] by simp
  ultimately have "unat nc1 + 1 < 2 ^ 32" by (simp add: nc1_def unat_div)
  then have "unat (nc1 + 1) = unat nc1 + 1" using unat_add_lem[of nc1 1] by simp
  then have "nc1 + 1 \<noteq> 0" by (metis Suc_eq_plus1 nat.simps(3) unat_0)
  with n0 nc show ?thesis by auto
qed

lemma mkfs_dzone_total_pos:
  assumes ok: "mkfs K E dev ntotal' itotal' name zero = Inr st"
    and bpc: "1 < BLOCKS_PER_CLUSTER K"
  shows "0 < dzone_total (sb st)"
proof -
  obtain it cm fc nc where lay: "mkfs_layout K ntotal' itotal' = (it, cm, fc, nc)"
    by (cases "mkfs_layout K ntotal' itotal'") auto
  define st0 where "st0 = dev\<lparr>sb := fillInSuperBlock K (sb dev) ntotal' it cm fc nc name\<rparr>"
  from ok lay obtain st1 st2 st3 st4 where
    s1: "fillInINT K E st0 = Inr st1" and s2: "fillInCIT K E st1 = Inr st2" and
    s3: "fillInRootDir K st2 = Inr st3" and s4: "fillInBitMapT K E st3 zero = Inr st4" and
    s5: "checkFSConsist K E (st4\<lparr>sb := (sb st4)\<lparr>magic := MAGIC_NUMBER\<rparr>\<rparr>) = Inr st"
    by (auto simp: mkfs_def on_ok_def Let_def st0_def split: sum.splits)
  have st: "st = st4\<lparr>sb := (sb st4)\<lparr>magic := MAGIC_NUMBER\<rparr>\<rparr>"
    using checkFSConsist_ok[OF s5] by simp
  have sb1: "sb st1 = sb st0" using fillInINT_frame[OF s1] by simp
  have sb4: "sb st4 = sb st0"
    using fillInBitMapT_sb[OF s4] fillInRootDir_effect[OF s3] fillInCIT_frame[OF s2] sb1 by simp
  from s2 have "0 < ciutable_size (sb st1)"
    by (auto simp: fillInCIT_def on_ok_def soLoadBlockCTInMT_def word_gt_0 split: if_splits sum.splits)
  then have "cm \<noteq> 0" by (auto simp: sb1 st0_def fillInSuperBlock_def Let_def)
  then have "nc \<noteq> 0" using mkfs_layout_clusters[OF lay _ bpc] by simp
  moreover have "dzone_total (sb st) = nc" by (simp add: st sb4 st0_def fillInSuperBlock_def Let_def)
  ultimately show ?thesis by (simp add: word_gt_0)
qed

text \<open>
  C8. Whenever the formatter succeeds: inode 0 is a directory with mode \<open>rwxrwxrwx\<close>, refcount 2, size
  \<open>CLUSTER_SIZE\<close> and \<open>d[0] = 0\<close>; data cluster 0 holds the entry of inode 0 whose name is
  the character \<open>.\<close> followed by \<open>MAX_NAME\<close> null characters, the entry of inode 0 whose
  name is \<open>..\<close> followed by \<open>MAX_NAME - 1\<close> null characters, and \<open>DPC - 2\<close> clean entries
  (\<open>MAX_NAME + 1\<close> null characters and \<open>NULL_INODE\<close>); every other inode is free in the
  clean state, its \<open>next\<close> the following inode (\<open>NULL_INODE\<close> for the last one) and its
  \<open>prev\<close> the preceding one (\<open>NULL_INODE\<close> for inode 1, unless inode 1 is the last one);
  \<open>ifree = itotal - 1\<close>, \<open>ihead = 1\<close>, \<open>itail = itotal - 1\<close>; the bit of cluster 0 is 0 and
  the bits of the clusters 1 to \<open>dzone_total - 1\<close> are 1 (none when there is one cluster
  only), and \<open>dzone_free = dzone_total - 1\<close>.

  The device is any: what its blocks hold before is not constrained, beyond the table of
  inodes having \<open>IPB\<close> inodes in each block and \<open>N_DIRECT\<close> direct references in each
  inode. The constants are any with \<open>IPB\<close>, \<open>N_DIRECT\<close>, \<open>MAX_NAME\<close>, \<open>BLOCK_SIZE\<close> and
  \<open>BLOCKS_PER_CLUSTER\<close> other than 0 and \<open>8 * BLOCK_SIZE\<close> within 32 bits. The sizes that the
  formatter has computed do not wrap around: the table of inodes holds \<open>itotal\<close> inodes
  in its \<open>itable_size\<close> blocks, and \<open>dzone_total * BLOCKS_PER_CLUSTER\<close> is within 32 bits.
  There is a data cluster 0: this follows from the success when a cluster has more than
  one block, and is asked for when it has one.
\<close>

theorem mkfs_initial_state:
  assumes ok: "mkfs K E dev ntotal' itotal' name zero = Inr st"
    and ipb: "IPB K \<noteq> 0" and nd: "N_DIRECT K \<noteq> 0"
    and bs: "BLOCK_SIZE K \<noteq> 0" "8 * unat (BLOCK_SIZE K) < 2 ^ 32"
    and bpc: "BLOCKS_PER_CLUSTER K \<noteq> 0"
    and shape: "\<forall>blk \<in> set (itable dev). length blk = unat (IPB K) \<and>
                  (\<forall>ino \<in> set blk. length (d ino) = unat (N_DIRECT K))"
    and itot: "unat (itotal (sb st)) = unat (itable_size (sb st)) * unat (IPB K)"
    and dtot: "unat (dzone_total (sb st)) * unat (BLOCKS_PER_CLUSTER K) < 2 ^ 32"
    and one: "BLOCKS_PER_CLUSTER K = 1 \<Longrightarrow> 0 < dzone_total (sb st)"
    and mn: "0 < MAX_NAME K"
  shows "mode (inode_at K st 0) =
           (INODE_RD_OTH K OR INODE_WR_OTH K OR INODE_EX_OTH K OR
            INODE_RD_GRP K OR INODE_WR_GRP K OR INODE_EX_GRP K OR
            INODE_RD_USR K OR INODE_WR_USR K OR INODE_EX_USR K OR INODE_DIR K) \<and>
         refcount (inode_at K st 0) = 2 \<and> size' (inode_at K st 0) = CLUSTER_SIZE K \<and>
         d (inode_at K st 0) ! 0 = 0 \<and>
         dzone st ! 0 =
           DirC (\<lparr>de_name = CHR ''.'' # replicate (MAX_NAME K) (CHR 0x00), de_nInode = 0\<rparr> #
                 \<lparr>de_name = CHR ''.'' # CHR ''.'' # replicate (MAX_NAME K - 1) (CHR 0x00), de_nInode = 0\<rparr> #
                 replicate (unat (DPC K) - 2)
                   \<lparr>de_name = replicate (MAX_NAME K + 1) (CHR 0x00), de_nInode = NULL_INODE K\<rparr>) \<and>
         (\<forall>n. 0 < n \<and> n < itotal (sb st) \<longrightarrow>
            mode (inode_at K st n) = INODE_FREE K \<and> refcount (inode_at K st n) = 0 \<and>
            size' (inode_at K st n) = 0 \<and> clucount (inode_at K st n) = 0 \<and>
            d (inode_at K st n) = replicate (unat (N_DIRECT K)) (NULL_CLUSTER K) \<and>
            i1 (inode_at K st n) = NULL_CLUSTER K \<and> i2 (inode_at K st n) = NULL_CLUSTER K \<and>
            vD1 (inode_at K st n) = (if n = 1 \<and> n \<noteq> itotal (sb st) - 1 then NULL_INODE K else n - 1) \<and>
            vD2 (inode_at K st n) = (if n = itotal (sb st) - 1 then NULL_INODE K else n + 1)) \<and>
         ifree (sb st) = itotal (sb st) - 1 \<and> ihead (sb st) = 1 \<and> itail (sb st) = itotal (sb st) - 1 \<and>
         \<not> bmap_bit K st 0 \<and>
         (\<forall>c. 0 < c \<and> c < dzone_total (sb st) \<longrightarrow> bmap_bit K st c) \<and>
         dzone_free (sb st) = dzone_total (sb st) - 1"
proof -
  have dpos: "0 < dzone_total (sb st)"
  proof (cases "BLOCKS_PER_CLUSTER K = 1")
    case True
    then show ?thesis by (rule one)
  next
    case False
    then have "unat (BLOCKS_PER_CLUSTER K) \<noteq> 1" "unat (BLOCKS_PER_CLUSTER K) \<noteq> 0"
      using bpc by (simp_all add: word_unat_eq_iff)
    then have "1 < BLOCKS_PER_CLUSTER K" by (simp add: word_less_nat_alt)
    with ok show ?thesis by (rule mkfs_dzone_total_pos)
  qed
  obtain it cm fc nc where lay: "mkfs_layout K ntotal' itotal' = (it, cm, fc, nc)"
    by (cases "mkfs_layout K ntotal' itotal'") auto
  define st0 where "st0 = dev\<lparr>sb := fillInSuperBlock K (sb dev) ntotal' it cm fc nc name\<rparr>"
  from ok lay obtain st1 st2 st3 st4 where
    s1: "fillInINT K E st0 = Inr st1" and s2: "fillInCIT K E st1 = Inr st2" and
    s3: "fillInRootDir K st2 = Inr st3" and s4: "fillInBitMapT K E st3 zero = Inr st4" and
    s5: "checkFSConsist K E (st4\<lparr>sb := (sb st4)\<lparr>magic := MAGIC_NUMBER\<rparr>\<rparr>) = Inr st"
    by (auto simp: mkfs_def on_ok_def Let_def st0_def split: sum.splits)
  have st: "st = st4\<lparr>sb := (sb st4)\<lparr>magic := MAGIC_NUMBER\<rparr>\<rparr>" and its0: "0 < itable_size (sb st)"
    using checkFSConsist_ok[OF s5] by simp_all
  note f1 = fillInINT_frame[OF s1]
  note f2 = fillInCIT_frame[OF s2]
  note f3 = fillInRootDir_effect[OF s3]
  have sb3: "sb st3 = sb st0" using f1 f2 f3 by simp
  have sb4: "sb st4 = sb st0" using fillInBitMapT_sb[OF s4] sb3 by simp
  have sbeq: "sb st = (sb st0)\<lparr>magic := MAGIC_NUMBER\<rparr>" by (simp add: st sb4)
  have dtot3: "unat (dzone_total (sb st3)) * unat (BLOCKS_PER_CLUSTER K) < 2 ^ 32"
    using dtot by (simp add: sbeq sb3)
  have dpos3: "0 < dzone_total (sb st3)" using dpos by (simp add: sbeq sb3)
  note f4 = fillInBitMapT_effect[OF bs bpc s4 dtot3 dpos3]
  have it1: "itable st = itable st1" using f2 f3 f4 by (simp add: st)
  have itot0: "unat (itotal (sb st0)) = unat (itable_size (sb st0)) * unat (IPB K)"
    using itot by (simp add: sbeq)
  have shape0: "\<forall>blk \<in> set (itable st0). length blk = unat (IPB K)"
    using shape by (simp add: st0_def)
  have ipb0: "0 < unat (IPB K)" using ipb by (simp add: unat_gt_0)
  have "0 < unat (itable_size (sb st0))" using its0 by (simp add: sbeq word_less_nat_alt)
  then have "0 < unat (itotal (sb st0))" using itot0 ipb0 by simp
  then have itpos: "0 < itotal (sb st0)" by (simp add: word_less_nat_alt)
  have ino: "inode_at K st n = fillInINT_inode K E (sb st0) n (inode_at K st0 n) \<and>
             length (d (inode_at K st0 n)) = unat (N_DIRECT K)" if n: "n < itotal (sb st0)" for n
  proof -
    have a: "inode_at K st1 n = fillInINT_inode K E (sb st0) n (inode_at K st0 n)"
      by (rule fillInINT_inode_at[OF s1 itot0 shape0 n])
    have idx: "unat (n div IPB K) < length (itable st0) \<and> unat (n mod IPB K) < unat (IPB K)"
      by (rule fillInINT_inode_idx[OF s1 itot0 n])
    then have blk: "itable dev ! unat (n div IPB K) \<in> set (itable dev)" by (simp add: st0_def)
    then have "length (itable dev ! unat (n div IPB K)) = unat (IPB K)" using shape by blast
    then have "itable dev ! unat (n div IPB K) ! unat (n mod IPB K) \<in> set (itable dev ! unat (n div IPB K))"
      using idx by simp
    then have "length (d (itable dev ! unat (n div IPB K) ! unat (n mod IPB K))) = unat (N_DIRECT K)"
      using shape blk by blast
    then show ?thesis using a by (simp add: inode_at_def it1 st0_def)
  qed
  have root: "mode (inode_at K st 0) =
           (INODE_RD_OTH K OR INODE_WR_OTH K OR INODE_EX_OTH K OR
            INODE_RD_GRP K OR INODE_WR_GRP K OR INODE_EX_GRP K OR
            INODE_RD_USR K OR INODE_WR_USR K OR INODE_EX_USR K OR INODE_DIR K) \<and>
         refcount (inode_at K st 0) = 2 \<and> size' (inode_at K st 0) = CLUSTER_SIZE K \<and>
         d (inode_at K st 0) ! 0 = 0"
    using ino[OF itpos] fillInINT_inode_root[OF nd, of "inode_at K st0 0" E "sb st0"] by simp
  note nm1 = strncpy_dot[of "MAX_NAME K"]
  note nm2 = strncpy_dotdot[OF mn]
  have clu: "dzone st ! 0 =
           DirC (\<lparr>de_name = CHR ''.'' # replicate (MAX_NAME K) (CHR 0x00), de_nInode = 0\<rparr> #
                 \<lparr>de_name = CHR ''.'' # CHR ''.'' # replicate (MAX_NAME K - 1) (CHR 0x00), de_nInode = 0\<rparr> #
                 replicate (unat (DPC K) - 2)
                   \<lparr>de_name = replicate (MAX_NAME K + 1) (CHR 0x00), de_nInode = NULL_INODE K\<rparr>)"
    using f3 f4 nm1 nm2 by (simp add: st clean_entry_def)
  have free: "mode (inode_at K st n) = INODE_FREE K \<and> refcount (inode_at K st n) = 0 \<and>
            size' (inode_at K st n) = 0 \<and> clucount (inode_at K st n) = 0 \<and>
            d (inode_at K st n) = replicate (unat (N_DIRECT K)) (NULL_CLUSTER K) \<and>
            i1 (inode_at K st n) = NULL_CLUSTER K \<and> i2 (inode_at K st n) = NULL_CLUSTER K \<and>
            vD1 (inode_at K st n) = (if n = 1 \<and> n \<noteq> itotal (sb st) - 1 then NULL_INODE K else n - 1) \<and>
            vD2 (inode_at K st n) = (if n = itotal (sb st) - 1 then NULL_INODE K else n + 1)"
    if n: "0 < n \<and> n < itotal (sb st)" for n
  proof -
    have n0: "n \<noteq> 0" using n by auto
    have nlt: "n < itotal (sb st0)" using n by (simp add: sbeq)
    have len: "length (d (inode_at K st0 n)) = unat (N_DIRECT K)" using ino[OF nlt] by simp
    have "inode_at K st n = fillInINT_inode K E (sb st0) n (inode_at K st0 n)" using ino[OF nlt] by simp
    then show ?thesis
      unfolding fillInINT_inode_free[OF n0 len] by (simp add: sbeq)
  qed
  have sbf: "ifree (sb st) = itotal (sb st) - 1 \<and> ihead (sb st) = 1 \<and> itail (sb st) = itotal (sb st) - 1 \<and>
             dzone_free (sb st) = dzone_total (sb st) - 1"
    using fillInSuperBlock_fields[of K "sb dev" ntotal' it cm fc nc name] by (simp add: sbeq st0_def)
  have bget: "bmap_bit K st c = bm_get (unat (BLOCK_SIZE K)) (bmapt st4) (unat c)" for c
    using bmap_bit_nat[OF bs(2), of st c] by (simp add: st)
  have inv: "bm_inv (unat (BLOCK_SIZE K)) (bmapt st4) (unat (dzone_total (sb st)))"
    using f4 by (simp add: sbeq sb3)
  have bits: "bmap_bit K st c = (c \<noteq> 0)" if "c < dzone_total (sb st)" for c
  proof -
    have "unat c < unat (dzone_total (sb st))" using that by (simp add: word_less_nat_alt)
    then have "bm_get (unat (BLOCK_SIZE K)) (bmapt st4) (unat c) = (unat c \<noteq> 0)"
      using inv by (simp add: bm_inv_def)
    then show ?thesis by (simp add: bget unat_eq_0)
  qed
  have b0: "\<not> bmap_bit K st 0" using bits[OF dpos] by simp
  have b1: "\<forall>c. 0 < c \<and> c < dzone_total (sb st) \<longrightarrow> bmap_bit K st c"
    using bits by (auto simp: word_gt_0)
  show ?thesis using root clu free sbf b0 b1 by blast
qed

text \<open>The formatter run on the device of 20 blocks gives the state \<open>fs20\<close>.\<close>

lemma mkfs_dev20:
  "mkfs sofs13 (env_of 1000 1000) dev20 20 8 ''SOFS13'' False = Inr fs20"
  by code_simp

text \<open>The formatter on the device of 20 blocks, asked for 8 inodes.\<close>

theorem mkfs_initial_state_witness:
  "mkfs sofs13 (env_of 1000 1000) dev20 20 8 ''SOFS13'' False = Inr fs20 \<and>
   list_all (\<lambda>blk. length blk = 8 \<and> list_all (\<lambda>ino. length (d ino) = 7) blk) (itable dev20) \<and>
   itotal (sb fs20) = 8 \<and> itable_size (sb fs20) = 1 \<and> dzone_total (sb fs20) = 4 \<and>
   mode (inode_at sofs13 fs20 0) = 0x9FF \<and> refcount (inode_at sofs13 fs20 0) = 2 \<and>
   size' (inode_at sofs13 fs20 0) = 2048 \<and> d (inode_at sofs13 fs20 0) ! 0 = 0 \<and>
   dzone fs20 ! 0 =
     DirC (\<lparr>de_name = CHR ''.'' # replicate 59 (CHR 0x00), de_nInode = 0\<rparr> #
           \<lparr>de_name = CHR ''.'' # CHR ''.'' # replicate 58 (CHR 0x00), de_nInode = 0\<rparr> #
           replicate 30 \<lparr>de_name = replicate 60 (CHR 0x00), de_nInode = 0xFFFFFFFF\<rparr>) \<and>
   mode (inode_at sofs13 fs20 1) = 0x1000 \<and> vD1 (inode_at sofs13 fs20 1) = 0xFFFFFFFF \<and>
   vD2 (inode_at sofs13 fs20 1) = 2 \<and>
   mode (inode_at sofs13 fs20 7) = 0x1000 \<and> vD1 (inode_at sofs13 fs20 7) = 6 \<and>
   vD2 (inode_at sofs13 fs20 7) = 0xFFFFFFFF \<and>
   ifree (sb fs20) = 7 \<and> ihead (sb fs20) = 1 \<and> itail (sb fs20) = 7 \<and>
   \<not> bmap_bit sofs13 fs20 0 \<and> bmap_bit sofs13 fs20 1 \<and> bmap_bit sofs13 fs20 3 \<and>
   dzone_free (sb fs20) = 3"
proof -
  have shape: "\<forall>blk \<in> set (itable dev20). length blk = unat (IPB sofs13) \<and>
                  (\<forall>ino \<in> set blk. length (d ino) = unat (N_DIRECT sofs13))"
    by (simp add: dev20_def garbage_inode_def sofs13_def)
  have sbv: "itotal (sb fs20) = 8" "itable_size (sb fs20) = 1" "dzone_total (sb fs20) = 4"
    by (simp_all add: fs20_def sb20_def)
  have th: "mode (inode_at sofs13 fs20 0) =
           (INODE_RD_OTH sofs13 OR INODE_WR_OTH sofs13 OR INODE_EX_OTH sofs13 OR
            INODE_RD_GRP sofs13 OR INODE_WR_GRP sofs13 OR INODE_EX_GRP sofs13 OR
            INODE_RD_USR sofs13 OR INODE_WR_USR sofs13 OR INODE_EX_USR sofs13 OR INODE_DIR sofs13) \<and>
         refcount (inode_at sofs13 fs20 0) = 2 \<and> size' (inode_at sofs13 fs20 0) = CLUSTER_SIZE sofs13 \<and>
         d (inode_at sofs13 fs20 0) ! 0 = 0 \<and>
         dzone fs20 ! 0 =
           DirC (\<lparr>de_name = CHR ''.'' # replicate (MAX_NAME sofs13) (CHR 0x00), de_nInode = 0\<rparr> #
                 \<lparr>de_name = CHR ''.'' # CHR ''.'' # replicate (MAX_NAME sofs13 - 1) (CHR 0x00), de_nInode = 0\<rparr> #
                 replicate (unat (DPC sofs13) - 2)
                   \<lparr>de_name = replicate (MAX_NAME sofs13 + 1) (CHR 0x00), de_nInode = NULL_INODE sofs13\<rparr>) \<and>
         (\<forall>n. 0 < n \<and> n < itotal (sb fs20) \<longrightarrow>
            mode (inode_at sofs13 fs20 n) = INODE_FREE sofs13 \<and> refcount (inode_at sofs13 fs20 n) = 0 \<and>
            size' (inode_at sofs13 fs20 n) = 0 \<and> clucount (inode_at sofs13 fs20 n) = 0 \<and>
            d (inode_at sofs13 fs20 n) = replicate (unat (N_DIRECT sofs13)) (NULL_CLUSTER sofs13) \<and>
            i1 (inode_at sofs13 fs20 n) = NULL_CLUSTER sofs13 \<and> i2 (inode_at sofs13 fs20 n) = NULL_CLUSTER sofs13 \<and>
            vD1 (inode_at sofs13 fs20 n) = (if n = 1 \<and> n \<noteq> itotal (sb fs20) - 1 then NULL_INODE sofs13 else n - 1) \<and>
            vD2 (inode_at sofs13 fs20 n) = (if n = itotal (sb fs20) - 1 then NULL_INODE sofs13 else n + 1)) \<and>
         ifree (sb fs20) = itotal (sb fs20) - 1 \<and> ihead (sb fs20) = 1 \<and> itail (sb fs20) = itotal (sb fs20) - 1 \<and>
         \<not> bmap_bit sofs13 fs20 0 \<and>
         (\<forall>c. 0 < c \<and> c < dzone_total (sb fs20) \<longrightarrow> bmap_bit sofs13 fs20 c) \<and>
         dzone_free (sb fs20) = dzone_total (sb fs20) - 1"
    by (rule mkfs_initial_state[OF mkfs_dev20 _ _ _ _ _ shape])
       (simp_all add: sbv, simp_all add: sofs13_def)
  have n1: "0 < (1::u32) \<and> (1::u32) < itotal (sb fs20)" by (simp add: sbv word_less_nat_alt)
  have n7: "0 < (7::u32) \<and> (7::u32) < itotal (sb fs20)" by (simp add: sbv word_less_nat_alt)
  have c1: "0 < (1::u32) \<and> (1::u32) < dzone_total (sb fs20)" by (simp add: sbv word_less_nat_alt)
  have c3: "0 < (3::u32) \<and> (3::u32) < dzone_total (sb fs20)" by (simp add: sbv word_less_nat_alt)
  have k: "MAX_NAME sofs13 = 59" "MAX_NAME sofs13 - 1 = 58" "MAX_NAME sofs13 + 1 = 60"
      "unat (DPC sofs13) - 2 = 30" "CLUSTER_SIZE sofs13 = 2048" "INODE_FREE sofs13 = 0x1000"
      "NULL_INODE sofs13 = 0xFFFFFFFF"
      "(INODE_RD_OTH sofs13 OR INODE_WR_OTH sofs13 OR INODE_EX_OTH sofs13 OR
            INODE_RD_GRP sofs13 OR INODE_WR_GRP sofs13 OR INODE_EX_GRP sofs13 OR
            INODE_RD_USR sofs13 OR INODE_WR_USR sofs13 OR INODE_EX_USR sofs13 OR INODE_DIR sofs13) = 0x9FF"
    by (simp_all add: sofs13_def)
  have shape': "list_all (\<lambda>blk. length blk = 8 \<and> list_all (\<lambda>ino. length (d ino) = 7) blk) (itable dev20)"
    by (simp add: dev20_def garbage_inode_def list_all_iff)
  from th have root: "mode (inode_at sofs13 fs20 0) = 0x9FF \<and> refcount (inode_at sofs13 fs20 0) = 2 \<and>
      size' (inode_at sofs13 fs20 0) = 2048 \<and> d (inode_at sofs13 fs20 0) ! 0 = 0 \<and>
      dzone fs20 ! 0 =
        DirC (\<lparr>de_name = CHR ''.'' # replicate 59 (CHR 0x00), de_nInode = 0\<rparr> #
              \<lparr>de_name = CHR ''.'' # CHR ''.'' # replicate 58 (CHR 0x00), de_nInode = 0\<rparr> #
              replicate 30 \<lparr>de_name = replicate 60 (CHR 0x00), de_nInode = 0xFFFFFFFF\<rparr>)"
    by (simp add: k)
  from th n1 have i1: "mode (inode_at sofs13 fs20 1) = 0x1000 \<and> vD1 (inode_at sofs13 fs20 1) = 0xFFFFFFFF \<and>
      vD2 (inode_at sofs13 fs20 1) = 2"
    unfolding k sbv by simp
  from th n7 have i7: "mode (inode_at sofs13 fs20 7) = 0x1000 \<and> vD1 (inode_at sofs13 fs20 7) = 6 \<and>
      vD2 (inode_at sofs13 fs20 7) = 0xFFFFFFFF"
    unfolding k sbv by simp
  from th c1 c3 have bits: "\<not> bmap_bit sofs13 fs20 0 \<and> bmap_bit sofs13 fs20 1 \<and> bmap_bit sofs13 fs20 3"
    by blast
  from th have sbf: "ifree (sb fs20) = 7 \<and> ihead (sb fs20) = 1 \<and> itail (sb fs20) = 7 \<and> dzone_free (sb fs20) = 3"
    unfolding sbv by simp
  show ?thesis using mkfs_dev20 shape' sbv root i1 i7 bits sbf by simp
qed

text \<open>
  A device with a single data cluster: the loop of fillInCIT converts no reference, and
  the formatter succeeds. Nothing but cluster 0 is there, so no cluster is free.
\<close>

lemma mkfs_dev8:
  "(case mkfs sofs13 (env_of 1000 1000) dev8 8 0 ''SOFS13'' False of
      Inl _ \<Rightarrow> False
    | Inr st \<Rightarrow> itotal (sb st) = 8 \<and> dzone_total (sb st) = 1 \<and> dzone_free (sb st) = 0 \<and>
               ctinmt st = [0 # replicate 127 0xFFFFFFFE] \<and> bmapt st = [0x7F # replicate 511 0] \<and>
               dzone st = [dzone fs20 ! 0])"
  by code_simp

end
